theory Spec2Isabelle
  imports Main "HOL-Library.AList" "HOL-Library.Sublist"
begin

section \<open>The configuration store\<close>

text \<open>
  The repository holds two variants of the program: \<^verbatim>\<open>src/main.go\<close>, organised around
  an \<^verbatim>\<open>App\<close> value with the functions \<^verbatim>\<open>getSavedConfig\<close>, \<^verbatim>\<open>saveCurrentConfig\<close>,
  \<^verbatim>\<open>filterOutFlag\<close>, \<^verbatim>\<open>parseArguments\<close>, \<^verbatim>\<open>getData\<close> and \<^verbatim>\<open>main\<close>, and
  \<^verbatim>\<open>src/unnamed/part_000\<close>, where everything happens inside one \<^verbatim>\<open>main\<close> over a global
  \<^verbatim>\<open>config\<close>. Definitions keep the names of \<^verbatim>\<open>src/main.go\<close>; the sections of the
  other \<^verbatim>\<open>main\<close> carry the suffix \<open>_part000\<close>.

  Go strings are byte strings: \<^typ>\<open>string\<close>. A slice \<^verbatim>\<open>[]string\<close> is a list, the nil
  slice being the empty list (the code only takes its length and ranges over it).
  The map \<^verbatim>\<open>SavedName\<close> is ranged over, so it is an association list whose order is the
  order of iteration, \<open>None\<close> being the nil map; \<^verbatim>\<open>Folders\<close> and
  \<^verbatim>\<open>FileTypeExecutables\<close> are only indexed and are partial functions.
\<close>

record FolderConfig =
  SavedName :: "(string \<times> string list) list option"

record Config =
  Folders :: "(string \<rightharpoonup> FolderConfig) option"
  FileTypeExecutables :: "string \<rightharpoonup> string"

text \<open>Indexing a Go map: a missing key (and any key of a nil map) gives the zero value.\<close>

definition Folders_index :: "Config \<Rightarrow> string \<Rightarrow> FolderConfig option" where
  "Folders_index cfg dir = (case Folders cfg of None \<Rightarrow> None | Some m \<Rightarrow> m dir)"

definition SavedName_index :: "FolderConfig \<Rightarrow> string \<Rightarrow> string list" where
  "SavedName_index fc name =
     (case SavedName fc of
        None \<Rightarrow> []
      | Some al \<Rightarrow> (case map_of al name of None \<Rightarrow> [] | Some ts \<Rightarrow> ts))"

definition SavedName_len :: "FolderConfig \<Rightarrow> nat" where
  "SavedName_len fc = (case SavedName fc of None \<Rightarrow> 0 | Some al \<Rightarrow> length al)"

text \<open>The keys in the order in which \<^verbatim>\<open>for name := range folderConfig.SavedName\<close> yields them.\<close>

definition SavedName_range :: "FolderConfig \<Rightarrow> string list" where
  "SavedName_range fc = (case SavedName fc of None \<Rightarrow> [] | Some al \<Rightarrow> map fst al)"

datatype save_error = MarshalFailed string | MkdirAllFailed string | WriteFileFailed string

datatype load_error = ReadConfigFailed string | ParseConfigFailed string

datatype error =
    MissingValue string
  | InvalidFileExec
  | UnknownArgument string
  | NoSavedArguments string string
  | InvalidRegex string
  | InvalidExecutable string
  | ExecutableFailed string string string string

subsection \<open>filterOutFlag\<close>

text \<open>
  \<^verbatim>\<open>for i := 0; i < len(args); i++ { if args[i] == flag { i++; continue }; append }\<close>:
  the loop over the index, with the list built so far.
\<close>

function filterOutFlag_from :: "string list \<Rightarrow> string \<Rightarrow> nat \<Rightarrow> string list \<Rightarrow> string list" where
  "filterOutFlag_from args flag i filteredArgs =
     (if i < length args then
        (if args ! i = flag then filterOutFlag_from args flag (i + 2) filteredArgs
         else filterOutFlag_from args flag (i + 1) (filteredArgs @ [args ! i]))
      else filteredArgs)"
  by pat_completeness auto
termination
  by (relation "measure (\<lambda>(args, flag, i, filteredArgs). length args - i)") auto

declare filterOutFlag_from.simps [simp del]

definition filterOutFlag :: "string list \<Rightarrow> string \<Rightarrow> string list" where
  "filterOutFlag args flag = filterOutFlag_from args flag 0 []"

text \<open>
  The spec's words for the same operation: every \<open>flag value\<close> pair met from left to
  right is removed, a trailing \<open>flag\<close> without a value too.
\<close>

fun strip_flag_pairs :: "string \<Rightarrow> string list \<Rightarrow> string list" where
  "strip_flag_pairs flag [] = []"
| "strip_flag_pairs flag [a] = (if a = flag then [] else [a])"
| "strip_flag_pairs flag (a # b # rest) =
     (if a = flag then strip_flag_pairs flag rest else a # strip_flag_pairs flag (b # rest))"

subsection \<open>getSavedConfig and saveCurrentConfig\<close>

definition getSavedConfig :: "Config \<Rightarrow> string \<Rightarrow> string \<Rightarrow> error + string list" where
  "getSavedConfig cfg currentDir name =
     (case Folders_index cfg currentDir of
        None \<Rightarrow> Inl (NoSavedArguments name currentDir)
      | Some folderConfig \<Rightarrow>
          (if SavedName folderConfig = None \<or> length (SavedName_index folderConfig name) = 0
           then Inl (NoSavedArguments name currentDir)
           else Inr (SavedName_index folderConfig name)))"

text \<open>
  \<^verbatim>\<open>saveCurrentConfig\<close> updates the configuration in memory and then writes it;
  the argument \<open>saveConfig\<close> stands for \<^verbatim>\<open>app.saveConfig\<close>, defined below from the calls
  it makes. The updated configuration is returned in both cases.
\<close>

definition saveCurrentConfig ::
  "(Config \<Rightarrow> save_error option) \<Rightarrow> Config \<Rightarrow> string \<Rightarrow> string \<Rightarrow> string list
     \<Rightarrow> Config \<times> save_error option" where
  "saveCurrentConfig saveConfig cfg currentDir name args =
     (let folders = (case Folders cfg of None \<Rightarrow> Map.empty | Some m \<Rightarrow> m);
          folderConfig = (case folders currentDir of None \<Rightarrow> \<lparr>SavedName = None\<rparr> | Some fc \<Rightarrow> fc);
          savedName = (case SavedName folderConfig of None \<Rightarrow> [] | Some al \<Rightarrow> al);
          filteredArgs = filterOutFlag args ''-name'';
          folderConfig' = folderConfig\<lparr>SavedName := Some (AList.update name filteredArgs savedName)\<rparr>;
          cfg' = cfg\<lparr>Folders := Some (folders(currentDir \<mapsto> folderConfig'))\<rparr>
      in (cfg', saveConfig cfg'))"

text \<open>What is stored under a directory and a name, if anything.\<close>

definition preset_stored :: "Config \<Rightarrow> string \<Rightarrow> string \<Rightarrow> string list option" where
  "preset_stored cfg dir name =
     (case Folders_index cfg dir of
        None \<Rightarrow> None
      | Some fc \<Rightarrow> (case SavedName fc of None \<Rightarrow> None | Some al \<Rightarrow> map_of al name))"

section \<open>Strings and messages\<close>

definition newline :: string where
  "newline = [CHR 0x0A]"

text \<open>The single quote of the messages.\<close>

definition sq :: string where
  "sq = [CHR 0x27]"

text \<open>\<^verbatim>\<open>%d\<close> of a number that is not negative.\<close>

fun itoa :: "nat \<Rightarrow> string" where
  "itoa n = (if n < 10 then [''0123456789'' ! n]
             else itoa (n div 10) @ [''0123456789'' ! (n mod 10)])"

declare itoa.simps [simp del]

text \<open>\<^verbatim>\<open>strings.HasPrefix(s, "-")\<close>.\<close>

definition HasPrefix_dash :: "string \<Rightarrow> bool" where
  "HasPrefix_dash s = prefix ''-'' s"

text \<open>\<^verbatim>\<open>strings.SplitN(pair, "=", 2)\<close>: cut at the first \<open>=\<close>, if there is one.\<close>

definition SplitN_eq :: "string \<Rightarrow> string list" where
  "SplitN_eq pair =
     (if CHR ''='' \<in> set pair
      then [takeWhile (\<lambda>c. c \<noteq> CHR ''='') pair, tl (dropWhile (\<lambda>c. c \<noteq> CHR ''='') pair)]
      else [pair])"

text \<open>
  \<^verbatim>\<open>filepath.Ext\<close> of the Go library, with \<open>/\<close> as the separator: the suffix from the
  last dot of the last path element. The library's loop runs from the last byte down.
\<close>

fun filepath_Ext_from :: "string \<Rightarrow> nat \<Rightarrow> string" where
  "filepath_Ext_from path 0 = []"
| "filepath_Ext_from path (Suc i) =
     (if path ! i = CHR ''/'' then []
      else if path ! i = CHR ''.'' then drop i path
      else filepath_Ext_from path i)"

definition filepath_Ext :: "string \<Rightarrow> string" where
  "filepath_Ext path = filepath_Ext_from path (length path)"

text \<open>\<^verbatim>\<open>reader.ReadString('\n')\<close> on what standard input holds, the error ignored.\<close>

definition ReadString_newline :: "string \<Rightarrow> string" where
  "ReadString_newline input =
     takeWhile (\<lambda>c. c \<noteq> CHR 0x0A) input @ (if CHR 0x0A \<in> set input then newline else [])"

definition languageMap :: "(string \<times> string) list" where
  "languageMap =
     [(''.go'', ''go''), (''.js'', ''javascript''), (''.ts'', ''typescript''),
      (''.fish'', ''fish''), (''.py'', ''python''), (''.java'', ''java''),
      (''.cpp'', ''cpp''), (''.c'', ''c''), (''.html'', ''html''), (''.css'', ''css''),
      (''.sh'', ''bash''), (''.md'', ''markdown''), (''.json'', ''json''),
      (''.yaml'', ''yaml''), (''.yml'', ''yaml''), (''.rs'', ''rust''),
      (''.php'', ''php''), (''.rb'', ''ruby'')]"

text \<open>\<^verbatim>\<open>language := languageMap[ext]; if language == "" { language = "plaintext" }\<close>.\<close>

definition language_of :: "string \<Rightarrow> string" where
  "language_of ext =
     (case map_of languageMap ext of
        None \<Rightarrow> ''plaintext''
      | Some language \<Rightarrow> if language = [] then ''plaintext'' else language)"

text \<open>The texts of \<^verbatim>\<open>fmt.Errorf\<close> and \<^verbatim>\<open>errors.New\<close> in \<^verbatim>\<open>src/main.go\<close>.\<close>

fun Error_msg :: "error \<Rightarrow> string" where
  "Error_msg (MissingValue flag) = ''missing value for '' @ flag"
| "Error_msg InvalidFileExec = ''invalid format for -file-exec. Expected '' @ sq @ ''.ext=executable'' @ sq"
| "Error_msg (UnknownArgument a) = ''unknown argument: '' @ a"
| "Error_msg (NoSavedArguments name dir) =
     ''no saved arguments found for name '' @ sq @ name @ sq @ '' in folder '' @ sq @ dir @ sq"
| "Error_msg (InvalidRegex err) = ''invalid regex pattern: '' @ err"
| "Error_msg (InvalidExecutable executable) = ''invalid executable command: '' @ executable"
| "Error_msg (ExecutableFailed executable filePath err out) =
     ''failed to run executable '' @ sq @ executable @ sq @ '' with file '' @ sq @ filePath @ sq
       @ '': '' @ err
       @ newline @ ''Output: '' @ out"

text \<open>The texts of \<^verbatim>\<open>log.Fatalf\<close> at the same places of \<^verbatim>\<open>src/unnamed/part_000\<close>.\<close>

fun Fatalf_part000 :: "error \<Rightarrow> string" where
  "Fatalf_part000 (MissingValue flag) = ''Missing value for '' @ flag"
| "Fatalf_part000 InvalidFileExec = ''Invalid format for -file-exec. Expected '' @ sq @ ''.ext=executable'' @ sq"
| "Fatalf_part000 (UnknownArgument a) = ''Unknown argument: '' @ a"
| "Fatalf_part000 (NoSavedArguments name dir) =
     ''No saved arguments found for name '' @ sq @ name @ sq @ '' in folder '' @ sq @ dir @ sq"
| "Fatalf_part000 (InvalidRegex err) = ''Invalid regex pattern: '' @ err"
| "Fatalf_part000 (InvalidExecutable executable) = ''Invalid executable command: '' @ executable"
| "Fatalf_part000 (ExecutableFailed executable filePath err out) =
     ''Failed to run executable '' @ sq @ executable @ sq @ '' with file '' @ sq @ filePath @ sq
       @ '': '' @ err
       @ newline @ ''Output: '' @ out"

fun save_error_msg :: "save_error \<Rightarrow> string" where
  "save_error_msg (MarshalFailed err) = ''failed to marshal config: '' @ err"
| "save_error_msg (MkdirAllFailed err) = ''failed to create config directory: '' @ err"
| "save_error_msg (WriteFileFailed err) = ''failed to write config file: '' @ err"

fun save_Fatalf_part000 :: "save_error \<Rightarrow> string" where
  "save_Fatalf_part000 (MarshalFailed err) = ''Failed to marshal config: '' @ err"
| "save_Fatalf_part000 (MkdirAllFailed err) = ''Failed to create config directory: '' @ err"
| "save_Fatalf_part000 (WriteFileFailed err) = ''Failed to write config file: '' @ err"

fun load_error_msg :: "load_error \<Rightarrow> string" where
  "load_error_msg (ReadConfigFailed err) = ''failed to read config file: '' @ err"
| "load_error_msg (ParseConfigFailed err) = ''failed to parse config file: '' @ err"

fun load_Fatalf_part000 :: "load_error \<Rightarrow> string" where
  "load_Fatalf_part000 (ReadConfigFailed err) = ''Failed to read config file: '' @ err"
| "load_Fatalf_part000 (ParseConfigFailed err) = ''Failed to parse config file: '' @ err"

section \<open>The argument parser\<close>

record Options =
  files :: "string list"
  ignorePattern :: string
  ignoreGitIgnore :: bool
  delimiter :: string
  wrapCode :: bool
  saveName :: string
  byName :: string
  execCommand :: string
  fileExecs :: "string \<rightharpoonup> string"

definition DefaultDelimiter :: string where
  "DefaultDelimiter = ''======''"

definition initial_Options :: Options where
  "initial_Options =
     \<lparr>files = [], ignorePattern = [], ignoreGitIgnore = False, delimiter = DefaultDelimiter,
      wrapCode = True, saveName = [], byName = [], execCommand = [], fileExecs = Map.empty\<rparr>"

text \<open>The pairs of one \<^verbatim>\<open>-file-exec\<close> value; a pair without \<open>=\<close> fails the parse.\<close>

fun fileExec_pairs :: "string list \<Rightarrow> (string \<rightharpoonup> string) \<Rightarrow> (string \<rightharpoonup> string) option" where
  "fileExec_pairs [] fe = Some fe"
| "fileExec_pairs (pair # pairs) fe =
     (case SplitN_eq pair of
        [k, v] \<Rightarrow> fileExec_pairs pairs (fe(k \<mapsto> v))
      | _ \<Rightarrow> None)"

text \<open>
  The loop \<^verbatim>\<open>for i := 0; i < len(args); i++ { switch args[i] ... }\<close>, on the tokens from
  index \<open>i\<close> on: \<^verbatim>\<open>i+1 >= len(args)\<close> says that no token follows, a flag with a value
  goes on after the value, \<^verbatim>\<open>-files\<close> after the tokens it took. The same loop opens
  \<^verbatim>\<open>main\<close> of \<^verbatim>\<open>src/unnamed/part_000\<close>, with \<^verbatim>\<open>log.Fatalf\<close> for the error return.
  \<open>Fields\<close> is \<^verbatim>\<open>strings.Fields\<close> of the Go library.
\<close>

function parse_loop :: "(string \<Rightarrow> string list) \<Rightarrow> string list \<Rightarrow> Options \<Rightarrow> error + Options" where
  "parse_loop Fields [] opts = Inr opts"
| "parse_loop Fields (a # rest) opts =
     (if a = ''-ignore-pattern'' then
        (case rest of [] \<Rightarrow> Inl (MissingValue a)
         | v # rest' \<Rightarrow> parse_loop Fields rest' (opts\<lparr>ignorePattern := v\<rparr>))
      else if a = ''-ignore-gitignore'' then
        parse_loop Fields rest (opts\<lparr>ignoreGitIgnore := True\<rparr>)
      else if a = ''-delimiter'' then
        (case rest of [] \<Rightarrow> Inl (MissingValue a)
         | v # rest' \<Rightarrow> parse_loop Fields rest' (opts\<lparr>delimiter := v\<rparr>))
      else if a = ''-wrap-code'' then
        (case rest of [] \<Rightarrow> Inl (MissingValue a)
         | v # rest' \<Rightarrow>
             parse_loop Fields rest' (if v = ''false'' then opts\<lparr>wrapCode := False\<rparr> else opts))
      else if a = ''-name'' then
        (case rest of [] \<Rightarrow> Inl (MissingValue a)
         | v # rest' \<Rightarrow> parse_loop Fields rest' (opts\<lparr>saveName := v\<rparr>))
      else if a = ''-by-name'' then
        (case rest of [] \<Rightarrow> Inl (MissingValue a)
         | v # rest' \<Rightarrow> parse_loop Fields rest' (opts\<lparr>byName := v\<rparr>))
      else if a = ''-files'' then
        (case rest of [] \<Rightarrow> Inl (MissingValue a)
         | v # rest' \<Rightarrow>
             parse_loop Fields (dropWhile (\<lambda>t. \<not> HasPrefix_dash t) rest)
               (opts\<lparr>files := files opts @ takeWhile (\<lambda>t. \<not> HasPrefix_dash t) rest\<rparr>))
      else if a = ''-exec'' then
        (case rest of [] \<Rightarrow> Inl (MissingValue a)
         | v # rest' \<Rightarrow> parse_loop Fields rest' (opts\<lparr>execCommand := v\<rparr>))
      else if a = ''-file-exec'' then
        (case rest of [] \<Rightarrow> Inl (MissingValue a)
         | v # rest' \<Rightarrow>
             (case fileExec_pairs (Fields v) (fileExecs opts) of
                None \<Rightarrow> Inl InvalidFileExec
              | Some fe \<Rightarrow> parse_loop Fields rest' (opts\<lparr>fileExecs := fe\<rparr>)))
      else Inl (UnknownArgument a))"
  by pat_completeness auto
termination
  by (relation "measure (\<lambda>(Fields, args, opts). length args)")
     (auto simp: less_Suc_eq_le length_dropWhile_le intro!: le_SucI)

definition parseArguments :: "(string \<Rightarrow> string list) \<Rightarrow> string list \<Rightarrow> error + Options" where
  "parseArguments Fields args = parse_loop Fields args initial_Options"

section \<open>The world outside the program\<close>

text \<open>What \<^verbatim>\<open>os.ReadFile\<close> gives for the configuration file.\<close>

datatype file_read = NotExist | ReadError string | Contents string

text \<open>
  What the program does not compute itself is taken from an environment: the calls of
  the Go library and of the operating system, each with the results it can have
  (\<open>Inl\<close> is the error of the call). Running an executable changes the world \<open>'w\<close>, and
  a file is read in the world as it is then; the other calls happen once in a run.
\<close>

record 'w env =
  os_UserHomeDir :: "string + string"
  config_ReadFile :: file_read
  json_Unmarshal :: "string \<Rightarrow> Config \<Rightarrow> string + Config"
  json_MarshalIndent :: "Config \<Rightarrow> string + string"
  os_MkdirAll :: "string option"
  os_WriteFile :: "string \<Rightarrow> string option"
  os_Getwd :: "string + string"
  os_Stdin :: string
  strings_Fields :: "string \<Rightarrow> string list"
  strings_TrimSpace :: "string \<Rightarrow> string"
  fmt_Sscanf_d :: "string \<Rightarrow> int option"
  fmt_Scanln_d :: "string \<Rightarrow> int option"
  regexp_Compile :: "string \<Rightarrow> string + (string \<Rightarrow> bool)"
  git_PlainOpen :: bool
  gitignore_ReadPatterns :: "string + (string \<Rightarrow> bool)"
  filepath_Rel :: "string \<Rightarrow> string + string"
  exec_CombinedOutput :: "'w \<Rightarrow> string \<Rightarrow> string list \<Rightarrow> (string \<times> string option) \<times> 'w"
  os_ReadFile :: "'w \<Rightarrow> string \<Rightarrow> string + string"
  clipboard_WriteAll :: "string \<Rightarrow> string option"

section \<open>Loading and saving the configuration\<close>

text \<open>
  \<^verbatim>\<open>NewApp\<close> with \<^verbatim>\<open>loadConfig\<close> of \<^verbatim>\<open>src/main.go\<close>: the configuration starts with two
  empty maps, a missing file leaves it so, and the file is decoded into it
  (\<open>json_Unmarshal\<close> gives the configuration after the decoding, or the error).
\<close>

definition loadConfig :: "'w env \<Rightarrow> load_error + Config" where
  "loadConfig env =
     (case config_ReadFile env of
        NotExist \<Rightarrow> Inr \<lparr>Folders = Some Map.empty, FileTypeExecutables = Map.empty\<rparr>
      | ReadError err \<Rightarrow> Inl (ReadConfigFailed err)
      | Contents data \<Rightarrow>
          (case json_Unmarshal env data
                  \<lparr>Folders = Some Map.empty, FileTypeExecutables = Map.empty\<rparr> of
             Inl err \<Rightarrow> Inl (ParseConfigFailed err)
           | Inr cfg \<Rightarrow> Inr cfg))"

text \<open>
  \<^verbatim>\<open>loadConfig\<close> of \<^verbatim>\<open>src/unnamed/part_000\<close>, called by \<^verbatim>\<open>init\<close>: the file is decoded
  into the global \<^verbatim>\<open>config\<close>, whose maps are nil until then; a missing file gives two
  empty maps.
\<close>

definition loadConfig_part000 :: "'w env \<Rightarrow> load_error + Config" where
  "loadConfig_part000 env =
     (case config_ReadFile env of
        NotExist \<Rightarrow> Inr \<lparr>Folders = Some Map.empty, FileTypeExecutables = Map.empty\<rparr>
      | ReadError err \<Rightarrow> Inl (ReadConfigFailed err)
      | Contents data \<Rightarrow>
          (case json_Unmarshal env data \<lparr>Folders = None, FileTypeExecutables = Map.empty\<rparr> of
             Inl err \<Rightarrow> Inl (ParseConfigFailed err)
           | Inr cfg \<Rightarrow> Inr cfg))"

text \<open>\<^verbatim>\<open>saveConfig\<close>, the same three steps in both variants.\<close>

definition saveConfig :: "'w env \<Rightarrow> Config \<Rightarrow> save_error option" where
  "saveConfig env cfg =
     (case json_MarshalIndent env cfg of
        Inl err \<Rightarrow> Some (MarshalFailed err)
      | Inr data \<Rightarrow>
          (case os_MkdirAll env of
             Some err \<Rightarrow> Some (MkdirAllFailed err)
           | None \<Rightarrow>
               (case os_WriteFile env data of
                  Some err \<Rightarrow> Some (WriteFileFailed err)
                | None \<Rightarrow> None)))"

section \<open>The file processor\<close>

text \<open>What is fixed before the loop over the files.\<close>

record Prepared =
  ignoreRegex :: "(string \<Rightarrow> bool) option"
  gitIgnoreMatcher :: "(string \<Rightarrow> bool) option"
  finalFileTypeExecutables :: "string \<rightharpoonup> string"

definition compile_ignore :: "'w env \<Rightarrow> string \<Rightarrow> error + (string \<Rightarrow> bool) option" where
  "compile_ignore env pat =
     (if pat \<noteq> [] then
        (case regexp_Compile env pat of
           Inl err \<Rightarrow> Inl (InvalidRegex err)
         | Inr re \<Rightarrow> Inr (Some re))
      else Inr None)"

definition load_gitignore :: "'w env \<Rightarrow> bool \<Rightarrow> (string \<Rightarrow> bool) option \<times> string list" where
  "load_gitignore env ign =
     (if ign then (None, [])
      else if git_PlainOpen env then
        (case gitignore_ReadPatterns env of
           Inl err \<Rightarrow> (None, [''Error reading .gitignore patterns: '' @ err])
         | Inr matcher \<Rightarrow> (Some matcher, []))
      else (None, []))"

definition prepare :: "Options \<Rightarrow> (string \<rightharpoonup> string) \<Rightarrow> (string \<Rightarrow> bool) option
    \<Rightarrow> (string \<Rightarrow> bool) option \<Rightarrow> Prepared" where
  "prepare opts fileTypeExecutables re matcher =
     \<lparr>ignoreRegex = re, gitIgnoreMatcher = matcher,
      finalFileTypeExecutables = fileTypeExecutables ++ fileExecs opts\<rparr>"

text \<open>\<^verbatim>\<open>ignoreRegex != nil && ignoreRegex.MatchString(filePath)\<close>.\<close>

definition regex_ignored :: "Prepared \<Rightarrow> string \<Rightarrow> bool" where
  "regex_ignored p filePath = (case ignoreRegex p of None \<Rightarrow> False | Some re \<Rightarrow> re filePath)"

datatype gitcheck = Pass | SkipSilent | SkipLogged string

definition gitignore_check :: "'w env \<Rightarrow> Options \<Rightarrow> Prepared \<Rightarrow> string \<Rightarrow> gitcheck" where
  "gitignore_check env opts p filePath =
     (if ignoreGitIgnore opts then Pass
      else case gitIgnoreMatcher p of
        None \<Rightarrow> Pass
      | Some matcher \<Rightarrow>
          (case filepath_Rel env filePath of
             Inl err \<Rightarrow> SkipLogged (''Error getting relative path for '' @ filePath @ '': '' @ err)
           | Inr relPath \<Rightarrow> if matcher relPath then SkipSilent else Pass))"

definition resolve_executable :: "Options \<Rightarrow> Prepared \<Rightarrow> string \<Rightarrow> string" where
  "resolve_executable opts p ext =
     (if execCommand opts \<noteq> [] then execCommand opts
      else case finalFileTypeExecutables p ext of Some cmd \<Rightarrow> cmd | None \<Rightarrow> [])"

text \<open>
  Running the executable, if there is one: the captured output that the variable
  \<^verbatim>\<open>executableOutput\<close> holds afterwards, or the error that ends the run.
\<close>

definition run_executable ::
  "'w env \<Rightarrow> 'w \<Rightarrow> string \<Rightarrow> string \<Rightarrow> string \<Rightarrow> error + ('w \<times> string)" where
  "run_executable env w executable filePath executableOutput =
     (if executable \<noteq> [] then
        (case strings_Fields env executable of
           [] \<Rightarrow> Inl (InvalidExecutable executable)
         | prog # rest \<Rightarrow>
             (case exec_CombinedOutput env w prog (rest @ [filePath]) of
                ((out, Some err), w') \<Rightarrow> Inl (ExecutableFailed executable filePath err out)
              | ((out, None), w') \<Rightarrow> Inr (w', out)))
      else Inr (w, executableOutput))"

definition emit_block :: "Options \<Rightarrow> string \<Rightarrow> string \<Rightarrow> string \<Rightarrow> string \<Rightarrow> string" where
  "emit_block opts filePath language content executableOutput =
     filePath @ newline
     @ (if wrapCode opts then ''```'' @ language @ newline else [])
     @ content @ newline
     @ (if wrapCode opts then ''```'' @ newline else [])
     @ (if executableOutput \<noteq> [] then executableOutput @ newline else [])
     @ delimiter opts @ newline"

text \<open>
  The body of the loop \<^verbatim>\<open>for _, filePath := range files\<close>, the same text in both
  variants, on the state (world, output buffer, log, \<^verbatim>\<open>executableOutput\<close>). An error
  comes with the log written so far.
\<close>

type_synonym 'w loop_state = "'w \<times> string \<times> string list \<times> string"

definition process_file ::
  "'w env \<Rightarrow> Options \<Rightarrow> Prepared \<Rightarrow> string \<Rightarrow> 'w loop_state
     \<Rightarrow> (error \<times> string list) + 'w loop_state" where
  "process_file env opts p filePath s =
     (case s of (w, out, lg, executableOutput) \<Rightarrow>
        if regex_ignored p filePath then Inr s
        else case gitignore_check env opts p filePath of
          SkipSilent \<Rightarrow> Inr s
        | SkipLogged line \<Rightarrow> Inr (w, out, lg @ [line], executableOutput)
        | Pass \<Rightarrow>
            (case run_executable env w (resolve_executable opts p (filepath_Ext filePath))
                    filePath executableOutput of
               Inl e \<Rightarrow> Inl (e, lg)
             | Inr (w', executableOutput') \<Rightarrow>
                 (case os_ReadFile env w' filePath of
                    Inl err \<Rightarrow>
                      Inr (w', out, lg @ [''Error reading file '' @ filePath @ '': '' @ err],
                           executableOutput')
                  | Inr content \<Rightarrow>
                      Inr (w', out @ emit_block opts filePath (language_of (filepath_Ext filePath))
                                       content executableOutput',
                           lg, executableOutput'))))"

text \<open>
  In \<^verbatim>\<open>src/main.go\<close> the variable is declared inside the body
  (\<^verbatim>\<open>var executableOutput string\<close>): every turn starts from the empty string.
\<close>

fun getData_loop ::
  "'w env \<Rightarrow> Options \<Rightarrow> Prepared \<Rightarrow> string list \<Rightarrow> 'w \<times> string \<times> string list
     \<Rightarrow> (error \<times> string list) + ('w \<times> string \<times> string list)" where
  "getData_loop env opts p [] s = Inr s"
| "getData_loop env opts p (filePath # rest) (w, out, lg) =
     (case process_file env opts p filePath (w, out, lg, []) of
        Inl e \<Rightarrow> Inl e
      | Inr (w', out', lg', executableOutput) \<Rightarrow> getData_loop env opts p rest (w', out', lg'))"

text \<open>
  In \<^verbatim>\<open>src/unnamed/part_000\<close> it is declared once, before the arguments are parsed:
  a turn starts from what the turn before left.
\<close>

fun loop_part000 ::
  "'w env \<Rightarrow> Options \<Rightarrow> Prepared \<Rightarrow> string list \<Rightarrow> 'w loop_state
     \<Rightarrow> (error \<times> string list) + 'w loop_state" where
  "loop_part000 env opts p [] s = Inr s"
| "loop_part000 env opts p (filePath # rest) s =
     (case process_file env opts p filePath s of
        Inl e \<Rightarrow> Inl e
      | Inr s' \<Rightarrow> loop_part000 env opts p rest s')"

text \<open>
  \<^verbatim>\<open>getData\<close> receives the parsed options and the persisted executables; it returns the
  output or the error, with the log lines written and the world left.
\<close>

definition getData ::
  "'w env \<Rightarrow> 'w \<Rightarrow> Options \<Rightarrow> (string \<rightharpoonup> string)
     \<Rightarrow> (error \<times> string list) + ('w \<times> string \<times> string list)" where
  "getData env w opts fileTypeExecutables =
     (case compile_ignore env (ignorePattern opts) of
        Inl e \<Rightarrow> Inl (e, [])
      | Inr re \<Rightarrow>
          (case load_gitignore env (ignoreGitIgnore opts) of
             (matcher, lg0) \<Rightarrow>
               getData_loop env opts (prepare opts fileTypeExecutables re matcher)
                 (files opts) (w, [], lg0)))"

text \<open>Lines 259 to 371 of \<^verbatim>\<open>src/unnamed/part_000\<close>.\<close>

definition process_part000 ::
  "'w env \<Rightarrow> 'w \<Rightarrow> Options \<Rightarrow> (string \<rightharpoonup> string)
     \<Rightarrow> (error \<times> string list) + 'w loop_state" where
  "process_part000 env w opts fileTypeExecutables =
     (case compile_ignore env (ignorePattern opts) of
        Inl e \<Rightarrow> Inl (e, [])
      | Inr re \<Rightarrow>
          (case load_gitignore env (ignoreGitIgnore opts) of
             (matcher, lg0) \<Rightarrow>
               loop_part000 env opts (prepare opts fileTypeExecutables re matcher)
                 (files opts) (w, [], lg0, [])))"

section \<open>The two programs\<close>

text \<open>
  How a run ends: \<^verbatim>\<open>log.Fatalf\<close> with its message (exit status 1), the configuration
  saved, or the output copied to the clipboard (both exit status 0).
\<close>

datatype outcome = Fatal string | Saved Config | Copied string

text \<open>
  A run: what it printed to standard output, what it logged before its end, the
  arguments \<^verbatim>\<open>os.Args[1:]\<close> as the run left them, and how it ended.
\<close>

record Run =
  stdout :: string
  logged :: "string list"
  os_Args :: "string list"
  outcome :: outcome

definition fatal :: "string \<Rightarrow> string list \<Rightarrow> string list \<Rightarrow> string \<Rightarrow> Run" where
  "fatal sout lg args msg = \<lparr>stdout = sout, logged = lg, os_Args = args, outcome = Fatal msg\<rparr>"

text \<open>The lines \<^verbatim>\<open>Printf("%d" + sep + "%s\n", i+1, name)\<close> of the list of names.\<close>

definition numbered :: "string \<Rightarrow> string list \<Rightarrow> string" where
  "numbered sep names =
     concat (map (\<lambda>(i, name). itoa (i + 1) @ sep @ name @ newline) (enumerate 0 names))"

text \<open>What is printed before the choice is read, in \<^verbatim>\<open>src/main.go\<close> and in the other variant.\<close>

definition prompt_main :: "string list \<Rightarrow> string" where
  "prompt_main savedNames =
     ''Select a saved configuration:'' @ newline
     @ numbered ''. '' savedNames
     @ ''Enter the number of the configuration to load: ''"

definition prompt_part000 :: "string list \<Rightarrow> string" where
  "prompt_part000 savedNames =
     ''Multiple saved names found. Please select one:'' @ newline
     @ numbered '': '' savedNames
     @ ''Enter the number of the name to use: ''"

subsection \<open>src/main.go\<close>

text \<open>Lines 406 to 440 of \<^verbatim>\<open>main\<close>: from the parse of \<open>args\<close> to the end.\<close>

definition main_parsed :: "'w env \<Rightarrow> 'w \<Rightarrow> Config \<Rightarrow> string list \<Rightarrow> string \<Rightarrow> Run" where
  "main_parsed env w cfg args sout =
     (case parseArguments (strings_Fields env) args of
        Inl e \<Rightarrow> fatal sout [] args (''Failed to parse arguments: '' @ Error_msg e)
      | Inr opts \<Rightarrow>
          if saveName opts \<noteq> [] then
            (case os_Getwd env of
               Inl err \<Rightarrow> fatal sout [] args (''Failed to get current directory: '' @ err)
             | Inr currentDir \<Rightarrow>
                 (case saveCurrentConfig (saveConfig env) cfg currentDir (saveName opts) args of
                    (cfg', Some err) \<Rightarrow>
                      fatal sout [] args (''Failed to save configuration: '' @ save_error_msg err)
                  | (cfg', None) \<Rightarrow>
                      \<lparr>stdout = sout @ ''Arguments saved for name '' @ sq @ saveName opts @ sq
                                 @ '' in folder '' @ sq @ currentDir @ sq @ newline,
                       logged = [], os_Args = args, outcome = Saved cfg'\<rparr>))
          else if length (files opts) = 0 then
            fatal sout [] args ''No files specified. Please provide at least one file.''
          else
            (case getData env w opts (FileTypeExecutables cfg) of
               Inl (e, lg) \<Rightarrow> fatal sout lg args (''Failed to process files: '' @ Error_msg e)
             | Inr (w', out, lg) \<Rightarrow>
                 (case clipboard_WriteAll env out of
                    Some err \<Rightarrow> fatal sout lg args (''Failed to copy output to clipboard: '' @ err)
                  | None \<Rightarrow>
                      \<lparr>stdout = sout @ ''Output has been copied to the clipboard.'' @ newline,
                       logged = lg, os_Args = args, outcome = Copied out\<rparr>)))"

text \<open>
  \<^verbatim>\<open>main\<close> on the arguments \<^verbatim>\<open>os.Args[1:]\<close>: the start of the application, the
  selection of a saved configuration when there is no argument at all, then the rest.
\<close>

definition main :: "'w env \<Rightarrow> 'w \<Rightarrow> string list \<Rightarrow> Run" where
  "main env w args =
     (case os_UserHomeDir env of
        Inl err \<Rightarrow> fatal [] [] args (''Failed to get user home directory: '' @ err)
      | Inr homeDir \<Rightarrow>
     (case loadConfig env of
        Inl e \<Rightarrow> fatal [] [] args (''Failed to initialize application: '' @ load_error_msg e)
      | Inr cfg \<Rightarrow>
          if length args = 0 then
            (case os_Getwd env of
               Inl err \<Rightarrow> fatal [] [] args (''Failed to get current directory: '' @ err)
             | Inr currentDir \<Rightarrow>
                 (case Folders_index cfg currentDir of
                    None \<Rightarrow>
                      fatal [] [] args
                        (''No saved configurations found for folder '' @ sq @ currentDir @ sq)
                  | Some folderConfig \<Rightarrow>
                      if SavedName_len folderConfig = 0 then
                        fatal [] [] args
                          (''No saved configurations found for folder '' @ sq @ currentDir @ sq)
                      else
                        (let savedNames = SavedName_range folderConfig;
                             sout = prompt_main savedNames
                         in case fmt_Scanln_d env (os_Stdin env) of
                              None \<Rightarrow> fatal sout [] args ''Invalid choice''
                            | Some choice \<Rightarrow>
                                if choice < 1 \<or> choice > int (length savedNames) then
                                  fatal sout [] args ''Invalid choice''
                                else
                                  (case getSavedConfig cfg currentDir
                                          (savedNames ! nat (choice - 1)) of
                                     Inl e \<Rightarrow>
                                       fatal sout [] args
                                         (''Failed to load saved configuration: '' @ Error_msg e)
                                   | Inr savedArgs \<Rightarrow>
                                       main_parsed env w cfg savedArgs sout))))
          else main_parsed env w cfg args []))"

subsection \<open>src/unnamed/part_000\<close>

text \<open>
  Lines 179 to 206: the arguments as they came, \<^verbatim>\<open>os.Args[1:]\<close>, are stored under the
  name.
\<close>

definition store_part000 :: "Config \<Rightarrow> string \<Rightarrow> string \<Rightarrow> string list \<Rightarrow> Config" where
  "store_part000 cfg currentDir name args =
     (let folders = (case Folders cfg of None \<Rightarrow> Map.empty | Some m \<Rightarrow> m);
          folderConfig = (case folders currentDir of None \<Rightarrow> \<lparr>SavedName = None\<rparr> | Some fc \<Rightarrow> fc);
          savedName = (case SavedName folderConfig of None \<Rightarrow> [] | Some al \<Rightarrow> al);
          folderConfig' = folderConfig\<lparr>SavedName := Some (AList.update name args savedName)\<rparr>
      in cfg\<lparr>Folders := Some (folders(currentDir \<mapsto> folderConfig'))\<rparr>)"

definition usage_part000 :: "string \<Rightarrow> string \<Rightarrow> string" where
  "usage_part000 prog currentDir =
     ''Usage: '' @ prog
     @ '' -files <file1> <file2> ... [-ignore-pattern <regex>] [-ignore-gitignore] [-delimiter <string>] [-wrap-code <true|false>] [-name <name>] [-by-name <name>] [-exec <command>] [-file-exec .ext=executable]''
     @ newline @ newline
     @ ''No saved arguments found in folder '' @ sq @ currentDir @ sq
     @ ''. Please save arguments first using the -name option.''"

text \<open>
  Lines 245 to 250: one line of standard input, trimmed and scanned with \<^verbatim>\<open>%d\<close>; the
  index stays 0 when the scan fails.
\<close>

definition selection_part000 :: "'w env \<Rightarrow> int" where
  "selection_part000 env =
     (let input = strings_TrimSpace env (ReadString_newline (os_Stdin env))
      in case fmt_Sscanf_d env input of None \<Rightarrow> 0 | Some n \<Rightarrow> n)"

text \<open>
  Lines 208 to 257: the selection of saved arguments. The result is the text printed
  and either the message of \<^verbatim>\<open>log.Fatalf\<close> or the new \<^verbatim>\<open>os.Args[1:]\<close>.
\<close>

definition resolve_part000 ::
  "'w env \<Rightarrow> Config \<Rightarrow> Options \<Rightarrow> string \<Rightarrow> string list \<Rightarrow> string \<times> (string + string list)" where
  "resolve_part000 env cfg opts prog args =
     (if byName opts \<noteq> [] then
        (case os_Getwd env of
           Inl err \<Rightarrow> ([], Inl (''Failed to get current directory: '' @ err))
         | Inr currentDir \<Rightarrow>
             (case Folders_index cfg currentDir of
                None \<Rightarrow> ([], Inl (Fatalf_part000 (NoSavedArguments (byName opts) currentDir)))
              | Some folderConfig \<Rightarrow>
                  if SavedName folderConfig = None
                     \<or> length (SavedName_index folderConfig (byName opts)) = 0
                  then ([], Inl (Fatalf_part000 (NoSavedArguments (byName opts) currentDir)))
                  else ([], Inr (SavedName_index folderConfig (byName opts)))))
      else if length (files opts) = 0 then
        (case os_Getwd env of
           Inl err \<Rightarrow> ([], Inl (''Failed to get current directory: '' @ err))
         | Inr currentDir \<Rightarrow>
             (case Folders_index cfg currentDir of
                None \<Rightarrow> ([], Inl (usage_part000 prog currentDir))
              | Some folderConfig \<Rightarrow>
                  if SavedName folderConfig = None \<or> SavedName_len folderConfig = 0
                  then ([], Inl (usage_part000 prog currentDir))
                  else
                    (let savedNames = SavedName_range folderConfig in
                     if length savedNames = 1 then
                       ([], Inr (SavedName_index folderConfig (savedNames ! 0)))
                     else
                       (let sout = prompt_part000 savedNames;
                            index = selection_part000 env
                        in if index < 1 \<or> index > int (length savedNames) then
                             (sout, Inl ''Invalid selection'')
                           else
                             (sout, Inr (SavedName_index folderConfig
                                           (savedNames ! nat (index - 1))))))))
      else ([], Inr args))"

text \<open>
  \<^verbatim>\<open>init\<close> and \<^verbatim>\<open>main\<close> on the program name \<^verbatim>\<open>os.Args[0]\<close> and the arguments
  \<^verbatim>\<open>os.Args[1:]\<close>. The files are processed with the options parsed at the start.
\<close>

definition main_part000 :: "'w env \<Rightarrow> 'w \<Rightarrow> string \<Rightarrow> string list \<Rightarrow> Run" where
  "main_part000 env w prog args =
     (case os_UserHomeDir env of
        Inl err \<Rightarrow> fatal [] [] args (''Failed to get user home directory: '' @ err)
      | Inr homeDir \<Rightarrow>
     (case loadConfig_part000 env of
        Inl e \<Rightarrow> fatal [] [] args (load_Fatalf_part000 e)
      | Inr cfg \<Rightarrow>
     (case parseArguments (strings_Fields env) args of
        Inl e \<Rightarrow> fatal [] [] args (Fatalf_part000 e)
      | Inr opts \<Rightarrow>
          if saveName opts \<noteq> [] then
            (case os_Getwd env of
               Inl err \<Rightarrow> fatal [] [] args (''Failed to get current directory: '' @ err)
             | Inr currentDir \<Rightarrow>
                 (case saveConfig env (store_part000 cfg currentDir (saveName opts) args) of
                    Some err \<Rightarrow> fatal [] [] args (save_Fatalf_part000 err)
                  | None \<Rightarrow>
                      \<lparr>stdout = ''Arguments saved for name '' @ sq @ saveName opts @ sq
                                 @ '' in folder '' @ sq @ currentDir @ sq @ newline,
                       logged = [], os_Args = args,
                       outcome = Saved (store_part000 cfg currentDir (saveName opts) args)\<rparr>))
          else
            (case resolve_part000 env cfg opts prog args of
               (sout, Inl msg) \<Rightarrow> fatal sout [] args msg
             | (sout, Inr args') \<Rightarrow>
                 (case process_part000 env w opts (FileTypeExecutables cfg) of
                    Inl (e, lg) \<Rightarrow> fatal sout lg args' (Fatalf_part000 e)
                  | Inr (w', out, lg, executableOutput) \<Rightarrow>
                      (case clipboard_WriteAll env out of
                         Some err \<Rightarrow>
                           fatal sout lg args' (''Failed to copy output to clipboard: '' @ err)
                       | None \<Rightarrow>
                           \<lparr>stdout = sout @ ''Output has been copied to the clipboard.'' @ newline,
                            logged = lg, os_Args = args', outcome = Copied out\<rparr>))))))"

section \<open>Notions used in the statements\<close>

text \<open>A captured output that some run of an executable gave.\<close>

definition from_exec :: "'w env \<Rightarrow> string \<Rightarrow> bool" where
  "from_exec env eo = (\<exists>w0 prog args. eo = fst (fst (exec_CombinedOutput env w0 prog args)))"

text \<open>
  The block of a file that was emitted, from its path, the content read and the
  captured output written with it.
\<close>

definition block_of :: "Options \<Rightarrow> string \<times> string \<times> string \<Rightarrow> string" where
  "block_of opts b = (case b of (f, c, eo) \<Rightarrow> emit_block opts f (language_of (filepath_Ext f)) c eo)"

text \<open>
  Such a triple belongs to a run: the path was not ignored by the pattern, the content
  was read from the file, the captured output is empty or came from an executable.
\<close>

definition emitted :: "'w env \<Rightarrow> Prepared \<Rightarrow> string \<times> string \<times> string \<Rightarrow> bool" where
  "emitted env p b = (case b of (f, c, eo) \<Rightarrow>
      \<not> regex_ignored p f \<and> (\<exists>w0. os_ReadFile env w0 f = Inr c) \<and> (eo = [] \<or> from_exec env eo))"

text \<open>What \<^verbatim>\<open>getData\<close> has prepared when its loop starts (no matcher if the pattern is bad).\<close>

definition prepared :: "'w env \<Rightarrow> Options \<Rightarrow> (string \<rightharpoonup> string) \<Rightarrow> Prepared" where
  "prepared env opts fileTypeExecutables =
     prepare opts fileTypeExecutables
       (case compile_ignore env (ignorePattern opts) of Inl e \<Rightarrow> None | Inr re \<Rightarrow> re)
       (fst (load_gitignore env (ignoreGitIgnore opts)))"

text \<open>What a run copied to the clipboard, and the message it died with.\<close>

definition copied :: "Run \<Rightarrow> string option" where
  "copied r = (case outcome r of Copied out \<Rightarrow> Some out | _ \<Rightarrow> None)"

definition fatal_message :: "Run \<Rightarrow> string option" where
  "fatal_message r = (case outcome r of Fatal msg \<Rightarrow> Some msg | _ \<Rightarrow> None)"

text \<open>
  A text without the fence marker that is empty or ends with a newline: what the
  output is made of when nothing that enters it holds the marker.
\<close>

definition fence_free :: "string \<Rightarrow> bool" where
  "fence_free s = (\<not> sublist ''```'' s)"

definition clean :: "string \<Rightarrow> bool" where
  "clean s = (fence_free s \<and> (s = [] \<or> last s = CHR 0x0A))"

text \<open>
  A decimal numeral is one digit or more and nothing else; a text with no digit in it
  is no number whatever the scanner; the first line of a text ends before its newline.
\<close>

definition is_digit :: "char \<Rightarrow> bool" where
  "is_digit c = (c \<in> set ''0123456789'')"

definition decimal :: "string \<Rightarrow> bool" where
  "decimal s = (s \<noteq> [] \<and> list_all is_digit s)"

definition no_digit :: "string \<Rightarrow> bool" where
  "no_digit s = (\<not> list_ex is_digit s)"

definition first_line :: "string \<Rightarrow> string" where
  "first_line input = takeWhile (\<lambda>c. c \<noteq> CHR 0x0A) input"

section \<open>What a run has emitted\<close>

text \<open>
  The triple (path, content, captured output) for which the body of the loop writes
  a block, when it processes the file in the world \<open>w\<close> with the captured output
  \<open>executableOutput\<close> coming in: the file is not ignored by the pattern, passes the
  ignore rules, its executable (if any) succeeds, and its content is read.
\<close>

definition block_at ::
  "'w env \<Rightarrow> Options \<Rightarrow> Prepared \<Rightarrow> string \<Rightarrow> 'w \<Rightarrow> string
     \<Rightarrow> (string \<times> string \<times> string) option" where
  "block_at env opts p filePath w executableOutput =
     (if regex_ignored p filePath then None
      else case gitignore_check env opts p filePath of
        SkipSilent \<Rightarrow> None
      | SkipLogged line \<Rightarrow> None
      | Pass \<Rightarrow>
          (case run_executable env w (resolve_executable opts p (filepath_Ext filePath))
                  filePath executableOutput of
             Inl e \<Rightarrow> None
           | Inr (w', executableOutput') \<Rightarrow>
               (case os_ReadFile env w' filePath of
                  Inl err \<Rightarrow> None
                | Inr content \<Rightarrow> Some (filePath, content, executableOutput'))))"

text \<open>
  The triples of the files of a list, in the order of the list, as the two loops go
  through it: each file is taken in the state that the files before it have left.
\<close>

fun emitted_main ::
  "'w env \<Rightarrow> Options \<Rightarrow> Prepared \<Rightarrow> string list \<Rightarrow> 'w \<times> string \<times> string list
     \<Rightarrow> (string \<times> string \<times> string) list" where
  "emitted_main env opts p [] s = []"
| "emitted_main env opts p (filePath # rest) (w, out, lg) =
     (case process_file env opts p filePath (w, out, lg, []) of
        Inl e \<Rightarrow> []
      | Inr (w', out', lg', executableOutput) \<Rightarrow>
          (case block_at env opts p filePath w [] of None \<Rightarrow> [] | Some b \<Rightarrow> [b])
          @ emitted_main env opts p rest (w', out', lg'))"

fun emitted_part000 ::
  "'w env \<Rightarrow> Options \<Rightarrow> Prepared \<Rightarrow> string list \<Rightarrow> 'w loop_state
     \<Rightarrow> (string \<times> string \<times> string) list" where
  "emitted_part000 env opts p [] s = []"
| "emitted_part000 env opts p (filePath # rest) (w, out, lg, executableOutput) =
     (case process_file env opts p filePath (w, out, lg, executableOutput) of
        Inl e \<Rightarrow> []
      | Inr s' \<Rightarrow>
          (case block_at env opts p filePath w executableOutput of None \<Rightarrow> [] | Some b \<Rightarrow> [b])
          @ emitted_part000 env opts p rest s')"

text \<open>The triples of a whole run of \<^verbatim>\<open>getData\<close>, and of the loop of the other variant.\<close>

definition getData_emitted ::
  "'w env \<Rightarrow> 'w \<Rightarrow> Options \<Rightarrow> (string \<rightharpoonup> string) \<Rightarrow> (string \<times> string \<times> string) list" where
  "getData_emitted env w opts fileTypeExecutables =
     emitted_main env opts (prepared env opts fileTypeExecutables) (files opts)
       (w, [], snd (load_gitignore env (ignoreGitIgnore opts)))"

definition process_part000_emitted ::
  "'w env \<Rightarrow> 'w \<Rightarrow> Options \<Rightarrow> (string \<rightharpoonup> string) \<Rightarrow> (string \<times> string \<times> string) list" where
  "process_part000_emitted env w opts fileTypeExecutables =
     emitted_part000 env opts (prepared env opts fileTypeExecutables) (files opts)
       (w, [], snd (load_gitignore env (ignoreGitIgnore opts)), [])"

text \<open>No part of a triple holds the fence marker.\<close>

definition triple_fence_free :: "string \<times> string \<times> string \<Rightarrow> bool" where
  "triple_fence_free b = (case b of (f, c, eo) \<Rightarrow> fence_free f \<and> fence_free c \<and> fence_free eo)"

section \<open>An environment for the examples\<close>

text \<open>
  A small world to run the programs in: the configuration file decodes to a given
  configuration and every write succeeds, the current directory is \<open>/proj\<close>, the files
  are a map from paths to contents, the world counts the executables run, a line of
  input is scanned as 1, 2 or 3, the pattern of \<^verbatim>\<open>-ignore-pattern\<close> is taken
  literally, the ignore rules of the repository exclude \<^verbatim>\<open>build/\<close>, and the executables
  are \<^verbatim>\<open>fail\<close> (which fails), \<^verbatim>\<open>quiet\<close> (which prints nothing) and any other (which
  prints a line about its last argument).
\<close>

fun split_spaces :: "string \<Rightarrow> string \<Rightarrow> string list" where
  "split_spaces [] cur = (if cur = [] then [] else [cur])"
| "split_spaces (c # cs) cur =
     (if c = CHR '' '' then (if cur = [] then split_spaces cs [] else cur # split_spaces cs [])
      else split_spaces cs (cur @ [c]))"

definition example_env :: "(string \<rightharpoonup> string) \<Rightarrow> Config \<Rightarrow> string \<Rightarrow> nat env" where
  "example_env fs cfg input =
     \<lparr>os_UserHomeDir = Inr ''/home/u'',
      config_ReadFile = Contents ''{}'',
      json_Unmarshal = (\<lambda>data initial. Inr cfg),
      json_MarshalIndent = (\<lambda>c. Inr ''{}''),
      os_MkdirAll = None,
      os_WriteFile = (\<lambda>data. None),
      os_Getwd = Inr ''/proj'',
      os_Stdin = input,
      strings_Fields = (\<lambda>s. split_spaces s []),
      strings_TrimSpace = (\<lambda>s. filter (\<lambda>c. c \<noteq> CHR '' '' \<and> c \<noteq> CHR 0x0A) s),
      fmt_Sscanf_d = map_of [(''1'', 1), (''2'', 2), (''3'', 3)],
      fmt_Scanln_d = (\<lambda>s. map_of [(''1'', 1), (''2'', 2), (''3'', 3)]
                              (takeWhile (\<lambda>c. c \<noteq> CHR 0x0A) s)),
      regexp_Compile = (\<lambda>pat. if pat = ''('' then Inl ''missing closing )''
                               else Inr (\<lambda>path. sublist pat path)),
      git_PlainOpen = True,
      gitignore_ReadPatterns = Inr (\<lambda>rel. prefix ''build/'' rel),
      filepath_Rel = (\<lambda>path. if prefix ''/'' path then Inl ''Rel: cannot make it relative''
                               else Inr path),
      exec_CombinedOutput = (\<lambda>w prog args.
         if prog = ''fail'' then ((''boom'', Some ''exit status 1''), Suc w)
         else if prog = ''quiet'' then (([], None), Suc w)
         else ((''checked '' @ last args, None), Suc w)),
      os_ReadFile = (\<lambda>w path. case fs path of
                        None \<Rightarrow> Inl ''no such file or directory''
                      | Some content \<Rightarrow> Inr content),
      clipboard_WriteAll = (\<lambda>s. None)\<rparr>"

definition example_files :: "string \<rightharpoonup> string" where
  "example_files =
     [''a.py'' \<mapsto> ''print(1)'', ''b.unknown'' \<mapsto> ''xyz'', ''t.ts'' \<mapsto> ''let x'',
      ''notes.md'' \<mapsto> ''```'', ''build/out.js'' \<mapsto> ''var y'']"

definition empty_Config :: Config where
  "empty_Config = \<lparr>Folders = Some Map.empty, FileTypeExecutables = Map.empty\<rparr>"

text \<open>Configurations with one and with two presets saved for the directory \<open>/proj\<close>.\<close>

definition one_preset_Config :: Config where
  "one_preset_Config =
     \<lparr>Folders = Some [''/proj'' \<mapsto> \<lparr>SavedName = Some [(''my-config'', [''-files'', ''a.py''])]\<rparr>],
      FileTypeExecutables = Map.empty\<rparr>"

definition two_presets_Config :: Config where
  "two_presets_Config =
     \<lparr>Folders = Some [''/proj'' \<mapsto>
        \<lparr>SavedName = Some [(''one'', [''-files'', ''a.py'']),
                           (''two'', [''-files'', ''b.unknown'', ''-wrap-code'', ''false''])]\<rparr>],
      FileTypeExecutables = Map.empty\<rparr>"

section \<open>filterOutFlag against its description\<close>

lemma filterOutFlag_from_drop:
  "i \<le> length args \<Longrightarrow>
     filterOutFlag_from args flag i acc = acc @ strip_flag_pairs flag (drop i args)"
proof (induction args flag i acc rule: filterOutFlag_from.induct)
  case (1 args flag i acc)
  show ?case
  proof (cases "i < length args")
    case False
    then show ?thesis
      by (subst filterOutFlag_from.simps) simp
  next
    case lt: True
    then have d: "drop i args = args ! i # drop (Suc i) args"
      by (simp add: Cons_nth_drop_Suc)
    show ?thesis
    proof (cases "args ! i = flag")
      case False
      with lt have ih: "filterOutFlag_from args flag (i + 1) (acc @ [args ! i])
          = (acc @ [args ! i]) @ strip_flag_pairs flag (drop (i + 1) args)"
        using "1.IH"(2) by simp
      have "strip_flag_pairs flag (drop i args) = args ! i # strip_flag_pairs flag (drop (Suc i) args)"
        using False d by (cases "drop (Suc i) args") simp_all
      with ih lt False show ?thesis
        by (subst filterOutFlag_from.simps) simp
    next
      case eq: True
      show ?thesis
      proof (cases "Suc i < length args")
        case True
        then have d2: "drop (Suc i) args = args ! Suc i # drop (i + 2) args"
          by (simp add: Cons_nth_drop_Suc)
        from True lt eq have ih: "filterOutFlag_from args flag (i + 2) acc
            = acc @ strip_flag_pairs flag (drop (i + 2) args)"
          using "1.IH"(1) by simp
        have "strip_flag_pairs flag (drop i args) = strip_flag_pairs flag (drop (i + 2) args)"
          using eq d d2 by simp
        with ih lt eq show ?thesis
          by (subst filterOutFlag_from.simps) simp
      next
        case False
        with lt have len: "length args = Suc i" by simp
        then have "drop (Suc i) args = []" by simp
        with d eq have s: "strip_flag_pairs flag (drop i args) = []" by simp
        have "filterOutFlag_from args flag (i + 2) acc = acc"
          using len by (subst filterOutFlag_from.simps) simp
        with lt eq s show ?thesis
          by (subst filterOutFlag_from.simps) simp
      qed
    qed
  qed
qed

lemma filterOutFlag_strip: "filterOutFlag args flag = strip_flag_pairs flag args"
  by (simp add: filterOutFlag_def filterOutFlag_from_drop)



section \<open>Saving a preset and resolving it (src/main.go)\<close>

lemma getSavedConfig_stored:
  "getSavedConfig cfg dir name =
     (case preset_stored cfg dir name of
        None \<Rightarrow> Inl (NoSavedArguments name dir)
      | Some ts \<Rightarrow> if ts = [] then Inl (NoSavedArguments name dir) else Inr ts)"
  by (simp add: getSavedConfig_def preset_stored_def SavedName_index_def
      split: option.splits)

lemma saveCurrentConfig_stored:
  "preset_stored (fst (saveCurrentConfig sc cfg dir name args)) dir name
     = Some (filterOutFlag args ''-name'')"
  by (simp add: saveCurrentConfig_def preset_stored_def Folders_index_def Let_def update_conv')

lemma saveCurrentConfig_other_name:
  "name' \<noteq> name \<Longrightarrow>
     preset_stored (fst (saveCurrentConfig sc cfg dir name args)) dir name'
       = preset_stored cfg dir name'"
  by (simp add: saveCurrentConfig_def preset_stored_def Folders_index_def Let_def update_conv'
      split: option.splits)

lemma saveCurrentConfig_other_dir:
  "dir' \<noteq> dir \<Longrightarrow>
     preset_stored (fst (saveCurrentConfig sc cfg dir name args)) dir' name'
       = preset_stored cfg dir' name'"
  by (simp add: saveCurrentConfig_def preset_stored_def Folders_index_def Let_def
      split: option.splits)




text \<open>
  C10. In \<^verbatim>\<open>src/main.go\<close>, \<^verbatim>\<open>getSavedConfig\<close> returns the error "no saved arguments
  found" exactly when the token list stored for the directory and the name is absent or
  empty, and the stored list otherwise. A preset saved from the argument list
  \<open>-name value\<close> is written to the configuration with the empty list, and resolving it
  gives that error.
\<close>

theorem C10_empty_preset_not_retrievable:
  "getSavedConfig cfg D N =
     (case preset_stored cfg D N of
        None \<Rightarrow> Inl (NoSavedArguments N D)
      | Some ts \<Rightarrow> if ts = [] then Inl (NoSavedArguments N D) else Inr ts)
   \<and> preset_stored (fst (saveCurrentConfig sc cfg D N [''-name'', v])) D N = Some []
   \<and> getSavedConfig (fst (saveCurrentConfig sc cfg D N [''-name'', v])) D N
       = Inl (NoSavedArguments N D)"
  by (simp add: getSavedConfig_stored saveCurrentConfig_stored filterOutFlag_strip)

theorem C10_empty_preset_not_retrievable_witness:
  "preset_stored
      (fst (saveCurrentConfig (\<lambda>c. None) \<lparr>Folders = None, FileTypeExecutables = Map.empty\<rparr>
              ''/d'' ''p'' [''-name'', ''p''])) ''/d'' ''p'' = Some [] \<and>
   getSavedConfig
      (fst (saveCurrentConfig (\<lambda>c. None) \<lparr>Folders = None, FileTypeExecutables = Map.empty\<rparr>
              ''/d'' ''p'' [''-name'', ''p''])) ''/d'' ''p'' = Inl (NoSavedArguments ''p'' ''/d'')"
  using C10_empty_preset_not_retrievable [where sc = "\<lambda>c. None"
          and cfg = "\<lparr>Folders = None, FileTypeExecutables = Map.empty\<rparr>"
          and D = "''/d''" and N = "''p''" and v = "''p''"]
  by simp

section \<open>The loop over the files\<close>

lemma process_file_ignored:
  "regex_ignored p f \<Longrightarrow> process_file env opts p f s = Inr s"
  by (cases s) (simp add: process_file_def)

lemma getData_loop_append:
  "getData_loop env opts p (xs @ ys) s =
     (case getData_loop env opts p xs s of Inl e \<Rightarrow> Inl e | Inr s' \<Rightarrow> getData_loop env opts p ys s')"
proof (induction xs arbitrary: s)
  case Nil
  show ?case by simp
next
  case (Cons x xs)
  obtain w out lg where s: "s = (w, out, lg)" by (cases s)
  show ?case
    by (cases "process_file env opts p x (w, out, lg, [])") (auto simp: s Cons.IH)
qed

lemma loop_part000_append:
  "loop_part000 env opts p (xs @ ys) s =
     (case loop_part000 env opts p xs s of Inl e \<Rightarrow> Inl e | Inr s' \<Rightarrow> loop_part000 env opts p ys s')"
  by (induction xs arbitrary: s) (auto split: sum.splits)

lemma getData_loop_filter:
  "getData_loop env opts p (filter (\<lambda>f. \<not> regex_ignored p f) fs) s = getData_loop env opts p fs s"
proof (induction fs arbitrary: s)
  case Nil
  show ?case by simp
next
  case (Cons f fs)
  obtain w out lg where s: "s = (w, out, lg)" by (cases s)
  show ?case
  proof (cases "regex_ignored p f")
    case True
    then show ?thesis by (simp add: s process_file_ignored Cons.IH)
  next
    case False
    then show ?thesis
      by (cases "process_file env opts p f (w, out, lg, [])") (auto simp: s Cons.IH)
  qed
qed

lemma loop_part000_filter:
  "loop_part000 env opts p (filter (\<lambda>f. \<not> regex_ignored p f) fs) s = loop_part000 env opts p fs s"
proof (induction fs arbitrary: s)
  case Nil
  show ?case by simp
next
  case (Cons f fs)
  show ?case
  proof (cases "regex_ignored p f")
    case True
    then show ?thesis by (simp add: process_file_ignored Cons.IH)
  next
    case False
    then show ?thesis
      by (cases "process_file env opts p f s") (auto simp: Cons.IH)
  qed
qed

lemma run_executable_Inr:
  assumes "run_executable env w x f eo = Inr (w', eo')"
  shows "eo' = eo \<and> w' = w \<and> x = [] \<or> from_exec env eo' \<and> x \<noteq> []"
  using assms unfolding run_executable_def from_exec_def
  by (auto split: if_splits list.splits prod.splits option.splits) (metis fst_conv)+

lemma process_file_Inr:
  assumes "process_file env opts p f (w, out, lg, eo) = Inr (w', out', lg', eo')"
  shows "(out' = out \<or>
          (\<exists>c. \<not> regex_ignored p f \<and> os_ReadFile env w' f = Inr c \<and>
               out' = out @ emit_block opts f (language_of (filepath_Ext f)) c eo'))
       \<and> (eo' = eo \<or> from_exec env eo')"
proof (cases "regex_ignored p f")
  case True
  with assms show ?thesis by (simp add: process_file_def)
next
  case False
  show ?thesis
  proof (cases "gitignore_check env opts p f")
    case Pass
    show ?thesis
    proof (cases "run_executable env w (resolve_executable opts p (filepath_Ext f)) f eo")
      case (Inl e)
      with assms False Pass show ?thesis by (simp add: process_file_def)
    next
      case (Inr r)
      obtain w1 eo1 where r: "r = (w1, eo1)" by (cases r)
      from run_executable_Inr [OF Inr [unfolded r]] have eo1: "eo1 = eo \<or> from_exec env eo1" by auto
      show ?thesis
      proof (cases "os_ReadFile env w1 f")
        case (Inl err)
        with assms False Pass Inr r eo1 show ?thesis by (auto simp: process_file_def)
      next
        case c: (Inr c)
        with assms False Pass Inr r eo1 show ?thesis by (auto simp: process_file_def)
      qed
    qed
  next
    case SkipSilent
    with assms False show ?thesis by (simp add: process_file_def)
  next
    case (SkipLogged l)
    with assms False show ?thesis by (simp add: process_file_def)
  qed
qed

lemma block_of_triple:
  "block_of opts (f, c, eo) = emit_block opts f (language_of (filepath_Ext f)) c eo"
  by (simp add: block_of_def)

lemma emitted_triple:
  "emitted env p (f, c, eo) \<longleftrightarrow>
     \<not> regex_ignored p f \<and> (\<exists>w0. os_ReadFile env w0 f = Inr c) \<and> (eo = [] \<or> from_exec env eo)"
  by (simp add: emitted_def)

lemma loop_part000_blocks:
  assumes "loop_part000 env opts p fs (w, out, lg, eo) = Inr (w', out', lg', eo')"
      and "eo = [] \<or> from_exec env eo"
  shows "\<exists>bs. out' = out @ concat (map (block_of opts) bs) \<and> subseq (map fst bs) fs
             \<and> list_all (emitted env p) bs"
  using assms
proof (induction fs arbitrary: w out lg eo)
  case Nil
  then show ?case by (intro exI [of _ "[]"]) simp
next
  case (Cons f fs)
  from Cons.prems(1) obtain w1 out1 lg1 eo1 where
    step: "process_file env opts p f (w, out, lg, eo) = Inr (w1, out1, lg1, eo1)" and
    rest: "loop_part000 env opts p fs (w1, out1, lg1, eo1) = Inr (w', out', lg', eo')"
    by (auto split: sum.splits)
  from process_file_Inr [OF step] Cons.prems(2) have eo1: "eo1 = [] \<or> from_exec env eo1"
    by auto
  from Cons.IH [OF rest eo1] obtain bs where
    bs: "out' = out1 @ concat (map (block_of opts) bs)" "subseq (map fst bs) fs"
        "list_all (emitted env p) bs"
    by blast
  from process_file_Inr [OF step] consider
      (same) "out1 = out"
    | (block) c where "\<not> regex_ignored p f" "os_ReadFile env w1 f = Inr c"
        "out1 = out @ emit_block opts f (language_of (filepath_Ext f)) c eo1"
    by blast
  then show ?case
  proof cases
    case same
    with bs show ?thesis
      by (intro exI [of _ bs]) (simp add: list_emb_Cons)
  next
    case block
    with bs eo1 show ?thesis
      by (intro exI [of _ "(f, c, eo1) # bs"]) (auto simp: block_of_triple emitted_triple)
  qed
qed

lemma getData_loop_blocks:
  assumes "getData_loop env opts p fs (w, out, lg) = Inr (w', out', lg')"
  shows "\<exists>bs. out' = out @ concat (map (block_of opts) bs) \<and> subseq (map fst bs) fs
             \<and> list_all (emitted env p) bs"
  using assms
proof (induction fs arbitrary: w out lg)
  case Nil
  then show ?case by (intro exI [of _ "[]"]) simp
next
  case (Cons f fs)
  from Cons.prems(1) obtain w1 out1 lg1 eo1 where
    step: "process_file env opts p f (w, out, lg, []) = Inr (w1, out1, lg1, eo1)" and
    rest: "getData_loop env opts p fs (w1, out1, lg1) = Inr (w', out', lg')"
    by (auto split: sum.splits)
  from process_file_Inr [OF step] have eo1: "eo1 = [] \<or> from_exec env eo1"
    by auto
  from Cons.IH [OF rest] obtain bs where
    bs: "out' = out1 @ concat (map (block_of opts) bs)" "subseq (map fst bs) fs"
        "list_all (emitted env p) bs"
    by blast
  from process_file_Inr [OF step] consider
      (same) "out1 = out"
    | (block) c where "\<not> regex_ignored p f" "os_ReadFile env w1 f = Inr c"
        "out1 = out @ emit_block opts f (language_of (filepath_Ext f)) c eo1"
    by blast
  then show ?case
  proof cases
    case same
    with bs show ?thesis
      by (intro exI [of _ bs]) (simp add: list_emb_Cons)
  next
    case block
    with bs eo1 show ?thesis
      by (intro exI [of _ "(f, c, eo1) # bs"]) (auto simp: block_of_triple emitted_triple)
  qed
qed

section \<open>The output of the file processor\<close>

lemma newline_lit: "''\<newline>'' = newline" by (simp add: newline_def)

lemma getData_prepared:
  "getData env w opts fte =
     (case compile_ignore env (ignorePattern opts) of
        Inl e \<Rightarrow> Inl (e, [])
      | Inr re \<Rightarrow> getData_loop env opts (prepared env opts fte) (files opts)
                   (w, [], snd (load_gitignore env (ignoreGitIgnore opts))))"
  by (simp add: getData_def prepared_def split: sum.splits prod.splits)

lemma process_part000_prepared:
  "process_part000 env w opts fte =
     (case compile_ignore env (ignorePattern opts) of
        Inl e \<Rightarrow> Inl (e, [])
      | Inr re \<Rightarrow> loop_part000 env opts (prepared env opts fte) (files opts)
                   (w, [], snd (load_gitignore env (ignoreGitIgnore opts)), []))"
  by (simp add: process_part000_def prepared_def split: sum.splits prod.splits)

lemma process_file_plain:
  assumes "\<not> regex_ignored p f" "gitignore_check env opts p f = Pass"
      "resolve_executable opts p (filepath_Ext f) = []" "os_ReadFile env w f = Inr c"
  shows "process_file env opts p f (w, out, lg, eo)
           = Inr (w, out @ emit_block opts f (language_of (filepath_Ext f)) c eo, lg, eo)"
  using assms by (simp add: process_file_def run_executable_def)

lemma Ext_a_py: "filepath_Ext ''a.py'' = ''.py''" by (simp add: filepath_Ext_def)
lemma Ext_b_unknown: "filepath_Ext ''b.unknown'' = ''.unknown''" by (simp add: filepath_Ext_def)
lemma language_py: "language_of ''.py'' = ''python''" by (simp add: language_of_def languageMap_def)
lemma language_unknown: "language_of ''.unknown'' = ''plaintext''" by (simp add: language_of_def languageMap_def)

text \<open>
  C6. With the files \<open>a.py\<close> (content \<open>print(1)\<close>) and \<open>b.unknown\<close> (content \<open>xyz\<close>),
  no ignore pattern, no match of the ignore rules, no executable resolved, the
  delimiter \<open>======\<close> and code wrapping on, both variants produce exactly the text
  of that scenario: every segment followed by one newline, in the order of the input.
\<close>

theorem C6_two_files:
  assumes "files opts = [''a.py'', ''b.unknown'']"
    and "ignorePattern opts = []"
    and "delimiter opts = ''======''"
    and "wrapCode opts"
    and "gitignore_check env opts (prepared env opts fte) ''a.py'' = Pass"
    and "gitignore_check env opts (prepared env opts fte) ''b.unknown'' = Pass"
    and "resolve_executable opts (prepared env opts fte) ''.py'' = []"
    and "resolve_executable opts (prepared env opts fte) ''.unknown'' = []"
    and "os_ReadFile env w ''a.py'' = Inr ''print(1)''"
    and "os_ReadFile env w ''b.unknown'' = Inr ''xyz''"
  shows "\<exists>lg. getData env w opts fte
             = Inr (w, ''a.py\<newline>```python\<newline>print(1)\<newline>```\<newline>======\<newline>b.unknown\<newline>```plaintext\<newline>xyz\<newline>```\<newline>======\<newline>'', lg)
           \<and> process_part000 env w opts fte
             = Inr (w, ''a.py\<newline>```python\<newline>print(1)\<newline>```\<newline>======\<newline>b.unknown\<newline>```plaintext\<newline>xyz\<newline>```\<newline>======\<newline>'', lg, [])"
proof -
  let ?p = "prepared env opts fte"
  have c: "compile_ignore env (ignorePattern opts) = Inr None"
    using assms(2) by (simp add: compile_ignore_def)
  then have ni: "\<not> regex_ignored ?p f" for f
    by (simp add: regex_ignored_def prepared_def prepare_def)
  have a: "process_file env opts ?p ''a.py'' (w, out, lg, eo)
      = Inr (w, out @ emit_block opts ''a.py'' ''python'' ''print(1)'' eo, lg, eo)" for out lg eo
    using process_file_plain [OF ni assms(5) _ assms(9)] assms(7)
    by (simp add: Ext_a_py language_py)
  have b: "process_file env opts ?p ''b.unknown'' (w, out, lg, eo)
      = Inr (w, out @ emit_block opts ''b.unknown'' ''plaintext'' ''xyz'' eo, lg, eo)" for out lg eo
    using process_file_plain [OF ni assms(6) _ assms(10)] assms(8)
    by (simp add: Ext_b_unknown language_unknown)
  have e: "emit_block opts ''a.py'' ''python'' ''print(1)'' [] @ emit_block opts ''b.unknown'' ''plaintext'' ''xyz'' []
      = ''a.py\<newline>```python\<newline>print(1)\<newline>```\<newline>======\<newline>b.unknown\<newline>```plaintext\<newline>xyz\<newline>```\<newline>======\<newline>''"
    using assms(3,4) by (simp add: emit_block_def newline_def)
  show ?thesis
    using e by (simp add: getData_prepared process_part000_prepared c assms(1) a b)
qed

theorem C6_two_files_witness:
  "\<exists>lg. getData (example_env example_files empty_Config []) 0
            (initial_Options\<lparr>files := [''a.py'', ''b.unknown'']\<rparr>) Map.empty
          = Inr (0, ''a.py\<newline>```python\<newline>print(1)\<newline>```\<newline>======\<newline>b.unknown\<newline>```plaintext\<newline>xyz\<newline>```\<newline>======\<newline>'', lg)
       \<and> process_part000 (example_env example_files empty_Config []) 0
            (initial_Options\<lparr>files := [''a.py'', ''b.unknown'']\<rparr>) Map.empty
          = Inr (0, ''a.py\<newline>```python\<newline>print(1)\<newline>```\<newline>======\<newline>b.unknown\<newline>```plaintext\<newline>xyz\<newline>```\<newline>======\<newline>'', lg, [])"
  by (rule C6_two_files) code_simp+

lemma process_file_files_update:
  "process_file env (opts\<lparr>files := fs\<rparr>) p f s = process_file env opts p f s"
proof -
  have a: "gitignore_check env (opts\<lparr>files := fs\<rparr>) p f = gitignore_check env opts p f"
    by (simp add: gitignore_check_def)
  have b: "resolve_executable (opts\<lparr>files := fs\<rparr>) p = resolve_executable opts p"
    by (rule ext) (simp add: resolve_executable_def)
  have c: "emit_block (opts\<lparr>files := fs\<rparr>) = emit_block opts"
    by (intro ext) (simp add: emit_block_def)
  show ?thesis
    unfolding process_file_def a b c by (rule refl)
qed

lemma getData_loop_files_update:
  "getData_loop env (opts\<lparr>files := fs\<rparr>) p xs s = getData_loop env opts p xs s"
proof (induction xs arbitrary: s)
  case Nil
  show ?case by simp
next
  case (Cons x xs)
  obtain w out lg where s: "s = (w, out, lg)" by (cases s)
  show ?case by (simp add: s process_file_files_update Cons.IH split: sum.splits prod.splits)
qed

lemma loop_part000_files_update:
  "loop_part000 env (opts\<lparr>files := fs\<rparr>) p xs s = loop_part000 env opts p xs s"
  by (induction xs arbitrary: s) (simp_all add: process_file_files_update split: sum.splits)

lemma prepared_files_update:
  "prepared env (opts\<lparr>files := fs\<rparr>) fte = prepared env opts fte"
  by (simp add: prepared_def prepare_def)

lemma regex_ignored_prepared:
  assumes "ignorePattern opts \<noteq> []" "regexp_Compile env (ignorePattern opts) = Inr re"
  shows "compile_ignore env (ignorePattern opts) = Inr (Some re)"
    and "regex_ignored (prepared env opts fte) f = re f"
  using assms by (simp_all add: compile_ignore_def regex_ignored_def prepared_def prepare_def)

lemma emitted_not_ignored: "list_all (emitted env p) bs \<Longrightarrow> list_all (\<lambda>b. \<not> regex_ignored p (fst b)) bs"
  by (induction bs) (auto simp: emitted_def)

text \<open>
  C8. When an ignore pattern is supplied (not the empty string) and compiles, a file
  whose path matches it
  is skipped with no output, no log line and no effect, whatever the ignore rules of
  the repository are: in both variants the run is the run on the file list without
  the matching paths, and the output consists of blocks of files that do not match.
\<close>

theorem C8_ignore_pattern:
  assumes "ignorePattern opts \<noteq> []"
    and "regexp_Compile env (ignorePattern opts) = Inr re"
  shows "getData env w opts fte
           = getData env w (opts\<lparr>files := filter (\<lambda>f. \<not> re f) (files opts)\<rparr>) fte
       \<and> process_part000 env w opts fte
           = process_part000 env w (opts\<lparr>files := filter (\<lambda>f. \<not> re f) (files opts)\<rparr>) fte
       \<and> (\<forall>w' out lg. getData env w opts fte = Inr (w', out, lg) \<longrightarrow>
             (\<exists>bs. out = concat (map (block_of opts) bs) \<and> subseq (map fst bs) (files opts)
                  \<and> list_all (\<lambda>b. \<not> re (fst b)) bs))
       \<and> (\<forall>w' out lg eo. process_part000 env w opts fte = Inr (w', out, lg, eo) \<longrightarrow>
             (\<exists>bs. out = concat (map (block_of opts) bs) \<and> subseq (map fst bs) (files opts)
                  \<and> list_all (\<lambda>b. \<not> re (fst b)) bs))"
proof -
  let ?p = "prepared env opts fte"
  note c = regex_ignored_prepared(1) [OF assms]
  have r: "regex_ignored ?p = re"
    using regex_ignored_prepared(2) [OF assms] by (rule ext)
  have g: "getData env w opts fte
      = getData env w (opts\<lparr>files := filter (\<lambda>f. \<not> re f) (files opts)\<rparr>) fte"
    using getData_loop_filter [of env opts ?p "files opts"]
    by (simp add: getData_prepared c prepared_files_update getData_loop_files_update r)
  have m: "process_part000 env w opts fte
      = process_part000 env w (opts\<lparr>files := filter (\<lambda>f. \<not> re f) (files opts)\<rparr>) fte"
    using loop_part000_filter [of env opts ?p "files opts"]
    by (simp add: process_part000_prepared c prepared_files_update loop_part000_files_update r)
  have gb: "\<exists>bs. out = concat (map (block_of opts) bs) \<and> subseq (map fst bs) (files opts)
                  \<and> list_all (\<lambda>b. \<not> re (fst b)) bs"
    if "getData env w opts fte = Inr (w', out, lg)" for w' out lg
  proof -
    from that have "getData_loop env opts ?p (files opts)
        (w, [], snd (load_gitignore env (ignoreGitIgnore opts))) = Inr (w', out, lg)"
      by (simp add: getData_prepared c)
    from getData_loop_blocks [OF this] emitted_not_ignored [of env ?p] show ?thesis
      by (auto simp: r)
  qed
  have mb: "\<exists>bs. out = concat (map (block_of opts) bs) \<and> subseq (map fst bs) (files opts)
                  \<and> list_all (\<lambda>b. \<not> re (fst b)) bs"
    if "process_part000 env w opts fte = Inr (w', out, lg, eo)" for w' out lg eo
  proof -
    from that have "loop_part000 env opts ?p (files opts)
        (w, [], snd (load_gitignore env (ignoreGitIgnore opts)), []) = Inr (w', out, lg, eo)"
      by (simp add: process_part000_prepared c)
    from loop_part000_blocks [OF this] emitted_not_ignored [of env ?p] show ?thesis
      by (auto simp: r)
  qed
  from g m gb mb show ?thesis by blast
qed

theorem C8_ignore_pattern_witness:
  "ignorePattern (initial_Options\<lparr>files := [''a.py'', ''t.ts'', ''build/out.js''], ignorePattern := ''.ts''\<rparr>) \<noteq> []
   \<and> getData (example_env example_files empty_Config []) 0
        (initial_Options\<lparr>files := [''a.py'', ''t.ts'', ''build/out.js''], ignorePattern := ''.ts''\<rparr>) Map.empty
     = getData (example_env example_files empty_Config []) 0
        (initial_Options\<lparr>files := [''a.py'', ''t.ts'', ''build/out.js''], ignorePattern := ''.ts'',
                          files := [''a.py'', ''build/out.js'']\<rparr>) Map.empty"
proof -
  let ?opts = "initial_Options\<lparr>files := [''a.py'', ''t.ts'', ''build/out.js''], ignorePattern := ''.ts''\<rparr>"
  let ?env = "example_env example_files empty_Config [] :: nat env"
  have h1: "ignorePattern ?opts \<noteq> []"
    by simp
  have h2: "regexp_Compile ?env (ignorePattern ?opts) = Inr (\<lambda>path. sublist ''.ts'' path)"
    by (simp add: example_env_def)
  have f: "filter (\<lambda>f. \<not> sublist ''.ts'' f) (files ?opts) = [''a.py'', ''build/out.js'']"
    by (simp add: sublist_Cons_right prefix_Cons)
  from C8_ignore_pattern [OF h1 h2, of 0 Map.empty]
  have "getData ?env 0 ?opts Map.empty
      = getData ?env 0 (?opts\<lparr>files := filter (\<lambda>f. \<not> sublist ''.ts'' f) (files ?opts)\<rparr>) Map.empty"
    by (rule conjunct1)
  then have "getData ?env 0 ?opts Map.empty
      = getData ?env 0 (?opts\<lparr>files := [''a.py'', ''build/out.js'']\<rparr>) Map.empty"
    by (simp only: f)
  with h1 show ?thesis
    by (rule conjI)
qed

section \<open>Failures while a file is processed\<close>

lemma run_executable_from_empty:
  "run_executable env w x f eo = Inr (w', eo') \<Longrightarrow> \<exists>eo''. run_executable env w x f [] = Inr (w', eo'')"
  by (auto simp: run_executable_def split: if_splits list.splits prod.splits option.splits)

lemma process_file_read_failure:
  assumes "\<not> regex_ignored p f" "gitignore_check env opts p f = Pass"
    and "run_executable env w (resolve_executable opts p (filepath_Ext f)) f eo = Inr (w', eo')"
    and "os_ReadFile env w' f = Inl err"
  shows "process_file env opts p f (w, out, lg, eo)
           = Inr (w', out, lg @ [''Error reading file '' @ f @ '': '' @ err], eo')"
  using assms by (simp add: process_file_def)

lemma process_file_exec_failure:
  assumes "\<not> regex_ignored p f" "gitignore_check env opts p f = Pass"
    and "resolve_executable opts p (filepath_Ext f) = x" "x \<noteq> []"
    and "strings_Fields env x = prog # xargs"
    and "exec_CombinedOutput env w prog (xargs @ [f]) = ((xout, Some err), w')"
  shows "process_file env opts p f (w, out, lg, eo) = Inl (ExecutableFailed x f err xout, lg)"
  using assms by (simp add: process_file_def run_executable_def)

lemma getData_loop_read_failure:
  assumes "getData_loop env opts p pre s0 = Inr (w, out, lg)"
    and "\<not> regex_ignored p f" "gitignore_check env opts p f = Pass"
    and "run_executable env w (resolve_executable opts p (filepath_Ext f)) f [] = Inr (w', eo')"
    and "os_ReadFile env w' f = Inl err"
  shows "getData_loop env opts p (pre @ f # rest) s0
           = getData_loop env opts p rest (w', out, lg @ [''Error reading file '' @ f @ '': '' @ err])"
  using assms(1) process_file_read_failure [OF assms(2-5)]
  by (simp add: getData_loop_append)

lemma loop_part000_read_failure:
  assumes "loop_part000 env opts p pre s0 = Inr (w, out, lg, eo)"
    and "\<not> regex_ignored p f" "gitignore_check env opts p f = Pass"
    and "run_executable env w (resolve_executable opts p (filepath_Ext f)) f eo = Inr (w', eo')"
    and "os_ReadFile env w' f = Inl err"
  shows "loop_part000 env opts p (pre @ f # rest) s0
           = loop_part000 env opts p rest (w', out, lg @ [''Error reading file '' @ f @ '': '' @ err], eo')"
  using assms(1) process_file_read_failure [OF assms(2-5)]
  by (simp add: loop_part000_append)

lemma getData_loop_exec_failure:
  assumes "getData_loop env opts p pre s0 = Inr (w, out, lg)"
    and "\<not> regex_ignored p f" "gitignore_check env opts p f = Pass"
    and "resolve_executable opts p (filepath_Ext f) = x" "x \<noteq> []"
    and "strings_Fields env x = prog # xargs"
    and "exec_CombinedOutput env w prog (xargs @ [f]) = ((xout, Some err), w')"
  shows "getData_loop env opts p (pre @ f # rest) s0 = Inl (ExecutableFailed x f err xout, lg)"
  using assms(1) process_file_exec_failure [OF assms(2-7)]
  by (simp add: getData_loop_append)

lemma loop_part000_exec_failure:
  assumes "loop_part000 env opts p pre s0 = Inr (w, out, lg, eo)"
    and "\<not> regex_ignored p f" "gitignore_check env opts p f = Pass"
    and "resolve_executable opts p (filepath_Ext f) = x" "x \<noteq> []"
    and "strings_Fields env x = prog # xargs"
    and "exec_CombinedOutput env w prog (xargs @ [f]) = ((xout, Some err), w')"
  shows "loop_part000 env opts p (pre @ f # rest) s0 = Inl (ExecutableFailed x f err xout, lg)"
  using assms(1) process_file_exec_failure [OF assms(2-7)]
  by (simp add: loop_part000_append)

lemma main_parsed_process_error:
  assumes "parseArguments (strings_Fields env) args = Inr opts"
    and "saveName opts = []" "files opts \<noteq> []"
    and "getData env w opts (FileTypeExecutables cfg) = Inl (e, lg)"
  shows "main_parsed env w cfg args sout
           = fatal sout lg args (''Failed to process files: '' @ Error_msg e)"
  using assms by (simp add: main_parsed_def)

lemma main_part000_process_error:
  assumes "os_UserHomeDir env = Inr home" "loadConfig_part000 env = Inr cfg"
    and "parseArguments (strings_Fields env) args = Inr opts"
    and "saveName opts = []"
    and "resolve_part000 env cfg opts prog args = (sout, Inr args')"
    and "process_part000 env w opts (FileTypeExecutables cfg) = Inl (e, lg)"
  shows "main_part000 env w prog args = fatal sout lg args' (Fatalf_part000 e)"
  using assms by (simp add: main_part000_def)

lemma failures_in_the_loops:
  "(getData_loop env opts p pre s0 = Inr (w, out, lg)
      \<and> \<not> regex_ignored p f \<and> gitignore_check env opts p f = Pass
      \<and> run_executable env w (resolve_executable opts p (filepath_Ext f)) f [] = Inr (w', eo')
      \<and> os_ReadFile env w' f = Inl err
    \<longrightarrow> getData_loop env opts p (pre @ f # rest) s0
          = getData_loop env opts p rest
              (w', out, lg @ [''Error reading file '' @ f @ '': '' @ err]))
   \<and> (loop_part000 env opts p pre t0 = Inr (w, out, lg, eo)
      \<and> \<not> regex_ignored p f \<and> gitignore_check env opts p f = Pass
      \<and> run_executable env w (resolve_executable opts p (filepath_Ext f)) f eo = Inr (w', eo')
      \<and> os_ReadFile env w' f = Inl err
    \<longrightarrow> loop_part000 env opts p (pre @ f # rest) t0
          = loop_part000 env opts p rest
              (w', out, lg @ [''Error reading file '' @ f @ '': '' @ err], eo'))
   \<and> (getData_loop env opts p pre s0 = Inr (w, out, lg)
      \<and> \<not> regex_ignored p f \<and> gitignore_check env opts p f = Pass
      \<and> resolve_executable opts p (filepath_Ext f) = x \<and> x \<noteq> []
      \<and> strings_Fields env x = prog # xargs
      \<and> exec_CombinedOutput env w prog (xargs @ [f]) = ((xout, Some xerr), w')
    \<longrightarrow> getData_loop env opts p (pre @ f # rest) s0 = Inl (ExecutableFailed x f xerr xout, lg))
   \<and> (loop_part000 env opts p pre t0 = Inr (w, out, lg, eo)
      \<and> \<not> regex_ignored p f \<and> gitignore_check env opts p f = Pass
      \<and> resolve_executable opts p (filepath_Ext f) = x \<and> x \<noteq> []
      \<and> strings_Fields env x = prog # xargs
      \<and> exec_CombinedOutput env w prog (xargs @ [f]) = ((xout, Some xerr), w')
    \<longrightarrow> loop_part000 env opts p (pre @ f # rest) t0 = Inl (ExecutableFailed x f xerr xout, lg))
   \<and> (parseArguments (strings_Fields env) args = Inr opts
      \<and> saveName opts = [] \<and> files opts \<noteq> []
      \<and> getData env v opts (FileTypeExecutables cfg) = Inl (ExecutableFailed x f xerr xout, lg)
    \<longrightarrow> main_parsed env v cfg args sout
          = fatal sout lg args
              (''Failed to process files: failed to run executable '' @ sq @ x @ sq
               @ '' with file '' @ sq @ f @ sq @ '': '' @ xerr @ newline @ ''Output: '' @ xout))
   \<and> (os_UserHomeDir env = Inr home \<and> loadConfig_part000 env = Inr cfg
      \<and> parseArguments (strings_Fields env) args = Inr opts \<and> saveName opts = []
      \<and> resolve_part000 env cfg opts prog0 args = (sout, Inr args')
      \<and> process_part000 env v opts (FileTypeExecutables cfg)
          = Inl (ExecutableFailed x f xerr xout, lg)
    \<longrightarrow> main_part000 env v prog0 args
          = fatal sout lg args'
              (''Failed to run executable '' @ sq @ x @ sq
               @ '' with file '' @ sq @ f @ sq @ '': '' @ xerr @ newline @ ''Output: '' @ xout))"
proof (intro conjI impI)
  assume "getData_loop env opts p pre s0 = Inr (w, out, lg)
      \<and> \<not> regex_ignored p f \<and> gitignore_check env opts p f = Pass
      \<and> run_executable env w (resolve_executable opts p (filepath_Ext f)) f [] = Inr (w', eo')
      \<and> os_ReadFile env w' f = Inl err"
  then show "getData_loop env opts p (pre @ f # rest) s0
      = getData_loop env opts p rest (w', out, lg @ [''Error reading file '' @ f @ '': '' @ err])"
    by (elim conjE) (rule getData_loop_read_failure)
next
  assume "loop_part000 env opts p pre t0 = Inr (w, out, lg, eo)
      \<and> \<not> regex_ignored p f \<and> gitignore_check env opts p f = Pass
      \<and> run_executable env w (resolve_executable opts p (filepath_Ext f)) f eo = Inr (w', eo')
      \<and> os_ReadFile env w' f = Inl err"
  then show "loop_part000 env opts p (pre @ f # rest) t0
      = loop_part000 env opts p rest (w', out, lg @ [''Error reading file '' @ f @ '': '' @ err], eo')"
    by (elim conjE) (rule loop_part000_read_failure)
next
  assume "getData_loop env opts p pre s0 = Inr (w, out, lg)
      \<and> \<not> regex_ignored p f \<and> gitignore_check env opts p f = Pass
      \<and> resolve_executable opts p (filepath_Ext f) = x \<and> x \<noteq> []
      \<and> strings_Fields env x = prog # xargs
      \<and> exec_CombinedOutput env w prog (xargs @ [f]) = ((xout, Some xerr), w')"
  then show "getData_loop env opts p (pre @ f # rest) s0 = Inl (ExecutableFailed x f xerr xout, lg)"
    by (elim conjE) (rule getData_loop_exec_failure)
next
  assume "loop_part000 env opts p pre t0 = Inr (w, out, lg, eo)
      \<and> \<not> regex_ignored p f \<and> gitignore_check env opts p f = Pass
      \<and> resolve_executable opts p (filepath_Ext f) = x \<and> x \<noteq> []
      \<and> strings_Fields env x = prog # xargs
      \<and> exec_CombinedOutput env w prog (xargs @ [f]) = ((xout, Some xerr), w')"
  then show "loop_part000 env opts p (pre @ f # rest) t0 = Inl (ExecutableFailed x f xerr xout, lg)"
    by (elim conjE) (rule loop_part000_exec_failure)
next
  assume "parseArguments (strings_Fields env) args = Inr opts
      \<and> saveName opts = [] \<and> files opts \<noteq> []
      \<and> getData env v opts (FileTypeExecutables cfg) = Inl (ExecutableFailed x f xerr xout, lg)"
  then have "main_parsed env v cfg args sout
      = fatal sout lg args (''Failed to process files: '' @ Error_msg (ExecutableFailed x f xerr xout))"
    by (elim conjE) (rule main_parsed_process_error)
  then show "main_parsed env v cfg args sout
      = fatal sout lg args
          (''Failed to process files: failed to run executable '' @ sq @ x @ sq
           @ '' with file '' @ sq @ f @ sq @ '': '' @ xerr @ newline @ ''Output: '' @ xout)"
    by simp
next
  assume "os_UserHomeDir env = Inr home \<and> loadConfig_part000 env = Inr cfg
      \<and> parseArguments (strings_Fields env) args = Inr opts \<and> saveName opts = []
      \<and> resolve_part000 env cfg opts prog0 args = (sout, Inr args')
      \<and> process_part000 env v opts (FileTypeExecutables cfg)
          = Inl (ExecutableFailed x f xerr xout, lg)"
  then have "main_part000 env v prog0 args
      = fatal sout lg args' (Fatalf_part000 (ExecutableFailed x f xerr xout))"
    by (elim conjE) (rule main_part000_process_error)
  then show "main_part000 env v prog0 args
      = fatal sout lg args'
          (''Failed to run executable '' @ sq @ x @ sq
           @ '' with file '' @ sq @ f @ sq @ '': '' @ xerr @ newline @ ''Output: '' @ xout)"
    by simp
qed

lemma process_file_log:
  assumes "process_file env opts p f (w, out, lg, eo) = Inr (w', out', lg', eo')"
  shows "prefix lg lg'"
  using assms
  by (auto simp: process_file_def split: if_splits gitcheck.splits sum.splits prod.splits)

lemma getData_loop_log:
  assumes "getData_loop env opts p fs (w, out, lg) = Inr (w', out', lg')"
  shows "prefix lg lg'"
  using assms
proof (induction fs arbitrary: w out lg)
  case Nil
  then show ?case by simp
next
  case (Cons f fs)
  from Cons.prems obtain w1 out1 lg1 eo1 where
    step: "process_file env opts p f (w, out, lg, []) = Inr (w1, out1, lg1, eo1)" and
    rest: "getData_loop env opts p fs (w1, out1, lg1) = Inr (w', out', lg')"
    by (auto split: sum.splits)
  from process_file_log [OF step] Cons.IH [OF rest] show ?case
    by (rule prefix_order.trans)
qed

lemma loop_part000_log:
  assumes "loop_part000 env opts p fs (w, out, lg, eo) = Inr (w', out', lg', eo')"
  shows "prefix lg lg'"
  using assms
proof (induction fs arbitrary: w out lg eo)
  case Nil
  then show ?case by simp
next
  case (Cons f fs)
  from Cons.prems obtain w1 out1 lg1 eo1 where
    step: "process_file env opts p f (w, out, lg, eo) = Inr (w1, out1, lg1, eo1)" and
    rest: "loop_part000 env opts p fs (w1, out1, lg1, eo1) = Inr (w', out', lg', eo')"
    by (auto split: sum.splits)
  from process_file_log [OF step] Cons.IH [OF rest] show ?case
    by (rule prefix_order.trans)
qed

lemma main_with_arguments:
  assumes "os_UserHomeDir env = Inr home" "loadConfig env = Inr cfg" "args \<noteq> []"
  shows "main env w args = main_parsed env w cfg args []"
  using assms by (simp add: main_def)

lemma main_parsed_copied:
  assumes "parseArguments (strings_Fields env) args = Inr opts"
    and "saveName opts = []" "files opts \<noteq> []"
    and "getData env w opts (FileTypeExecutables cfg) = Inr (w', out, lg)"
    and "clipboard_WriteAll env out = None"
  shows "main_parsed env w cfg args sout
           = \<lparr>stdout = sout @ ''Output has been copied to the clipboard.'' @ newline,
              logged = lg, os_Args = args, outcome = Copied out\<rparr>"
  using assms by (simp add: main_parsed_def)

lemma main_part000_copied:
  assumes "os_UserHomeDir env = Inr home" "loadConfig_part000 env = Inr cfg"
    and "parseArguments (strings_Fields env) args = Inr opts"
    and "saveName opts = []"
    and "resolve_part000 env cfg opts prog args = (sout, Inr args')"
    and "process_part000 env w opts (FileTypeExecutables cfg) = Inr (w', out, lg, eo)"
    and "clipboard_WriteAll env out = None"
  shows "main_part000 env w prog args
           = \<lparr>stdout = sout @ ''Output has been copied to the clipboard.'' @ newline,
              logged = lg, os_Args = args', outcome = Copied out\<rparr>"
  using assms by (simp add: main_part000_def)

lemma main_read_failure_succeeds:
  "os_UserHomeDir env = Inr home \<and> loadConfig env = Inr cfg \<and> args \<noteq> []
     \<and> parseArguments (strings_Fields env) args = Inr opts
     \<and> saveName opts = [] \<and> files opts = pre @ f # rest
     \<and> compile_ignore env (ignorePattern opts) = Inr re
     \<and> getData_loop env opts (prepared env opts (FileTypeExecutables cfg)) pre
          (v, [], snd (load_gitignore env (ignoreGitIgnore opts))) = Inr (w, out, lg)
     \<and> \<not> regex_ignored (prepared env opts (FileTypeExecutables cfg)) f
     \<and> gitignore_check env opts (prepared env opts (FileTypeExecutables cfg)) f = Pass
     \<and> run_executable env w
          (resolve_executable opts (prepared env opts (FileTypeExecutables cfg)) (filepath_Ext f))
          f [] = Inr (w', eo')
     \<and> os_ReadFile env w' f = Inl err
     \<and> getData_loop env opts (prepared env opts (FileTypeExecutables cfg)) rest
          (w', out, lg @ [''Error reading file '' @ f @ '': '' @ err]) = Inr (w2, out2, lg2)
     \<and> clipboard_WriteAll env out2 = None
   \<longrightarrow> main env v args
         = \<lparr>stdout = ''Output has been copied to the clipboard.'' @ newline,
            logged = lg2, os_Args = args, outcome = Copied out2\<rparr>
       \<and> ''Error reading file '' @ f @ '': '' @ err \<in> set lg2"
proof (intro impI)
  let ?p = "prepared env opts (FileTypeExecutables cfg)"
  let ?msg = "''Error reading file '' @ f @ '': '' @ err"
  assume h: "os_UserHomeDir env = Inr home \<and> loadConfig env = Inr cfg \<and> args \<noteq> []
     \<and> parseArguments (strings_Fields env) args = Inr opts
     \<and> saveName opts = [] \<and> files opts = pre @ f # rest
     \<and> compile_ignore env (ignorePattern opts) = Inr re
     \<and> getData_loop env opts ?p pre
          (v, [], snd (load_gitignore env (ignoreGitIgnore opts))) = Inr (w, out, lg)
     \<and> \<not> regex_ignored ?p f
     \<and> gitignore_check env opts ?p f = Pass
     \<and> run_executable env w (resolve_executable opts ?p (filepath_Ext f)) f [] = Inr (w', eo')
     \<and> os_ReadFile env w' f = Inl err
     \<and> getData_loop env opts ?p rest (w', out, lg @ [?msg]) = Inr (w2, out2, lg2)
     \<and> clipboard_WriteAll env out2 = None"
  then have s: "os_UserHomeDir env = Inr home" "loadConfig env = Inr cfg" "args \<noteq> []"
    and pa: "parseArguments (strings_Fields env) args = Inr opts" "saveName opts = []"
    and fs: "files opts = pre @ f # rest"
    and c: "compile_ignore env (ignorePattern opts) = Inr re"
    and pre: "getData_loop env opts ?p pre
          (v, [], snd (load_gitignore env (ignoreGitIgnore opts))) = Inr (w, out, lg)"
    and f: "\<not> regex_ignored ?p f" "gitignore_check env opts ?p f = Pass"
      "run_executable env w (resolve_executable opts ?p (filepath_Ext f)) f [] = Inr (w', eo')"
      "os_ReadFile env w' f = Inl err"
    and rest: "getData_loop env opts ?p rest (w', out, lg @ [?msg]) = Inr (w2, out2, lg2)"
    and cl: "clipboard_WriteAll env out2 = None"
    by simp_all
  have "getData env v opts (FileTypeExecutables cfg)
      = getData_loop env opts ?p (pre @ f # rest)
          (v, [], snd (load_gitignore env (ignoreGitIgnore opts)))"
    by (simp add: getData_prepared c fs)
  also have "\<dots> = getData_loop env opts ?p rest (w', out, lg @ [?msg])"
    by (rule getData_loop_read_failure [OF pre f])
  finally have g: "getData env v opts (FileTypeExecutables cfg) = Inr (w2, out2, lg2)"
    using rest by simp
  from fs have ne: "files opts \<noteq> []" by simp
  have m: "main env v args
         = \<lparr>stdout = ''Output has been copied to the clipboard.'' @ newline,
            logged = lg2, os_Args = args, outcome = Copied out2\<rparr>"
    using main_parsed_copied [OF pa ne g cl, of "[]"] by (simp add: main_with_arguments [OF s])
  from getData_loop_log [OF rest] have l: "?msg \<in> set lg2"
    by (auto simp: prefix_def)
  from m l show "main env v args
         = \<lparr>stdout = ''Output has been copied to the clipboard.'' @ newline,
            logged = lg2, os_Args = args, outcome = Copied out2\<rparr>
       \<and> ?msg \<in> set lg2"
    by (rule conjI)
qed

lemma main_part000_read_failure_succeeds:
  "os_UserHomeDir env = Inr home \<and> loadConfig_part000 env = Inr cfg
     \<and> parseArguments (strings_Fields env) args = Inr opts
     \<and> saveName opts = [] \<and> resolve_part000 env cfg opts prog0 args = (sout, Inr args')
     \<and> files opts = pre @ f # rest
     \<and> compile_ignore env (ignorePattern opts) = Inr re
     \<and> loop_part000 env opts (prepared env opts (FileTypeExecutables cfg)) pre
          (v, [], snd (load_gitignore env (ignoreGitIgnore opts)), []) = Inr (w, out, lg, eo)
     \<and> \<not> regex_ignored (prepared env opts (FileTypeExecutables cfg)) f
     \<and> gitignore_check env opts (prepared env opts (FileTypeExecutables cfg)) f = Pass
     \<and> run_executable env w
          (resolve_executable opts (prepared env opts (FileTypeExecutables cfg)) (filepath_Ext f))
          f eo = Inr (w', eo')
     \<and> os_ReadFile env w' f = Inl err
     \<and> loop_part000 env opts (prepared env opts (FileTypeExecutables cfg)) rest
          (w', out, lg @ [''Error reading file '' @ f @ '': '' @ err], eo')
          = Inr (w2, out2, lg2, eo2)
     \<and> clipboard_WriteAll env out2 = None
   \<longrightarrow> main_part000 env v prog0 args
         = \<lparr>stdout = sout @ ''Output has been copied to the clipboard.'' @ newline,
            logged = lg2, os_Args = args', outcome = Copied out2\<rparr>
       \<and> ''Error reading file '' @ f @ '': '' @ err \<in> set lg2"
proof (intro impI)
  let ?p = "prepared env opts (FileTypeExecutables cfg)"
  let ?msg = "''Error reading file '' @ f @ '': '' @ err"
  assume h: "os_UserHomeDir env = Inr home \<and> loadConfig_part000 env = Inr cfg
     \<and> parseArguments (strings_Fields env) args = Inr opts
     \<and> saveName opts = [] \<and> resolve_part000 env cfg opts prog0 args = (sout, Inr args')
     \<and> files opts = pre @ f # rest
     \<and> compile_ignore env (ignorePattern opts) = Inr re
     \<and> loop_part000 env opts ?p pre
          (v, [], snd (load_gitignore env (ignoreGitIgnore opts)), []) = Inr (w, out, lg, eo)
     \<and> \<not> regex_ignored ?p f
     \<and> gitignore_check env opts ?p f = Pass
     \<and> run_executable env w (resolve_executable opts ?p (filepath_Ext f)) f eo = Inr (w', eo')
     \<and> os_ReadFile env w' f = Inl err
     \<and> loop_part000 env opts ?p rest (w', out, lg @ [?msg], eo') = Inr (w2, out2, lg2, eo2)
     \<and> clipboard_WriteAll env out2 = None"
  then have s: "os_UserHomeDir env = Inr home" "loadConfig_part000 env = Inr cfg"
      "parseArguments (strings_Fields env) args = Inr opts" "saveName opts = []"
      "resolve_part000 env cfg opts prog0 args = (sout, Inr args')"
    and fs: "files opts = pre @ f # rest"
    and c: "compile_ignore env (ignorePattern opts) = Inr re"
    and pre: "loop_part000 env opts ?p pre
          (v, [], snd (load_gitignore env (ignoreGitIgnore opts)), []) = Inr (w, out, lg, eo)"
    and f: "\<not> regex_ignored ?p f" "gitignore_check env opts ?p f = Pass"
      "run_executable env w (resolve_executable opts ?p (filepath_Ext f)) f eo = Inr (w', eo')"
      "os_ReadFile env w' f = Inl err"
    and rest: "loop_part000 env opts ?p rest (w', out, lg @ [?msg], eo') = Inr (w2, out2, lg2, eo2)"
    and cl: "clipboard_WriteAll env out2 = None"
    by simp_all
  have "process_part000 env v opts (FileTypeExecutables cfg)
      = loop_part000 env opts ?p (pre @ f # rest)
          (v, [], snd (load_gitignore env (ignoreGitIgnore opts)), [])"
    by (simp add: process_part000_prepared c fs)
  also have "\<dots> = loop_part000 env opts ?p rest (w', out, lg @ [?msg], eo')"
    by (rule loop_part000_read_failure [OF pre f])
  finally have g: "process_part000 env v opts (FileTypeExecutables cfg) = Inr (w2, out2, lg2, eo2)"
    using rest by simp
  note m = main_part000_copied [OF s g cl]
  from loop_part000_log [OF rest] have l: "?msg \<in> set lg2"
    by (auto simp: prefix_def)
  from m l show "main_part000 env v prog0 args
         = \<lparr>stdout = sout @ ''Output has been copied to the clipboard.'' @ newline,
            logged = lg2, os_Args = args', outcome = Copied out2\<rparr>
       \<and> ?msg \<in> set lg2"
    by (rule conjI)
qed

text \<open>
  C9. For a file of the list that is neither ignored nor excluded, after the files
  before it were processed: if reading it fails, the failure is logged, nothing is
  written for it, and the loop goes on with the remaining files from the same output;
  when the remaining files are processed and the clipboard takes the output, the
  program ends normally: it has copied that output, it prints the closing line, and
  the failure is in its log. If the executable of the file cannot be started or ends
  with an error, the loop ends with that error, and the program ends through
  \<^verbatim>\<open>log.Fatalf\<close> with a message that holds the command, the file, the error and the
  captured output. Both hold in both variants.
\<close>

theorem C9_read_failure_skips_exec_failure_aborts:
  "(os_UserHomeDir env = Inr home \<and> loadConfig env = Inr cfg \<and> args \<noteq> []
     \<and> parseArguments (strings_Fields env) args = Inr opts
     \<and> saveName opts = [] \<and> files opts = pre @ f # rest
     \<and> compile_ignore env (ignorePattern opts) = Inr re
     \<and> getData_loop env opts (prepared env opts (FileTypeExecutables cfg)) pre
          (v, [], snd (load_gitignore env (ignoreGitIgnore opts))) = Inr (w, out, lg)
     \<and> \<not> regex_ignored (prepared env opts (FileTypeExecutables cfg)) f
     \<and> gitignore_check env opts (prepared env opts (FileTypeExecutables cfg)) f = Pass
     \<and> run_executable env w
          (resolve_executable opts (prepared env opts (FileTypeExecutables cfg)) (filepath_Ext f))
          f [] = Inr (w', eo')
     \<and> os_ReadFile env w' f = Inl err
     \<and> getData_loop env opts (prepared env opts (FileTypeExecutables cfg)) rest
          (w', out, lg @ [''Error reading file '' @ f @ '': '' @ err]) = Inr (w2, out2, lg2)
     \<and> clipboard_WriteAll env out2 = None
   \<longrightarrow> main env v args
         = \<lparr>stdout = ''Output has been copied to the clipboard.'' @ newline,
            logged = lg2, os_Args = args, outcome = Copied out2\<rparr>
       \<and> ''Error reading file '' @ f @ '': '' @ err \<in> set lg2)
   \<and> (os_UserHomeDir env = Inr home \<and> loadConfig_part000 env = Inr cfg
     \<and> parseArguments (strings_Fields env) args = Inr opts
     \<and> saveName opts = [] \<and> resolve_part000 env cfg opts prog0 args = (sout, Inr args')
     \<and> files opts = pre @ f # rest
     \<and> compile_ignore env (ignorePattern opts) = Inr re
     \<and> loop_part000 env opts (prepared env opts (FileTypeExecutables cfg)) pre
          (v, [], snd (load_gitignore env (ignoreGitIgnore opts)), []) = Inr (w, out, lg, eo)
     \<and> \<not> regex_ignored (prepared env opts (FileTypeExecutables cfg)) f
     \<and> gitignore_check env opts (prepared env opts (FileTypeExecutables cfg)) f = Pass
     \<and> run_executable env w
          (resolve_executable opts (prepared env opts (FileTypeExecutables cfg)) (filepath_Ext f))
          f eo = Inr (w', eo')
     \<and> os_ReadFile env w' f = Inl err
     \<and> loop_part000 env opts (prepared env opts (FileTypeExecutables cfg)) rest
          (w', out, lg @ [''Error reading file '' @ f @ '': '' @ err], eo')
          = Inr (w2, out2, lg2, eo2)
     \<and> clipboard_WriteAll env out2 = None
   \<longrightarrow> main_part000 env v prog0 args
         = \<lparr>stdout = sout @ ''Output has been copied to the clipboard.'' @ newline,
            logged = lg2, os_Args = args', outcome = Copied out2\<rparr>
       \<and> ''Error reading file '' @ f @ '': '' @ err \<in> set lg2)
   \<and> (getData_loop env opts p pre s0 = Inr (w, out, lg)
      \<and> \<not> regex_ignored p f \<and> gitignore_check env opts p f = Pass
      \<and> run_executable env w (resolve_executable opts p (filepath_Ext f)) f [] = Inr (w', eo')
      \<and> os_ReadFile env w' f = Inl err
    \<longrightarrow> getData_loop env opts p (pre @ f # rest) s0
          = getData_loop env opts p rest
              (w', out, lg @ [''Error reading file '' @ f @ '': '' @ err]))
   \<and> (loop_part000 env opts p pre t0 = Inr (w, out, lg, eo)
      \<and> \<not> regex_ignored p f \<and> gitignore_check env opts p f = Pass
      \<and> run_executable env w (resolve_executable opts p (filepath_Ext f)) f eo = Inr (w', eo')
      \<and> os_ReadFile env w' f = Inl err
    \<longrightarrow> loop_part000 env opts p (pre @ f # rest) t0
          = loop_part000 env opts p rest
              (w', out, lg @ [''Error reading file '' @ f @ '': '' @ err], eo'))
   \<and> (getData_loop env opts p pre s0 = Inr (w, out, lg)
      \<and> \<not> regex_ignored p f \<and> gitignore_check env opts p f = Pass
      \<and> resolve_executable opts p (filepath_Ext f) = x \<and> x \<noteq> []
      \<and> strings_Fields env x = prog # xargs
      \<and> exec_CombinedOutput env w prog (xargs @ [f]) = ((xout, Some xerr), w')
    \<longrightarrow> getData_loop env opts p (pre @ f # rest) s0 = Inl (ExecutableFailed x f xerr xout, lg))
   \<and> (loop_part000 env opts p pre t0 = Inr (w, out, lg, eo)
      \<and> \<not> regex_ignored p f \<and> gitignore_check env opts p f = Pass
      \<and> resolve_executable opts p (filepath_Ext f) = x \<and> x \<noteq> []
      \<and> strings_Fields env x = prog # xargs
      \<and> exec_CombinedOutput env w prog (xargs @ [f]) = ((xout, Some xerr), w')
    \<longrightarrow> loop_part000 env opts p (pre @ f # rest) t0 = Inl (ExecutableFailed x f xerr xout, lg))
   \<and> (parseArguments (strings_Fields env) args = Inr opts
      \<and> saveName opts = [] \<and> files opts \<noteq> []
      \<and> getData env v opts (FileTypeExecutables cfg) = Inl (ExecutableFailed x f xerr xout, lg)
    \<longrightarrow> main_parsed env v cfg args sout
          = fatal sout lg args
              (''Failed to process files: failed to run executable '' @ sq @ x @ sq
               @ '' with file '' @ sq @ f @ sq @ '': '' @ xerr @ newline @ ''Output: '' @ xout))
   \<and> (os_UserHomeDir env = Inr home \<and> loadConfig_part000 env = Inr cfg
      \<and> parseArguments (strings_Fields env) args = Inr opts \<and> saveName opts = []
      \<and> resolve_part000 env cfg opts prog0 args = (sout, Inr args')
      \<and> process_part000 env v opts (FileTypeExecutables cfg)
          = Inl (ExecutableFailed x f xerr xout, lg)
    \<longrightarrow> main_part000 env v prog0 args
          = fatal sout lg args'
              (''Failed to run executable '' @ sq @ x @ sq
               @ '' with file '' @ sq @ f @ sq @ '': '' @ xerr @ newline @ ''Output: '' @ xout))"
  by (rule conjI [OF main_read_failure_succeeds
        conjI [OF main_part000_read_failure_succeeds failures_in_the_loops]])

theorem C9_read_failure_skips_exec_failure_aborts_witness:
  "main (example_env example_files empty_Config []) 0 [''-files'', ''gone.txt'', ''a.py'']
    = \<lparr>stdout = ''Output has been copied to the clipboard.'' @ newline,
       logged = [''Error reading file gone.txt: no such file or directory''],
       os_Args = [''-files'', ''gone.txt'', ''a.py''],
       outcome = Copied ''a.py\<newline>```python\<newline>print(1)\<newline>```\<newline>======\<newline>''\<rparr>
   \<and> main_part000 (example_env example_files empty_Config []) 0 ''prog''
        [''-files'', ''gone.txt'', ''a.py'']
    = \<lparr>stdout = [] @ ''Output has been copied to the clipboard.'' @ newline,
       logged = [''Error reading file gone.txt: no such file or directory''],
       os_Args = [''-files'', ''gone.txt'', ''a.py''],
       outcome = Copied ''a.py\<newline>```python\<newline>print(1)\<newline>```\<newline>======\<newline>''\<rparr>
   \<and> getData_loop (example_env example_files empty_Config [])
      (initial_Options\<lparr>files := [''gone.txt'', ''a.py'']\<rparr>)
      (prepared (example_env example_files empty_Config [])
         (initial_Options\<lparr>files := [''gone.txt'', ''a.py'']\<rparr>) Map.empty)
      ([] @ ''gone.txt'' # [''a.py'']) (0, [], [])
    = getData_loop (example_env example_files empty_Config [])
      (initial_Options\<lparr>files := [''gone.txt'', ''a.py'']\<rparr>)
      (prepared (example_env example_files empty_Config [])
         (initial_Options\<lparr>files := [''gone.txt'', ''a.py'']\<rparr>) Map.empty)
      [''a.py'']
      (0, [], [] @ [''Error reading file '' @ ''gone.txt'' @ '': '' @ ''no such file or directory''])
   \<and> getData_loop (example_env example_files empty_Config [])
      (initial_Options\<lparr>files := [''a.py'', ''t.ts''], fileExecs := [''.ts'' \<mapsto> ''fail'']\<rparr>)
      (prepared (example_env example_files empty_Config [])
         (initial_Options\<lparr>files := [''a.py'', ''t.ts''], fileExecs := [''.ts'' \<mapsto> ''fail'']\<rparr>)
         Map.empty)
      ([''a.py''] @ ''t.ts'' # []) (0, [], [])
    = Inl (ExecutableFailed ''fail'' ''t.ts'' ''exit status 1'' ''boom'', [])
   \<and> main_parsed (example_env example_files empty_Config []) 0 empty_Config
        [''-files'', ''a.py'', ''t.ts'', ''-file-exec'', ''.ts=fail''] []
    = fatal [] [] [''-files'', ''a.py'', ''t.ts'', ''-file-exec'', ''.ts=fail'']
        (''Failed to process files: failed to run executable '' @ sq @ ''fail'' @ sq
         @ '' with file '' @ sq @ ''t.ts'' @ sq @ '': '' @ ''exit status 1'' @ newline
         @ ''Output: '' @ ''boom'')
   \<and> main_part000 (example_env example_files empty_Config []) 0 ''prog''
        [''-files'', ''a.py'', ''t.ts'', ''-file-exec'', ''.ts=fail'']
    = fatal [] [] [''-files'', ''a.py'', ''t.ts'', ''-file-exec'', ''.ts=fail'']
        (''Failed to run executable '' @ sq @ ''fail'' @ sq
         @ '' with file '' @ sq @ ''t.ts'' @ sq @ '': '' @ ''exit status 1'' @ newline
         @ ''Output: '' @ ''boom'')"
proof -
  let ?args = "[''-files'', ''a.py'', ''t.ts'', ''-file-exec'', ''.ts=fail'']"
  let ?env = "example_env example_files empty_Config [] :: nat env"
  let ?o1 = "initial_Options\<lparr>files := [''gone.txt'', ''a.py'']\<rparr>"
  let ?o2 = "initial_Options\<lparr>files := [''a.py'', ''t.ts''], fileExecs := [''.ts'' \<mapsto> ''fail'']\<rparr>"
  let ?blk = "''a.py\<newline>```python\<newline>print(1)\<newline>```\<newline>======\<newline>''"
  have h1: "getData_loop ?env ?o1 (prepared ?env ?o1 Map.empty) [] (0, [], []) = Inr (0, [], [])
      \<and> \<not> regex_ignored (prepared ?env ?o1 Map.empty) ''gone.txt''
      \<and> gitignore_check ?env ?o1 (prepared ?env ?o1 Map.empty) ''gone.txt'' = Pass
      \<and> run_executable ?env 0
            (resolve_executable ?o1 (prepared ?env ?o1 Map.empty) (filepath_Ext ''gone.txt''))
            ''gone.txt'' [] = Inr (0, [])
      \<and> os_ReadFile ?env 0 ''gone.txt'' = Inl ''no such file or directory''"
    by code_simp
  have h2: "getData_loop ?env ?o2 (prepared ?env ?o2 Map.empty) [''a.py''] (0, [], [])
        = Inr (0, ?blk, [])
      \<and> \<not> regex_ignored (prepared ?env ?o2 Map.empty) ''t.ts''
      \<and> gitignore_check ?env ?o2 (prepared ?env ?o2 Map.empty) ''t.ts'' = Pass
      \<and> resolve_executable ?o2 (prepared ?env ?o2 Map.empty) (filepath_Ext ''t.ts'') = ''fail''
      \<and> ''fail'' \<noteq> []
      \<and> strings_Fields ?env ''fail'' = ''fail'' # []
      \<and> exec_CombinedOutput ?env 0 ''fail'' ([] @ [''t.ts'']) = ((''boom'', Some ''exit status 1''), Suc 0)"
    by code_simp
  note t1 = C9_read_failure_skips_exec_failure_aborts
    [where env = ?env and opts = ?o1 and p = "prepared ?env ?o1 Map.empty" and pre = "[]"
       and ?s0.0 = "(0, [], [])" and w = 0 and out = "[]" and lg = "[]" and f = "''gone.txt''"
       and w' = 0 and eo' = "[]" and err = "''no such file or directory''" and rest = "[''a.py'']",
     THEN conjunct2, THEN conjunct2, THEN conjunct1, THEN mp, OF h1]
  note t2 = C9_read_failure_skips_exec_failure_aborts
    [where env = ?env and opts = ?o2 and p = "prepared ?env ?o2 Map.empty" and pre = "[''a.py'']"
       and ?s0.0 = "(0, [], [])" and w = 0 and out = ?blk and lg = "[]" and f = "''t.ts''"
       and w' = "Suc 0" and x = "''fail''" and prog = "''fail''" and xargs = "[]"
       and xout = "''boom''" and xerr = "''exit status 1''" and rest = "[]",
     THEN conjunct2, THEN conjunct2, THEN conjunct2, THEN conjunct2, THEN conjunct1, THEN mp, OF h2]
  have p: "parseArguments (strings_Fields ?env) ?args = Inr ?o2"
    by (simp add: parseArguments_def example_env_def HasPrefix_dash_def SplitN_eq_def
        initial_Options_def)
  have h3: "parseArguments (strings_Fields ?env) ?args = Inr ?o2
      \<and> saveName ?o2 = [] \<and> files ?o2 \<noteq> []
      \<and> getData ?env 0 ?o2 (FileTypeExecutables empty_Config)
          = Inl (ExecutableFailed ''fail'' ''t.ts'' ''exit status 1'' ''boom'', [])"
  proof (intro conjI)
    show "getData ?env 0 ?o2 (FileTypeExecutables empty_Config)
        = Inl (ExecutableFailed ''fail'' ''t.ts'' ''exit status 1'' ''boom'', [])"
      by code_simp
  qed (simp_all add: p initial_Options_def)
  have h4: "os_UserHomeDir ?env = Inr ''/home/u'' \<and> loadConfig_part000 ?env = Inr empty_Config
      \<and> parseArguments (strings_Fields ?env) ?args = Inr ?o2 \<and> saveName ?o2 = []
      \<and> resolve_part000 ?env empty_Config ?o2 ''prog'' ?args = ([], Inr ?args)
      \<and> process_part000 ?env 0 ?o2 (FileTypeExecutables empty_Config)
          = Inl (ExecutableFailed ''fail'' ''t.ts'' ''exit status 1'' ''boom'', [])"
  proof (intro conjI)
    show "process_part000 ?env 0 ?o2 (FileTypeExecutables empty_Config)
        = Inl (ExecutableFailed ''fail'' ''t.ts'' ''exit status 1'' ''boom'', [])"
      by code_simp
    show "parseArguments (strings_Fields ?env) ?args = Inr ?o2"
      by (rule p)
  qed (simp_all add: example_env_def loadConfig_part000_def resolve_part000_def
        initial_Options_def)
  note t3 = C9_read_failure_skips_exec_failure_aborts
    [where env = ?env and opts = ?o2 and args = ?args and v = 0 and cfg = empty_Config
       and sout = "[]" and x = "''fail''" and f = "''t.ts''" and xerr = "''exit status 1''"
       and xout = "''boom''" and lg = "[]",
     THEN conjunct2, THEN conjunct2, THEN conjunct2, THEN conjunct2, THEN conjunct2,
     THEN conjunct2, THEN conjunct1, THEN mp, OF h3]
  note t4 = C9_read_failure_skips_exec_failure_aborts
    [where env = ?env and opts = ?o2 and args = ?args and v = 0 and cfg = empty_Config
       and sout = "[]" and x = "''fail''" and f = "''t.ts''" and xerr = "''exit status 1''"
       and xout = "''boom''" and lg = "[]" and home = "''/home/u''" and ?prog0.0 = "''prog''"
       and args' = ?args,
     THEN conjunct2, THEN conjunct2, THEN conjunct2, THEN conjunct2, THEN conjunct2,
     THEN conjunct2, THEN conjunct2, THEN mp, OF h4]
  let ?args1 = "[''-files'', ''gone.txt'', ''a.py'']"
  let ?p1 = "prepared ?env ?o1 (FileTypeExecutables empty_Config)"
  let ?msg = "''Error reading file gone.txt: no such file or directory''"
  have p1: "parseArguments (strings_Fields ?env) ?args1 = Inr ?o1"
    by (simp add: parseArguments_def example_env_def HasPrefix_dash_def initial_Options_def)
  have m: "''Error reading file '' @ ''gone.txt'' @ '': '' @ ''no such file or directory'' = ?msg"
    by simp
  have l1: "getData_loop ?env ?o1 ?p1 []
          (0, [], snd (load_gitignore ?env (ignoreGitIgnore ?o1))) = Inr (0, [], [])
      \<and> \<not> regex_ignored ?p1 ''gone.txt''
      \<and> gitignore_check ?env ?o1 ?p1 ''gone.txt'' = Pass
      \<and> run_executable ?env 0 (resolve_executable ?o1 ?p1 (filepath_Ext ''gone.txt''))
            ''gone.txt'' [] = Inr (0, [])
      \<and> os_ReadFile ?env 0 ''gone.txt'' = Inl ''no such file or directory''
      \<and> getData_loop ?env ?o1 ?p1 [''a.py''] (0, [], [] @ [?msg]) = Inr (0, ?blk, [?msg])"
    by code_simp
  have l2: "loop_part000 ?env ?o1 ?p1 []
          (0, [], snd (load_gitignore ?env (ignoreGitIgnore ?o1)), []) = Inr (0, [], [], [])
      \<and> loop_part000 ?env ?o1 ?p1 [''a.py''] (0, [], [] @ [?msg], []) = Inr (0, ?blk, [?msg], [])"
    by code_simp
  have h5: "os_UserHomeDir ?env = Inr ''/home/u'' \<and> loadConfig ?env = Inr empty_Config
      \<and> ?args1 \<noteq> [] \<and> parseArguments (strings_Fields ?env) ?args1 = Inr ?o1
      \<and> saveName ?o1 = [] \<and> files ?o1 = [] @ ''gone.txt'' # [''a.py'']
      \<and> compile_ignore ?env (ignorePattern ?o1) = Inr None
      \<and> getData_loop ?env ?o1 ?p1 []
          (0, [], snd (load_gitignore ?env (ignoreGitIgnore ?o1))) = Inr (0, [], [])
      \<and> \<not> regex_ignored ?p1 ''gone.txt''
      \<and> gitignore_check ?env ?o1 ?p1 ''gone.txt'' = Pass
      \<and> run_executable ?env 0 (resolve_executable ?o1 ?p1 (filepath_Ext ''gone.txt''))
            ''gone.txt'' [] = Inr (0, [])
      \<and> os_ReadFile ?env 0 ''gone.txt'' = Inl ''no such file or directory''
      \<and> getData_loop ?env ?o1 ?p1 [''a.py'']
            (0, [], [] @ [''Error reading file '' @ ''gone.txt'' @ '': ''
                            @ ''no such file or directory'']) = Inr (0, ?blk, [?msg])
      \<and> clipboard_WriteAll ?env ?blk = None"
    unfolding m using l1 p1
    by (simp add: example_env_def loadConfig_def empty_Config_def initial_Options_def
        compile_ignore_def)
  have h6: "os_UserHomeDir ?env = Inr ''/home/u'' \<and> loadConfig_part000 ?env = Inr empty_Config
      \<and> parseArguments (strings_Fields ?env) ?args1 = Inr ?o1
      \<and> saveName ?o1 = [] \<and> resolve_part000 ?env empty_Config ?o1 ''prog'' ?args1 = ([], Inr ?args1)
      \<and> files ?o1 = [] @ ''gone.txt'' # [''a.py'']
      \<and> compile_ignore ?env (ignorePattern ?o1) = Inr None
      \<and> loop_part000 ?env ?o1 ?p1 []
          (0, [], snd (load_gitignore ?env (ignoreGitIgnore ?o1)), []) = Inr (0, [], [], [])
      \<and> \<not> regex_ignored ?p1 ''gone.txt''
      \<and> gitignore_check ?env ?o1 ?p1 ''gone.txt'' = Pass
      \<and> run_executable ?env 0 (resolve_executable ?o1 ?p1 (filepath_Ext ''gone.txt''))
            ''gone.txt'' [] = Inr (0, [])
      \<and> os_ReadFile ?env 0 ''gone.txt'' = Inl ''no such file or directory''
      \<and> loop_part000 ?env ?o1 ?p1 [''a.py'']
            (0, [], [] @ [''Error reading file '' @ ''gone.txt'' @ '': ''
                            @ ''no such file or directory''], []) = Inr (0, ?blk, [?msg], [])
      \<and> clipboard_WriteAll ?env ?blk = None"
    unfolding m using l1 l2 p1
    by (simp add: example_env_def loadConfig_part000_def resolve_part000_def empty_Config_def
        initial_Options_def compile_ignore_def)
  note t5 = C9_read_failure_skips_exec_failure_aborts
    [where env = ?env and opts = ?o1 and args = ?args1 and v = 0 and cfg = empty_Config
       and home = "''/home/u''" and pre = "[]" and f = "''gone.txt''" and rest = "[''a.py'']"
       and re = None and w = 0 and out = "[]" and lg = "[]" and w' = 0 and eo' = "[]"
       and err = "''no such file or directory''" and ?w2.0 = 0 and ?out2.0 = ?blk
       and ?lg2.0 = "[?msg]",
     THEN conjunct1, THEN mp, OF h5, THEN conjunct1]
  note t6 = C9_read_failure_skips_exec_failure_aborts
    [where env = ?env and opts = ?o1 and args = ?args1 and v = 0 and cfg = empty_Config
       and home = "''/home/u''" and pre = "[]" and f = "''gone.txt''" and rest = "[''a.py'']"
       and re = None and w = 0 and out = "[]" and lg = "[]" and w' = 0 and eo' = "[]"
       and err = "''no such file or directory''" and ?w2.0 = 0 and ?out2.0 = ?blk
       and ?lg2.0 = "[?msg]" and eo = "[]" and ?eo2.0 = "[]" and sout = "[]"
       and ?prog0.0 = "''prog''" and args' = ?args1,
     THEN conjunct2, THEN conjunct1, THEN mp, OF h6, THEN conjunct1]
  from t5 t6 t1 t2 t3 t4 show ?thesis
    by (intro conjI)
qed

section \<open>The captured output from one file to the next\<close>

lemma process_file_no_exec:
  assumes "regex_ignored p f \<or> gitignore_check env opts p f \<noteq> Pass
           \<or> resolve_executable opts p (filepath_Ext f) = []"
  shows "\<exists>out' lg'. process_file env opts p f (w, out, lg, eo) = Inr (w, out @ out', lg @ lg', eo)"
proof (cases "regex_ignored p f")
  case True
  then have "process_file env opts p f (w, out, lg, eo) = Inr (w, out @ [], lg @ [], eo)"
    by (simp add: process_file_def)
  then show ?thesis by blast
next
  case False
  show ?thesis
  proof (cases "gitignore_check env opts p f")
    case SkipSilent
    with False have "process_file env opts p f (w, out, lg, eo) = Inr (w, out @ [], lg @ [], eo)"
      by (simp add: process_file_def)
    then show ?thesis by blast
  next
    case (SkipLogged l)
    with False have "process_file env opts p f (w, out, lg, eo) = Inr (w, out @ [], lg @ [l], eo)"
      by (simp add: process_file_def)
    then show ?thesis by blast
  next
    case Pass
    with False assms have x: "resolve_executable opts p (filepath_Ext f) = []" by simp
    show ?thesis
    proof (cases "os_ReadFile env w f")
      case (Inl err)
      with False Pass x have "process_file env opts p f (w, out, lg, eo)
          = Inr (w, out @ [], lg @ [''Error reading file '' @ f @ '': '' @ err], eo)"
        by (simp add: process_file_def run_executable_def)
      then show ?thesis by blast
    next
      case (Inr c)
      with False Pass x have "process_file env opts p f (w, out, lg, eo)
          = Inr (w, out @ emit_block opts f (language_of (filepath_Ext f)) c eo, lg @ [], eo)"
        by (simp add: process_file_def run_executable_def)
      then show ?thesis by blast
    qed
  qed
qed

lemma loop_part000_no_exec:
  assumes "\<forall>f\<in>set mid. regex_ignored p f \<or> gitignore_check env opts p f \<noteq> Pass
             \<or> resolve_executable opts p (filepath_Ext f) = []"
  shows "\<exists>out' lg'. loop_part000 env opts p mid (w, out, lg, eo) = Inr (w, out @ out', lg @ lg', eo)"
  using assms
proof (induction mid arbitrary: out lg)
  case Nil
  have "loop_part000 env opts p [] (w, out, lg, eo) = Inr (w, out @ [], lg @ [], eo)" by simp
  then show ?case by blast
next
  case (Cons f mid)
  from Cons.prems obtain o1 l1 where
    s: "process_file env opts p f (w, out, lg, eo) = Inr (w, out @ o1, lg @ l1, eo)"
    using process_file_no_exec [of p f env opts w out lg eo] by auto
  from Cons.IH [of "out @ o1" "lg @ l1"] Cons.prems obtain o2 l2 where
    r: "loop_part000 env opts p mid (w, out @ o1, lg @ l1, eo)
        = Inr (w, (out @ o1) @ o2, (lg @ l1) @ l2, eo)"
    by auto
  from s r have "loop_part000 env opts p (f # mid) (w, out, lg, eo)
      = Inr (w, out @ (o1 @ o2), lg @ (l1 @ l2), eo)"
    by simp
  then show ?case by blast
qed

lemma getData_loop_no_exec:
  assumes "\<forall>f\<in>set mid. regex_ignored p f \<or> gitignore_check env opts p f \<noteq> Pass
             \<or> resolve_executable opts p (filepath_Ext f) = []"
  shows "\<exists>out' lg'. getData_loop env opts p mid (w, out, lg) = Inr (w, out @ out', lg @ lg')"
  using assms
proof (induction mid arbitrary: out lg)
  case Nil
  have "getData_loop env opts p [] (w, out, lg) = Inr (w, out @ [], lg @ [])" by simp
  then show ?case by blast
next
  case (Cons f mid)
  from Cons.prems obtain o1 l1 where
    s: "process_file env opts p f (w, out, lg, []) = Inr (w, out @ o1, lg @ l1, [])"
    using process_file_no_exec [of p f env opts w out lg "[]"] by auto
  from Cons.IH [of "out @ o1" "lg @ l1"] Cons.prems obtain o2 l2 where
    r: "getData_loop env opts p mid (w, out @ o1, lg @ l1)
        = Inr (w, (out @ o1) @ o2, (lg @ l1) @ l2)"
    by auto
  from s r have "getData_loop env opts p (f # mid) (w, out, lg)
      = Inr (w, out @ (o1 @ o2), lg @ (l1 @ l2))"
    by simp
  then show ?case by blast
qed

lemma process_file_exec_ok:
  assumes "\<not> regex_ignored p f" "gitignore_check env opts p f = Pass"
    and "resolve_executable opts p (filepath_Ext f) = x" "x \<noteq> []"
    and "strings_Fields env x = prog # xargs"
    and "exec_CombinedOutput env w prog (xargs @ [f]) = ((xout, None), w')"
  shows "\<exists>out' lg'. process_file env opts p f (w, out, lg, eo) = Inr (w', out @ out', lg @ lg', xout)"
proof (cases "os_ReadFile env w' f")
  case (Inl err)
  with assms have "process_file env opts p f (w, out, lg, eo)
      = Inr (w', out @ [], lg @ [''Error reading file '' @ f @ '': '' @ err], xout)"
    by (simp add: process_file_def run_executable_def)
  then show ?thesis by blast
next
  case (Inr c)
  with assms have "process_file env opts p f (w, out, lg, eo)
      = Inr (w', out @ emit_block opts f (language_of (filepath_Ext f)) c xout, lg @ [], xout)"
    by (simp add: process_file_def run_executable_def)
  then show ?thesis by blast
qed

text \<open>
  C3. Let file \<open>k\<close> be processed with an executable that succeeds and prints the
  non-empty text \<open>kout\<close>, let every file between \<open>k\<close> and \<open>m\<close> be skipped or resolve
  no executable, and let \<open>m\<close> be processed, resolve no executable and be readable.
  In \<^verbatim>\<open>src/unnamed/part_000\<close> the block written for \<open>m\<close> holds \<open>kout\<close> between the
  content (and its closing fence) and the delimiter: the variable still holds the
  output of \<open>k\<close>. In \<^verbatim>\<open>src/main.go\<close>, in the same situation, the block of \<open>m\<close> has the
  delimiter right after the content (and its closing fence).
\<close>

theorem C3_stale_executable_output:
  assumes "\<not> regex_ignored p k" and "gitignore_check env opts p k = Pass"
    and "resolve_executable opts p (filepath_Ext k) = x" and "x \<noteq> []"
    and "strings_Fields env x = prog # xargs"
    and "exec_CombinedOutput env w prog (xargs @ [k]) = ((kout, None), w')"
    and "kout \<noteq> []"
    and "\<forall>f\<in>set mid. regex_ignored p f \<or> gitignore_check env opts p f \<noteq> Pass
           \<or> resolve_executable opts p (filepath_Ext f) = []"
    and "\<not> regex_ignored p m" and "gitignore_check env opts p m = Pass"
    and "resolve_executable opts p (filepath_Ext m) = []"
    and "os_ReadFile env w' m = Inr content"
  shows "(\<forall>t0 out lg eo. loop_part000 env opts p pre t0 = Inr (w, out, lg, eo) \<longrightarrow>
           (\<exists>out' lg'. loop_part000 env opts p (pre @ k # mid @ [m]) t0
              = Inr (w',
                     out' @ m @ newline
                       @ (if wrapCode opts then ''```'' @ language_of (filepath_Ext m) @ newline else [])
                       @ content @ newline
                       @ (if wrapCode opts then ''```'' @ newline else [])
                       @ kout @ newline
                       @ delimiter opts @ newline,
                     lg', kout)))
       \<and> (\<forall>s0 out lg. getData_loop env opts p pre s0 = Inr (w, out, lg) \<longrightarrow>
           (\<exists>out' lg'. getData_loop env opts p (pre @ k # mid @ [m]) s0
              = Inr (w',
                     out' @ m @ newline
                       @ (if wrapCode opts then ''```'' @ language_of (filepath_Ext m) @ newline else [])
                       @ content @ newline
                       @ (if wrapCode opts then ''```'' @ newline else [])
                       @ delimiter opts @ newline,
                     lg')))"
proof (intro conjI allI impI)
  fix t0 out lg eo
  assume pre: "loop_part000 env opts p pre t0 = Inr (w, out, lg, eo)"
  from process_file_exec_ok [OF assms(1-6)] obtain o1 l1 where
    k: "process_file env opts p k (w, out, lg, eo) = Inr (w', out @ o1, lg @ l1, kout)"
    by blast
  from loop_part000_no_exec [OF assms(8)] obtain o2 l2 where
    mid: "loop_part000 env opts p mid (w', out @ o1, lg @ l1, kout)
        = Inr (w', (out @ o1) @ o2, (lg @ l1) @ l2, kout)"
    by blast
  have m: "process_file env opts p m (w', (out @ o1) @ o2, (lg @ l1) @ l2, kout)
      = Inr (w', ((out @ o1) @ o2) @ emit_block opts m (language_of (filepath_Ext m)) content kout,
             (lg @ l1) @ l2, kout)"
    by (rule process_file_plain [OF assms(9-12)])
  have "loop_part000 env opts p (pre @ k # mid @ [m]) t0
      = Inr (w', ((out @ o1) @ o2) @ emit_block opts m (language_of (filepath_Ext m)) content kout,
             (lg @ l1) @ l2, kout)"
    using pre k mid m by (simp add: loop_part000_append)
  then have "loop_part000 env opts p (pre @ k # mid @ [m]) t0
      = Inr (w',
             ((out @ o1) @ o2) @ m @ newline
               @ (if wrapCode opts then ''```'' @ language_of (filepath_Ext m) @ newline else [])
               @ content @ newline
               @ (if wrapCode opts then ''```'' @ newline else [])
               @ kout @ newline
               @ delimiter opts @ newline,
             (lg @ l1) @ l2, kout)"
    using assms(7) by (simp add: emit_block_def)
  then show "\<exists>out' lg'. loop_part000 env opts p (pre @ k # mid @ [m]) t0
      = Inr (w',
             out' @ m @ newline
               @ (if wrapCode opts then ''```'' @ language_of (filepath_Ext m) @ newline else [])
               @ content @ newline
               @ (if wrapCode opts then ''```'' @ newline else [])
               @ kout @ newline
               @ delimiter opts @ newline,
             lg', kout)"
    by blast
next
  fix s0 out lg
  assume pre: "getData_loop env opts p pre s0 = Inr (w, out, lg)"
  from process_file_exec_ok [OF assms(1-6)] obtain o1 l1 where
    k: "process_file env opts p k (w, out, lg, []) = Inr (w', out @ o1, lg @ l1, kout)"
    by blast
  from getData_loop_no_exec [OF assms(8)] obtain o2 l2 where
    mid: "getData_loop env opts p mid (w', out @ o1, lg @ l1)
        = Inr (w', (out @ o1) @ o2, (lg @ l1) @ l2)"
    by blast
  have m: "process_file env opts p m (w', (out @ o1) @ o2, (lg @ l1) @ l2, [])
      = Inr (w', ((out @ o1) @ o2) @ emit_block opts m (language_of (filepath_Ext m)) content [],
             (lg @ l1) @ l2, [])"
    by (rule process_file_plain [OF assms(9-12)])
  have "getData_loop env opts p (pre @ k # mid @ [m]) s0
      = Inr (w', ((out @ o1) @ o2) @ emit_block opts m (language_of (filepath_Ext m)) content [],
             (lg @ l1) @ l2)"
    using pre k mid m by (simp add: getData_loop_append)
  then have "getData_loop env opts p (pre @ k # mid @ [m]) s0
      = Inr (w',
             ((out @ o1) @ o2) @ m @ newline
               @ (if wrapCode opts then ''```'' @ language_of (filepath_Ext m) @ newline else [])
               @ content @ newline
               @ (if wrapCode opts then ''```'' @ newline else [])
               @ delimiter opts @ newline,
             (lg @ l1) @ l2)"
    by (simp add: emit_block_def)
  then show "\<exists>out' lg'. getData_loop env opts p (pre @ k # mid @ [m]) s0
      = Inr (w',
             out' @ m @ newline
               @ (if wrapCode opts then ''```'' @ language_of (filepath_Ext m) @ newline else [])
               @ content @ newline
               @ (if wrapCode opts then ''```'' @ newline else [])
               @ delimiter opts @ newline,
             lg')"
    by blast
qed

theorem C3_stale_executable_output_witness:
  "\<exists>out' lg'. loop_part000 (example_env example_files empty_Config [])
      (initial_Options\<lparr>files := [''t.ts'', ''build/out.js'', ''a.py''], fileExecs := [''.ts'' \<mapsto> ''tsc'']\<rparr>)
      (prepared (example_env example_files empty_Config [])
         (initial_Options\<lparr>files := [''t.ts'', ''build/out.js'', ''a.py''], fileExecs := [''.ts'' \<mapsto> ''tsc'']\<rparr>)
         Map.empty)
      ([] @ ''t.ts'' # [''build/out.js''] @ [''a.py'']) (0, [], [], [])
    = Inr (Suc 0,
           out' @ ''a.py'' @ newline @ ''```python'' @ newline @ ''print(1)'' @ newline
             @ ''```'' @ newline @ ''checked t.ts'' @ newline @ ''======'' @ newline,
           lg', ''checked t.ts'')"
proof -
  let ?env = "example_env example_files empty_Config [] :: nat env"
  let ?o = "initial_Options\<lparr>files := [''t.ts'', ''build/out.js'', ''a.py''], fileExecs := [''.ts'' \<mapsto> ''tsc'']\<rparr>"
  let ?p = "prepared ?env ?o Map.empty"
  have h1: "\<not> regex_ignored ?p ''t.ts''" by code_simp
  have h2: "gitignore_check ?env ?o ?p ''t.ts'' = Pass" by code_simp
  have h3: "resolve_executable ?o ?p (filepath_Ext ''t.ts'') = ''tsc''" by code_simp
  have h4: "''tsc'' \<noteq> []" by simp
  have h5: "strings_Fields ?env ''tsc'' = ''tsc'' # []" by code_simp
  have h6: "exec_CombinedOutput ?env 0 ''tsc'' ([] @ [''t.ts'']) = ((''checked t.ts'', None), Suc 0)"
    by code_simp
  have h7: "''checked t.ts'' \<noteq> []" by simp
  have h8: "\<forall>f\<in>set [''build/out.js'']. regex_ignored ?p f \<or> gitignore_check ?env ?o ?p f \<noteq> Pass
      \<or> resolve_executable ?o ?p (filepath_Ext f) = []"
    by code_simp
  have h9: "\<not> regex_ignored ?p ''a.py''" by code_simp
  have h10: "gitignore_check ?env ?o ?p ''a.py'' = Pass" by code_simp
  have h11: "resolve_executable ?o ?p (filepath_Ext ''a.py'') = []" by code_simp
  have h12: "os_ReadFile ?env (Suc 0) ''a.py'' = Inr ''print(1)''" by code_simp
  have pre: "loop_part000 ?env ?o ?p [] (0, [], [], []) = Inr (0, [], [], [])" by simp
  have w: "wrapCode ?o" and d: "delimiter ?o = ''======''"
    and l: "language_of (filepath_Ext ''a.py'') = ''python''"
    by (simp_all add: initial_Options_def DefaultDelimiter_def filepath_Ext_def language_of_def
        languageMap_def)
  from C3_stale_executable_output [where pre = "[]", OF h1 h2 h3 h4 h5 h6 h7 h8 h9 h10 h11 h12]
  have "\<forall>t0 out lg eo. loop_part000 ?env ?o ?p [] t0 = Inr (0, out, lg, eo) \<longrightarrow>
      (\<exists>out' lg'. loop_part000 ?env ?o ?p ([] @ ''t.ts'' # [''build/out.js''] @ [''a.py'']) t0
         = Inr (Suc 0,
                out' @ ''a.py'' @ newline
                  @ (if wrapCode ?o then ''```'' @ language_of (filepath_Ext ''a.py'') @ newline else [])
                  @ ''print(1)'' @ newline
                  @ (if wrapCode ?o then ''```'' @ newline else [])
                  @ ''checked t.ts'' @ newline
                  @ delimiter ?o @ newline,
                lg', ''checked t.ts''))"
    by (rule conjunct1)
  with pre have "\<exists>out' lg'. loop_part000 ?env ?o ?p ([] @ ''t.ts'' # [''build/out.js''] @ [''a.py'']) (0, [], [], [])
         = Inr (Suc 0,
                out' @ ''a.py'' @ newline
                  @ (if wrapCode ?o then ''```'' @ language_of (filepath_Ext ''a.py'') @ newline else [])
                  @ ''print(1)'' @ newline
                  @ (if wrapCode ?o then ''```'' @ newline else [])
                  @ ''checked t.ts'' @ newline
                  @ delimiter ?o @ newline,
                lg', ''checked t.ts'')"
    by blast
  then show ?thesis
    by (simp add: w d l)
qed

section \<open>Fences\<close>

lemma clean_Nil: "clean []"
  by (simp add: clean_def fence_free_def)

lemma fence_free_append:
  assumes "fence_free a" "fence_free b" "a = [] \<or> last a = CHR 0x0A"
  shows "fence_free (a @ b)"
proof (rule ccontr)
  assume "\<not> fence_free (a @ b)"
  then have "sublist ''```'' (a @ b)" by (simp add: fence_free_def)
  with assms(1,2) obtain x1 x2 where x: "''```'' = x1 @ x2" "suffix x1 a" "prefix x2 b"
    by (auto simp: sublist_append fence_free_def)
  show False
  proof (cases "x1 = []")
    case True
    with x have "prefix ''```'' b" by simp
    with assms(2) show False by (auto simp: fence_free_def)
  next
    case False
    with x(2) have ne: "a \<noteq> []" by (auto simp: suffix_def)
    from x(2) False have "last x1 = last a" by (auto simp: suffix_def)
    with ne assms(3) have "last x1 = CHR 0x0A" by simp
    with False have "CHR 0x0A \<in> set x1" by (metis last_in_set)
    then have "CHR 0x0A \<in> set (x1 @ x2)" by simp
    then have "CHR 0x0A \<in> set ''```''" by (simp only: x(1) [symmetric])
    then show False by simp
  qed
qed

lemma fence_free_newline: "fence_free a \<Longrightarrow> fence_free (a @ newline)"
proof (rule ccontr)
  assume a: "fence_free a" and "\<not> fence_free (a @ newline)"
  then have "sublist ''```'' (a @ [CHR 0x0A])" by (simp add: fence_free_def newline_def)
  moreover have "\<not> sublist ''```'' [CHR 0x0A]" by (simp add: sublist_Cons_right)
  ultimately obtain x1 x2 where x: "''```'' = x1 @ x2" "suffix x1 a" "prefix x2 [CHR 0x0A]"
    using a by (auto simp: sublist_append fence_free_def)
  from x(3) consider "x2 = []" | "x2 = [CHR 0x0A]"
    by (cases x2) (auto simp: prefix_Cons)
  then show False
  proof cases
    case 1
    with x have "suffix ''```'' a" by simp
    with a show False by (auto simp: fence_free_def)
  next
    case 2
    then have "CHR 0x0A \<in> set (x1 @ x2)" by simp
    then have "CHR 0x0A \<in> set ''```''" by (simp only: x(1) [symmetric])
    then show False by simp
  qed
qed

lemma clean_seg: "fence_free a \<Longrightarrow> clean (a @ newline)"
  using fence_free_newline [of a] by (simp add: clean_def newline_def)

lemma clean_append: "clean a \<Longrightarrow> clean b \<Longrightarrow> clean (a @ b)"
  using fence_free_append [of a b] by (cases "b = []") (auto simp: clean_def)

lemma clean_concat: "list_all clean xs \<Longrightarrow> clean (concat xs)"
  by (induction xs) (simp_all add: clean_Nil clean_append)

lemma clean_block:
  assumes "\<not> wrapCode opts" "fence_free f" "fence_free c" "fence_free eo"
    and "fence_free (delimiter opts)"
  shows "clean (block_of opts (f, c, eo))"
proof -
  have e: "clean (if eo \<noteq> [] then eo @ newline else [])"
    using assms(4) by (simp add: clean_Nil clean_seg)
  have "clean ((f @ newline) @ (c @ newline) @ (if eo \<noteq> [] then eo @ newline else [])
                @ (delimiter opts @ newline))"
    by (intro clean_append clean_seg e assms)
  with assms(1) show ?thesis
    by (simp add: block_of_triple emit_block_def)
qed

lemma blocks_clean:
  assumes "\<not> wrapCode opts" and "fence_free (delimiter opts)"
    and "\<forall>f\<in>set fs. fence_free f"
    and "\<forall>w f c. os_ReadFile env w f = Inr c \<longrightarrow> fence_free c"
    and "\<forall>w prog args. fence_free (fst (fst (exec_CombinedOutput env w prog args)))"
    and "subseq (map fst bs) fs" and "list_all (emitted env p) bs"
  shows "fence_free (concat (map (block_of opts) bs))"
proof -
  have "clean (block_of opts b)" if b: "b \<in> set bs" for b
  proof -
    obtain f c eo where t: "b = (f, c, eo)" by (cases b)
    from b t have "f \<in> set (map fst bs)" by force
    with assms(6) have "f \<in> set fs"
      by (metis subseq_order.dual_order.trans set_mono_sublist subseq_singleton_left list_emb_set)
    with assms(3) have ff: "fence_free f" by simp
    from b t assms(7) have em: "emitted env p (f, c, eo)" by (auto simp: list_all_iff)
    with assms(4) have fc: "fence_free c" by (auto simp: emitted_triple)
    from em assms(5) have fe: "fence_free eo"
      by (auto simp: emitted_triple from_exec_def fence_free_def)
    from clean_block [OF assms(1) ff fc fe assms(2)] t show ?thesis by simp
  qed
  then have "list_all clean (map (block_of opts) bs)" by (simp add: list_all_iff)
  then show ?thesis using clean_concat by (auto simp: clean_def)
qed

lemma getData_Inr:
  assumes "getData env w opts fte = Inr (w', out, lg)"
  shows "getData_loop env opts (prepared env opts fte) (files opts)
           (w, [], snd (load_gitignore env (ignoreGitIgnore opts))) = Inr (w', out, lg)"
  using assms by (simp add: getData_prepared split: sum.splits)

lemma process_part000_Inr:
  assumes "process_part000 env w opts fte = Inr (w', out, lg, eo)"
  shows "loop_part000 env opts (prepared env opts fte) (files opts)
           (w, [], snd (load_gitignore env (ignoreGitIgnore opts)), []) = Inr (w', out, lg, eo)"
  using assms by (simp add: process_part000_prepared split: sum.splits)

lemma getData_blocks:
  assumes "getData env w opts fte = Inr (w', out, lg)"
  shows "\<exists>bs. out = concat (map (block_of opts) bs) \<and> subseq (map fst bs) (files opts)
             \<and> list_all (emitted env (prepared env opts fte)) bs"
  using getData_loop_blocks [OF getData_Inr [OF assms]] by simp

lemma process_part000_blocks:
  assumes "process_part000 env w opts fte = Inr (w', out, lg, eo)"
  shows "\<exists>bs. out = concat (map (block_of opts) bs) \<and> subseq (map fst bs) (files opts)
             \<and> list_all (emitted env (prepared env opts fte)) bs"
  using loop_part000_blocks [OF process_part000_Inr [OF assms]] by simp

lemma block_of_wrapped:
  "wrapCode opts \<Longrightarrow>
   block_of opts = (\<lambda>(f, c, eo). f @ newline @ ''```'' @ language_of (filepath_Ext f) @ newline
        @ c @ newline @ ''```'' @ newline
        @ (if eo \<noteq> [] then eo @ newline else []) @ delimiter opts @ newline)"
  by (rule ext) (simp add: block_of_def emit_block_def split: prod.splits)

lemma language_of_table:
  "language_of ext = (case map_of languageMap ext of None \<Rightarrow> ''plaintext'' | Some l \<Rightarrow> l)"
proof (cases "map_of languageMap ext")
  case None
  then show ?thesis by (simp add: language_of_def)
next
  case (Some l)
  then have "(ext, l) \<in> set languageMap" by (rule map_of_SomeD)
  then have "l \<noteq> []" by (auto simp: languageMap_def)
  with Some show ?thesis by (simp add: language_of_def)
qed

lemma process_file_output:
  assumes "process_file env opts p f (w, out, lg, eo) = Inr (w', out', lg', eo')"
  shows "out' = out @ (case block_at env opts p f w eo of None \<Rightarrow> [] | Some b \<Rightarrow> block_of opts b)"
  using assms
  by (auto simp: process_file_def block_at_def block_of_triple
      split: if_splits gitcheck.splits sum.splits prod.splits)

lemma getData_loop_emitted:
  assumes "getData_loop env opts p fs (w, out, lg) = Inr (w', out', lg')"
  shows "out' = out @ concat (map (block_of opts) (emitted_main env opts p fs (w, out, lg)))"
  using assms
proof (induction fs arbitrary: w out lg)
  case Nil
  then show ?case by simp
next
  case (Cons f fs)
  from Cons.prems obtain w1 out1 lg1 eo1 where
    step: "process_file env opts p f (w, out, lg, []) = Inr (w1, out1, lg1, eo1)" and
    rest: "getData_loop env opts p fs (w1, out1, lg1) = Inr (w', out', lg')"
    by (auto split: sum.splits)
  from Cons.IH [OF rest] process_file_output [OF step] step show ?case
    by (simp split: option.splits)
qed

lemma loop_part000_emitted:
  assumes "loop_part000 env opts p fs (w, out, lg, eo) = Inr (w', out', lg', eo')"
  shows "out' = out @ concat (map (block_of opts) (emitted_part000 env opts p fs (w, out, lg, eo)))"
  using assms
proof (induction fs arbitrary: w out lg eo)
  case Nil
  then show ?case by simp
next
  case (Cons f fs)
  from Cons.prems obtain w1 out1 lg1 eo1 where
    step: "process_file env opts p f (w, out, lg, eo) = Inr (w1, out1, lg1, eo1)" and
    rest: "loop_part000 env opts p fs (w1, out1, lg1, eo1) = Inr (w', out', lg', eo')"
    by (auto split: sum.splits)
  from Cons.IH [OF rest] process_file_output [OF step] step show ?case
    by (simp split: option.splits)
qed

lemma getData_output:
  assumes "getData env w opts fte = Inr (w', out, lg)"
  shows "out = concat (map (block_of opts) (getData_emitted env w opts fte))"
  using getData_loop_emitted [OF getData_Inr [OF assms]] by (simp add: getData_emitted_def)

lemma process_part000_output:
  assumes "process_part000 env w opts fte = Inr (w', out, lg, eo)"
  shows "out = concat (map (block_of opts) (process_part000_emitted env w opts fte))"
  using loop_part000_emitted [OF process_part000_Inr [OF assms]]
  by (simp add: process_part000_emitted_def)

lemma emitted_clean:
  assumes "\<not> wrapCode opts" "fence_free (delimiter opts)" "list_all triple_fence_free bs"
  shows "fence_free (concat (map (block_of opts) bs))"
proof -
  have "clean (block_of opts b)" if "b \<in> set bs" for b
  proof -
    obtain f c eo where t: "b = (f, c, eo)" by (cases b)
    from that assms(3) t have "fence_free f" "fence_free c" "fence_free eo"
      by (auto simp: list_all_iff triple_fence_free_def)
    from clean_block [OF assms(1) this assms(2)] t show ?thesis by simp
  qed
  then have "list_all clean (map (block_of opts) bs)" by (simp add: list_all_iff)
  then show ?thesis using clean_concat by (auto simp: clean_def)
qed

lemma block_at_path: "block_at env opts p f w eo = Some b \<Longrightarrow> fst b = f"
  by (auto simp: block_at_def split: if_splits gitcheck.splits sum.splits prod.splits)

lemma emitted_main_subseq: "subseq (map fst (emitted_main env opts p fs s)) fs"
proof (induction fs arbitrary: s)
  case Nil
  show ?case by simp
next
  case (Cons f fs)
  obtain w out lg where s: "s = (w, out, lg)" by (cases s)
  show ?case
  proof (cases "process_file env opts p f (w, out, lg, [])")
    case (Inl e)
    then show ?thesis by (simp add: s)
  next
    case (Inr r)
    obtain w1 out1 lg1 eo1 where r: "r = (w1, out1, lg1, eo1)" by (cases r)
    show ?thesis
    proof (cases "block_at env opts p f w []")
      case None
      with Inr r Cons.IH [of "(w1, out1, lg1)"] show ?thesis
        by (simp add: s list_emb_Cons)
    next
      case (Some b)
      with Inr r Cons.IH [of "(w1, out1, lg1)"] block_at_path [OF Some] show ?thesis
        by (simp add: s)
    qed
  qed
qed

lemma emitted_part000_subseq: "subseq (map fst (emitted_part000 env opts p fs s)) fs"
proof (induction fs arbitrary: s)
  case Nil
  show ?case by simp
next
  case (Cons f fs)
  obtain w out lg eo where s: "s = (w, out, lg, eo)" by (cases s)
  show ?case
  proof (cases "process_file env opts p f (w, out, lg, eo)")
    case (Inl e)
    then show ?thesis by (simp add: s)
  next
    case (Inr r)
    show ?thesis
    proof (cases "block_at env opts p f w eo")
      case None
      with Inr Cons.IH [of r] show ?thesis
        by (simp add: s list_emb_Cons)
    next
      case (Some b)
      with Inr Cons.IH [of r] block_at_path [OF Some] show ?thesis
        by (simp add: s)
    qed
  qed
qed

lemma block_of_unwrapped:
  "\<not> wrapCode opts \<Longrightarrow>
   block_of opts = (\<lambda>(f, c, eo). f @ newline @ c @ newline
        @ (if eo \<noteq> [] then eo @ newline else []) @ delimiter opts @ newline)"
  by (rule ext) (simp add: block_of_def emit_block_def split: prod.splits)

lemma fences_of_blocks:
  assumes "out = concat (map (block_of opts) bs)"
  shows "(wrapCode opts \<longrightarrow>
            out = concat (map (\<lambda>(f, c, eo).
                    f @ newline @ ''```'' @ language_of (filepath_Ext f) @ newline
                    @ c @ newline @ ''```'' @ newline
                    @ (if eo \<noteq> [] then eo @ newline else []) @ delimiter opts @ newline) bs))
       \<and> (\<not> wrapCode opts \<longrightarrow>
            out = concat (map (\<lambda>(f, c, eo).
                    f @ newline @ c @ newline
                    @ (if eo \<noteq> [] then eo @ newline else []) @ delimiter opts @ newline) bs))
       \<and> (\<not> wrapCode opts \<and> fence_free (delimiter opts) \<and> list_all triple_fence_free bs
            \<longrightarrow> \<not> sublist ''```'' out)"
proof (intro conjI impI)
  assume w: "wrapCode opts"
  show "out = concat (map (\<lambda>(f, c, eo).
                    f @ newline @ ''```'' @ language_of (filepath_Ext f) @ newline
                    @ c @ newline @ ''```'' @ newline
                    @ (if eo \<noteq> [] then eo @ newline else []) @ delimiter opts @ newline) bs)"
    using assms by (simp only: block_of_wrapped [OF w])
next
  assume w: "\<not> wrapCode opts"
  show "out = concat (map (\<lambda>(f, c, eo).
                    f @ newline @ c @ newline
                    @ (if eo \<noteq> [] then eo @ newline else []) @ delimiter opts @ newline) bs)"
    using assms by (simp only: block_of_unwrapped [OF w])
next
  assume "\<not> wrapCode opts \<and> fence_free (delimiter opts) \<and> list_all triple_fence_free bs"
  then have "fence_free (concat (map (block_of opts) bs))"
    by (intro emitted_clean) simp_all
  with assms show "\<not> sublist ''```'' out" by (simp add: fence_free_def)
qed

text \<open>
  C7 (amended). The output of a run that succeeds is the concatenation, in the order
  of the input, of one block for every file it has emitted (the file is not ignored,
  its executable if any succeeded, its content was read). With code wrapping on, in
  every block the content stands between the line of three backticks and the language
  and the line of three backticks; the language is the one the table gives for the
  extension, \<open>plaintext\<close> when the table has none. With code wrapping off the blocks
  have no such lines, so the program adds no fence marker: when neither the delimiter
  nor the path, the content or the captured output of an emitted file holds three
  backticks in a row, the output holds none. All this holds in both variants.
\<close>

theorem C7_fences:
  "(\<forall>w' out lg. getData env w opts fte = Inr (w', out, lg) \<longrightarrow>
      (wrapCode opts \<longrightarrow>
         out = concat (map (\<lambda>(f, c, eo).
                 f @ newline @ ''```'' @ language_of (filepath_Ext f) @ newline
                 @ c @ newline @ ''```'' @ newline
                 @ (if eo \<noteq> [] then eo @ newline else []) @ delimiter opts @ newline)
               (getData_emitted env w opts fte)))
    \<and> (\<not> wrapCode opts \<longrightarrow>
         out = concat (map (\<lambda>(f, c, eo).
                 f @ newline @ c @ newline
                 @ (if eo \<noteq> [] then eo @ newline else []) @ delimiter opts @ newline)
               (getData_emitted env w opts fte)))
    \<and> (\<not> wrapCode opts \<and> fence_free (delimiter opts)
          \<and> list_all triple_fence_free (getData_emitted env w opts fte)
         \<longrightarrow> \<not> sublist ''```'' out))
   \<and> (\<forall>w' out lg eo. process_part000 env w opts fte = Inr (w', out, lg, eo) \<longrightarrow>
      (wrapCode opts \<longrightarrow>
         out = concat (map (\<lambda>(f, c, eo).
                 f @ newline @ ''```'' @ language_of (filepath_Ext f) @ newline
                 @ c @ newline @ ''```'' @ newline
                 @ (if eo \<noteq> [] then eo @ newline else []) @ delimiter opts @ newline)
               (process_part000_emitted env w opts fte)))
    \<and> (\<not> wrapCode opts \<longrightarrow>
         out = concat (map (\<lambda>(f, c, eo).
                 f @ newline @ c @ newline
                 @ (if eo \<noteq> [] then eo @ newline else []) @ delimiter opts @ newline)
               (process_part000_emitted env w opts fte)))
    \<and> (\<not> wrapCode opts \<and> fence_free (delimiter opts)
          \<and> list_all triple_fence_free (process_part000_emitted env w opts fte)
         \<longrightarrow> \<not> sublist ''```'' out))
   \<and> subseq (map fst (getData_emitted env w opts fte)) (files opts)
   \<and> subseq (map fst (process_part000_emitted env w opts fte)) (files opts)
   \<and> language_of ext = (case map_of languageMap ext of None \<Rightarrow> ''plaintext'' | Some l \<Rightarrow> l)"
proof (intro conjI allI)
  fix w' out lg
  show "getData env w opts fte = Inr (w', out, lg) \<longrightarrow>
      (wrapCode opts \<longrightarrow>
         out = concat (map (\<lambda>(f, c, eo).
                 f @ newline @ ''```'' @ language_of (filepath_Ext f) @ newline
                 @ c @ newline @ ''```'' @ newline
                 @ (if eo \<noteq> [] then eo @ newline else []) @ delimiter opts @ newline)
               (getData_emitted env w opts fte)))
    \<and> (\<not> wrapCode opts \<longrightarrow>
         out = concat (map (\<lambda>(f, c, eo).
                 f @ newline @ c @ newline
                 @ (if eo \<noteq> [] then eo @ newline else []) @ delimiter opts @ newline)
               (getData_emitted env w opts fte)))
    \<and> (\<not> wrapCode opts \<and> fence_free (delimiter opts)
          \<and> list_all triple_fence_free (getData_emitted env w opts fte)
         \<longrightarrow> \<not> sublist ''```'' out)"
  proof
    assume "getData env w opts fte = Inr (w', out, lg)"
    from fences_of_blocks [OF getData_output [OF this]] show "(wrapCode opts \<longrightarrow>
         out = concat (map (\<lambda>(f, c, eo).
                 f @ newline @ ''```'' @ language_of (filepath_Ext f) @ newline
                 @ c @ newline @ ''```'' @ newline
                 @ (if eo \<noteq> [] then eo @ newline else []) @ delimiter opts @ newline)
               (getData_emitted env w opts fte)))
    \<and> (\<not> wrapCode opts \<longrightarrow>
         out = concat (map (\<lambda>(f, c, eo).
                 f @ newline @ c @ newline
                 @ (if eo \<noteq> [] then eo @ newline else []) @ delimiter opts @ newline)
               (getData_emitted env w opts fte)))
    \<and> (\<not> wrapCode opts \<and> fence_free (delimiter opts)
          \<and> list_all triple_fence_free (getData_emitted env w opts fte)
         \<longrightarrow> \<not> sublist ''```'' out)" .
  qed
next
  fix w' out lg eo
  show "process_part000 env w opts fte = Inr (w', out, lg, eo) \<longrightarrow>
      (wrapCode opts \<longrightarrow>
         out = concat (map (\<lambda>(f, c, eo).
                 f @ newline @ ''```'' @ language_of (filepath_Ext f) @ newline
                 @ c @ newline @ ''```'' @ newline
                 @ (if eo \<noteq> [] then eo @ newline else []) @ delimiter opts @ newline)
               (process_part000_emitted env w opts fte)))
    \<and> (\<not> wrapCode opts \<longrightarrow>
         out = concat (map (\<lambda>(f, c, eo).
                 f @ newline @ c @ newline
                 @ (if eo \<noteq> [] then eo @ newline else []) @ delimiter opts @ newline)
               (process_part000_emitted env w opts fte)))
    \<and> (\<not> wrapCode opts \<and> fence_free (delimiter opts)
          \<and> list_all triple_fence_free (process_part000_emitted env w opts fte)
         \<longrightarrow> \<not> sublist ''```'' out)"
  proof
    assume "process_part000 env w opts fte = Inr (w', out, lg, eo)"
    from fences_of_blocks [OF process_part000_output [OF this]] show "(wrapCode opts \<longrightarrow>
         out = concat (map (\<lambda>(f, c, eo).
                 f @ newline @ ''```'' @ language_of (filepath_Ext f) @ newline
                 @ c @ newline @ ''```'' @ newline
                 @ (if eo \<noteq> [] then eo @ newline else []) @ delimiter opts @ newline)
               (process_part000_emitted env w opts fte)))
    \<and> (\<not> wrapCode opts \<longrightarrow>
         out = concat (map (\<lambda>(f, c, eo).
                 f @ newline @ c @ newline
                 @ (if eo \<noteq> [] then eo @ newline else []) @ delimiter opts @ newline)
               (process_part000_emitted env w opts fte)))
    \<and> (\<not> wrapCode opts \<and> fence_free (delimiter opts)
          \<and> list_all triple_fence_free (process_part000_emitted env w opts fte)
         \<longrightarrow> \<not> sublist ''```'' out)" .
  qed
next
  show "subseq (map fst (getData_emitted env w opts fte)) (files opts)"
    by (simp add: getData_emitted_def emitted_main_subseq)
next
  show "subseq (map fst (process_part000_emitted env w opts fte)) (files opts)"
    by (simp add: process_part000_emitted_def emitted_part000_subseq)
next
  show "language_of ext = (case map_of languageMap ext of None \<Rightarrow> ''plaintext'' | Some l \<Rightarrow> l)"
    by (rule language_of_table)
qed

text \<open>
  C7, as stated, at the file \<open>notes.md\<close> whose content is three backticks, with code
  wrapping off: the output of both variants holds the marker.
\<close>

theorem C7_fences_counterexample:
  "\<not> wrapCode (initial_Options\<lparr>files := [''notes.md''], wrapCode := False\<rparr>)
   \<and> getData (example_env example_files empty_Config []) 0
        (initial_Options\<lparr>files := [''notes.md''], wrapCode := False\<rparr>) Map.empty
      = Inr (0, ''notes.md\<newline>```\<newline>======\<newline>'', [])
   \<and> process_part000 (example_env example_files empty_Config []) 0
        (initial_Options\<lparr>files := [''notes.md''], wrapCode := False\<rparr>) Map.empty
      = Inr (0, ''notes.md\<newline>```\<newline>======\<newline>'', [], [])
   \<and> sublist ''```'' ''notes.md\<newline>```\<newline>======\<newline>''"
  by code_simp

theorem C7_fences_witness:
  "\<not> sublist ''```'' ''a.py\<newline>print(1)\<newline>======\<newline>''
   \<and> ''a.py\<newline>```python\<newline>print(1)\<newline>```\<newline>======\<newline>''
       = concat (map (\<lambda>(f, c, eo).
                 f @ newline @ ''```'' @ language_of (filepath_Ext f) @ newline
                 @ c @ newline @ ''```'' @ newline
                 @ (if eo \<noteq> [] then eo @ newline else [])
                 @ delimiter (initial_Options\<lparr>files := [''a.py'']\<rparr>) @ newline)
               (getData_emitted (example_env example_files empty_Config []) 0
                  (initial_Options\<lparr>files := [''a.py'']\<rparr>) Map.empty))"
proof -
  let ?env = "example_env example_files empty_Config [] :: nat env"
  let ?o = "initial_Options\<lparr>files := [''a.py''], wrapCode := False\<rparr>"
  let ?o' = "initial_Options\<lparr>files := [''a.py'']\<rparr>"
  have h: "\<not> wrapCode ?o \<and> fence_free (delimiter ?o)
      \<and> list_all triple_fence_free (getData_emitted ?env 0 ?o Map.empty)"
    by code_simp
  have g: "getData ?env 0 ?o Map.empty = Inr (0, ''a.py\<newline>print(1)\<newline>======\<newline>'', [])"
    by code_simp
  have g': "getData ?env 0 ?o' Map.empty
      = Inr (0, ''a.py\<newline>```python\<newline>print(1)\<newline>```\<newline>======\<newline>'', [])"
    by code_simp
  have w': "wrapCode ?o'"
    by (simp add: initial_Options_def)
  note t = C7_fences [where env = ?env and w = 0 and fte = Map.empty]
  from t [where opts = ?o, THEN conjunct1, rule_format, OF g, THEN conjunct2, THEN conjunct2,
          THEN mp, OF h]
  have a: "\<not> sublist ''```'' ''a.py\<newline>print(1)\<newline>======\<newline>''" .
  from t [where opts = ?o', THEN conjunct1, rule_format, OF g', THEN conjunct1, THEN mp, OF w']
  have b: "''a.py\<newline>```python\<newline>print(1)\<newline>```\<newline>======\<newline>''
       = concat (map (\<lambda>(f, c, eo).
                 f @ newline @ ''```'' @ language_of (filepath_Ext f) @ newline
                 @ c @ newline @ ''```'' @ newline
                 @ (if eo \<noteq> [] then eo @ newline else [])
                 @ delimiter ?o' @ newline)
               (getData_emitted ?env 0 ?o' Map.empty))" .
  from a b show ?thesis
    by (rule conjI)
qed

section \<open>The selection of a preset\<close>

lemma resolve_part000_by_name:
  assumes "byName opts = X" "X \<noteq> []" "os_Getwd env = Inr D"
  shows "resolve_part000 env cfg opts prog args =
     (case preset_stored cfg D X of
        None \<Rightarrow> ([], Inl (Fatalf_part000 (NoSavedArguments X D)))
      | Some ts \<Rightarrow> if ts = [] then ([], Inl (Fatalf_part000 (NoSavedArguments X D)))
                   else ([], Inr ts))"
  using assms
  by (auto simp: resolve_part000_def preset_stored_def SavedName_index_def split: option.splits)

lemma main_part000_resolved:
  assumes "os_UserHomeDir env = Inr home" "loadConfig_part000 env = Inr cfg"
    and "parseArguments (strings_Fields env) args = Inr opts" "saveName opts = []"
  shows "resolve_part000 env cfg opts prog args = (sout, Inl msg)
           \<Longrightarrow> main_part000 env w prog args = fatal sout [] args msg"
    and "resolve_part000 env cfg opts prog args = (sout, Inr args')
           \<Longrightarrow> os_Args (main_part000 env w prog args) = args'"
    and "resolve_part000 env cfg opts prog args = (sout, Inr args')
           \<Longrightarrow> stdout (main_part000 env w prog args) = sout
               \<or> stdout (main_part000 env w prog args)
                    = sout @ ''Output has been copied to the clipboard.'' @ newline"
  using assms
  by (auto simp: main_part000_def fatal_def split: sum.splits prod.splits option.splits)

text \<open>
  \<^verbatim>\<open>src/unnamed/part_000\<close> looks the name of \<open>-by-name\<close> up: for every invocation whose
  arguments parse, give no name to save under and give \<open>-by-name X\<close> with a non-empty
  \<open>X\<close>, if the current directory has no preset \<open>X\<close>, or an empty one, the program ends
  through \<^verbatim>\<open>log.Fatalf\<close> with a message that names \<open>X\<close> and the directory, and if it
  has a non-empty one, the stored tokens are put into \<^verbatim>\<open>os.Args[1:]\<close>.
\<close>

lemma main_part000_by_name:
  assumes "os_UserHomeDir env = Inr home" and "loadConfig_part000 env = Inr cfg"
    and "parseArguments (strings_Fields env) args = Inr opts"
    and "saveName opts = []" and "byName opts = X" and "X \<noteq> []"
    and "os_Getwd env = Inr D"
  shows "(preset_stored cfg D X = None \<or> preset_stored cfg D X = Some [] \<longrightarrow>
            main_part000 env w prog args
              = fatal [] [] args
                  (''No saved arguments found for name '' @ sq @ X @ sq
                   @ '' in folder '' @ sq @ D @ sq))
       \<and> (\<forall>ts. preset_stored cfg D X = Some ts \<and> ts \<noteq> [] \<longrightarrow>
            os_Args (main_part000 env w prog args) = ts)"
proof (intro conjI impI allI)
  assume "preset_stored cfg D X = None \<or> preset_stored cfg D X = Some []"
  then have "resolve_part000 env cfg opts prog args
      = ([], Inl (Fatalf_part000 (NoSavedArguments X D)))"
    using resolve_part000_by_name [OF assms(5-7), of cfg prog args] by auto
  from main_part000_resolved(1) [OF assms(1-4) this]
  show "main_part000 env w prog args
      = fatal [] [] args
          (''No saved arguments found for name '' @ sq @ X @ sq @ '' in folder '' @ sq @ D @ sq)"
    by simp
next
  fix ts
  assume "preset_stored cfg D X = Some ts \<and> ts \<noteq> []"
  then have "resolve_part000 env cfg opts prog args = ([], Inr ts)"
    using resolve_part000_by_name [OF assms(5-7), of cfg prog args] by auto
  from main_part000_resolved(2) [OF assms(1-4) this]
  show "os_Args (main_part000 env w prog args) = ts" .
qed

text \<open>
  C4, in a directory whose only preset is \<open>my-config\<close>, which is \<open>-files a.py\<close>.
  \<^verbatim>\<open>src/main.go\<close> does not look the name of \<open>-by-name\<close> up: the invocation
  \<open>-by-name nope\<close> ends with "No files specified", a message that names neither the
  directory nor the preset, and \<open>-by-name nope -files a.py\<close> ends normally with the
  block of \<open>a.py\<close> copied; \<^verbatim>\<open>src/unnamed/part_000\<close> ends both with the message that
  names the preset and the directory. With the name of the stored preset,
  \<open>-by-name my-config\<close>, \<^verbatim>\<open>src/main.go\<close> ends with "No files specified" and
  \<^verbatim>\<open>src/unnamed/part_000\<close> copies an empty text: the stored tokens are not replayed.
\<close>

theorem C4_by_name_lookup:
  "preset_stored one_preset_Config ''/proj'' ''nope'' = None
   \<and> fatal_message (main (example_env example_files one_preset_Config []) 0
        [''-by-name'', ''nope''])
      = Some ''No files specified. Please provide at least one file.''
   \<and> fatal_message (main (example_env example_files one_preset_Config []) 0
        [''-by-name'', ''nope'', ''-files'', ''a.py'']) = None
   \<and> copied (main (example_env example_files one_preset_Config []) 0
        [''-by-name'', ''nope'', ''-files'', ''a.py''])
      = Some ''a.py\<newline>```python\<newline>print(1)\<newline>```\<newline>======\<newline>''
   \<and> fatal_message (main_part000 (example_env example_files one_preset_Config []) 0 ''prog''
        [''-by-name'', ''nope''])
      = Some (''No saved arguments found for name '' @ sq @ ''nope'' @ sq
              @ '' in folder '' @ sq @ ''/proj'' @ sq)
   \<and> fatal_message (main_part000 (example_env example_files one_preset_Config []) 0 ''prog''
        [''-by-name'', ''nope'', ''-files'', ''a.py''])
      = Some (''No saved arguments found for name '' @ sq @ ''nope'' @ sq
              @ '' in folder '' @ sq @ ''/proj'' @ sq)
   \<and> preset_stored one_preset_Config ''/proj'' ''my-config'' = Some [''-files'', ''a.py'']
   \<and> fatal_message (main (example_env example_files one_preset_Config []) 0
        [''-by-name'', ''my-config''])
      = Some ''No files specified. Please provide at least one file.''
   \<and> copied (main_part000 (example_env example_files one_preset_Config []) 0 ''prog''
        [''-by-name'', ''my-config'']) = Some []"
  by code_simp

lemma resolve_part000_none:
  assumes "byName opts = []" "files opts = []" "os_Getwd env = Inr D"
    and "Folders_index cfg D = None \<or> (\<exists>fc. Folders_index cfg D = Some fc \<and> SavedName_len fc = 0)"
  shows "resolve_part000 env cfg opts prog args = ([], Inl (usage_part000 prog D))"
  using assms by (auto simp: resolve_part000_def)

lemma resolve_part000_one:
  assumes "byName opts = []" "files opts = []" "os_Getwd env = Inr D"
    and "Folders_index cfg D = Some fc" "SavedName fc = Some [(name, ts)]"
  shows "resolve_part000 env cfg opts prog args = ([], Inr ts)"
  using assms
  by (simp add: resolve_part000_def SavedName_len_def SavedName_range_def SavedName_index_def)

lemma resolve_part000_many:
  assumes "byName opts = []" "files opts = []" "os_Getwd env = Inr D"
    and "Folders_index cfg D = Some fc" "SavedName fc = Some al" "1 < length al"
  shows "resolve_part000 env cfg opts prog args =
     (prompt_part000 (map fst al),
      if selection_part000 env < 1 \<or> int (length al) < selection_part000 env
      then Inl ''Invalid selection''
      else Inr (SavedName_index fc (map fst al ! nat (selection_part000 env - 1))))"
  using assms
  by (auto simp: resolve_part000_def SavedName_len_def SavedName_range_def Let_def)

lemma stdout_main_parsed:
  "prefix sout (stdout (main_parsed env w cfg args sout))"
  by (auto simp: main_parsed_def fatal_def split: sum.splits prod.splits option.splits)

lemma main_no_arguments:
  assumes "os_UserHomeDir env = Inr home" "loadConfig env = Inr cfg" "os_Getwd env = Inr D"
  shows "Folders_index cfg D = None \<or> (\<exists>fc. Folders_index cfg D = Some fc \<and> SavedName_len fc = 0)
           \<Longrightarrow> main env w [] = fatal [] [] []
                 (''No saved configurations found for folder '' @ sq @ D @ sq)"
    and "Folders_index cfg D = Some fc \<Longrightarrow> SavedName fc = Some al \<Longrightarrow> al \<noteq> []
           \<Longrightarrow> main env w [] =
               (case fmt_Scanln_d env (os_Stdin env) of
                  None \<Rightarrow> fatal (prompt_main (map fst al)) [] [] ''Invalid choice''
                | Some choice \<Rightarrow>
                    if choice < 1 \<or> int (length al) < choice
                    then fatal (prompt_main (map fst al)) [] [] ''Invalid choice''
                    else (case getSavedConfig cfg D (map fst al ! nat (choice - 1)) of
                            Inl e \<Rightarrow> fatal (prompt_main (map fst al)) [] []
                                       (''Failed to load saved configuration: '' @ Error_msg e)
                          | Inr savedArgs \<Rightarrow>
                              main_parsed env w cfg savedArgs (prompt_main (map fst al))))"
  using assms
  by (auto simp: main_def SavedName_len_def SavedName_range_def Let_def split: option.splits)

lemma no_name_no_files_part000:
  "os_UserHomeDir env = Inr home \<and> loadConfig_part000 env = Inr cfg
      \<and> parseArguments (strings_Fields env) args = Inr opts
      \<and> saveName opts = [] \<and> byName opts = [] \<and> files opts = [] \<and> os_Getwd env = Inr D
    \<longrightarrow> ((Folders_index cfg D = None \<or> (\<exists>fc. Folders_index cfg D = Some fc \<and> SavedName_len fc = 0))
          \<longrightarrow> main_part000 env w prog args = fatal [] [] args (usage_part000 prog D))
      \<and> (\<forall>fc name ts. Folders_index cfg D = Some fc \<and> SavedName fc = Some [(name, ts)]
          \<longrightarrow> os_Args (main_part000 env w prog args) = ts
            \<and> (stdout (main_part000 env w prog args) = []
               \<or> stdout (main_part000 env w prog args)
                    = ''Output has been copied to the clipboard.'' @ newline))
      \<and> (\<forall>fc al. Folders_index cfg D = Some fc \<and> SavedName fc = Some al \<and> 1 < length al
          \<longrightarrow> prefix (prompt_part000 (map fst al)) (stdout (main_part000 env w prog args))
            \<and> (selection_part000 env < 1 \<or> int (length al) < selection_part000 env
                 \<longrightarrow> main_part000 env w prog args
                       = fatal (prompt_part000 (map fst al)) [] args ''Invalid selection'')
            \<and> (1 \<le> selection_part000 env \<and> selection_part000 env \<le> int (length al)
                 \<longrightarrow> os_Args (main_part000 env w prog args)
                       = SavedName_index fc (map fst al ! nat (selection_part000 env - 1))))"
proof (intro impI)
  assume h: "os_UserHomeDir env = Inr home \<and> loadConfig_part000 env = Inr cfg
      \<and> parseArguments (strings_Fields env) args = Inr opts
      \<and> saveName opts = [] \<and> byName opts = [] \<and> files opts = [] \<and> os_Getwd env = Inr D"
  then have s: "os_UserHomeDir env = Inr home" "loadConfig_part000 env = Inr cfg"
      "parseArguments (strings_Fields env) args = Inr opts" "saveName opts = []"
    and r: "byName opts = []" "files opts = []" "os_Getwd env = Inr D"
    by simp_all
  note m = main_part000_resolved [OF s]
  have zero: "main_part000 env w prog args = fatal [] [] args (usage_part000 prog D)"
    if "Folders_index cfg D = None \<or> (\<exists>fc. Folders_index cfg D = Some fc \<and> SavedName_len fc = 0)"
    using m(1) [OF resolve_part000_none [OF r that]] .
  have one: "os_Args (main_part000 env w prog args) = ts
      \<and> (stdout (main_part000 env w prog args) = []
         \<or> stdout (main_part000 env w prog args) = ''Output has been copied to the clipboard.'' @ newline)"
    if "Folders_index cfg D = Some fc \<and> SavedName fc = Some [(name, ts)]" for fc name ts
  proof -
    from that have "resolve_part000 env cfg opts prog args = ([], Inr ts)"
      using resolve_part000_one [OF r] by blast
    from m(2) [OF this] m(3) [OF this] show ?thesis by simp
  qed
  have many: "prefix (prompt_part000 (map fst al)) (stdout (main_part000 env w prog args))
            \<and> (selection_part000 env < 1 \<or> int (length al) < selection_part000 env
                 \<longrightarrow> main_part000 env w prog args
                       = fatal (prompt_part000 (map fst al)) [] args ''Invalid selection'')
            \<and> (1 \<le> selection_part000 env \<and> selection_part000 env \<le> int (length al)
                 \<longrightarrow> os_Args (main_part000 env w prog args)
                       = SavedName_index fc (map fst al ! nat (selection_part000 env - 1)))"
    if "Folders_index cfg D = Some fc \<and> SavedName fc = Some al \<and> 1 < length al" for fc al
  proof -
    from that have q: "resolve_part000 env cfg opts prog args =
       (prompt_part000 (map fst al),
        if selection_part000 env < 1 \<or> int (length al) < selection_part000 env
        then Inl ''Invalid selection''
        else Inr (SavedName_index fc (map fst al ! nat (selection_part000 env - 1))))"
      using resolve_part000_many [OF r] by blast
    show ?thesis
    proof (cases "selection_part000 env < 1 \<or> int (length al) < selection_part000 env")
      case True
      with q have "resolve_part000 env cfg opts prog args
          = (prompt_part000 (map fst al), Inl ''Invalid selection'')"
        by simp
      from m(1) [OF this] True show ?thesis by (auto simp: fatal_def)
    next
      case False
      with q have q': "resolve_part000 env cfg opts prog args
          = (prompt_part000 (map fst al),
             Inr (SavedName_index fc (map fst al ! nat (selection_part000 env - 1))))"
        by simp
      from m(3) [OF q', of w]
      have "prefix (prompt_part000 (map fst al)) (stdout (main_part000 env w prog args))"
        by (elim disjE) (simp_all only: prefix_order.refl prefixI)
      with m(2) [OF q', of w] False show ?thesis by simp
    qed
  qed
  from zero one many show "((Folders_index cfg D = None \<or> (\<exists>fc. Folders_index cfg D = Some fc \<and> SavedName_len fc = 0))
          \<longrightarrow> main_part000 env w prog args = fatal [] [] args (usage_part000 prog D))
      \<and> (\<forall>fc name ts. Folders_index cfg D = Some fc \<and> SavedName fc = Some [(name, ts)]
          \<longrightarrow> os_Args (main_part000 env w prog args) = ts
            \<and> (stdout (main_part000 env w prog args) = []
               \<or> stdout (main_part000 env w prog args)
                    = ''Output has been copied to the clipboard.'' @ newline))
      \<and> (\<forall>fc al. Folders_index cfg D = Some fc \<and> SavedName fc = Some al \<and> 1 < length al
          \<longrightarrow> prefix (prompt_part000 (map fst al)) (stdout (main_part000 env w prog args))
            \<and> (selection_part000 env < 1 \<or> int (length al) < selection_part000 env
                 \<longrightarrow> main_part000 env w prog args
                       = fatal (prompt_part000 (map fst al)) [] args ''Invalid selection'')
            \<and> (1 \<le> selection_part000 env \<and> selection_part000 env \<le> int (length al)
                 \<longrightarrow> os_Args (main_part000 env w prog args)
                       = SavedName_index fc (map fst al ! nat (selection_part000 env - 1))))"
    by (intro conjI impI allI) blast+
qed

lemma no_arguments_main:
  "os_UserHomeDir env = Inr home \<and> loadConfig env = Inr cfg \<and> os_Getwd env = Inr D
    \<longrightarrow> ((Folders_index cfg D = None \<or> (\<exists>fc. Folders_index cfg D = Some fc \<and> SavedName_len fc = 0))
          \<longrightarrow> main env w [] = fatal [] [] []
                (''No saved configurations found for folder '' @ sq @ D @ sq))
      \<and> (\<forall>fc al. Folders_index cfg D = Some fc \<and> SavedName fc = Some al \<and> al \<noteq> []
          \<longrightarrow> prefix (prompt_main (map fst al)) (stdout (main env w []))
            \<and> (fmt_Scanln_d env (os_Stdin env) = None
                 \<longrightarrow> main env w [] = fatal (prompt_main (map fst al)) [] [] ''Invalid choice'')
            \<and> (\<forall>c. fmt_Scanln_d env (os_Stdin env) = Some c \<and> (c < 1 \<or> int (length al) < c)
                 \<longrightarrow> main env w [] = fatal (prompt_main (map fst al)) [] [] ''Invalid choice'')
            \<and> (\<forall>c ts. fmt_Scanln_d env (os_Stdin env) = Some c \<and> 1 \<le> c \<and> c \<le> int (length al)
                     \<and> getSavedConfig cfg D (map fst al ! nat (c - 1)) = Inr ts
                 \<longrightarrow> main env w [] = main_parsed env w cfg ts (prompt_main (map fst al))))"
proof (intro impI)
  assume "os_UserHomeDir env = Inr home \<and> loadConfig env = Inr cfg \<and> os_Getwd env = Inr D"
  then have s: "os_UserHomeDir env = Inr home" "loadConfig env = Inr cfg" "os_Getwd env = Inr D"
    by simp_all
  note z = main_no_arguments(1) [OF s]
  have many: "prefix (prompt_main (map fst al)) (stdout (main env w []))
            \<and> (fmt_Scanln_d env (os_Stdin env) = None
                 \<longrightarrow> main env w [] = fatal (prompt_main (map fst al)) [] [] ''Invalid choice'')
            \<and> (\<forall>c. fmt_Scanln_d env (os_Stdin env) = Some c \<and> (c < 1 \<or> int (length al) < c)
                 \<longrightarrow> main env w [] = fatal (prompt_main (map fst al)) [] [] ''Invalid choice'')
            \<and> (\<forall>c ts. fmt_Scanln_d env (os_Stdin env) = Some c \<and> 1 \<le> c \<and> c \<le> int (length al)
                     \<and> getSavedConfig cfg D (map fst al ! nat (c - 1)) = Inr ts
                 \<longrightarrow> main env w [] = main_parsed env w cfg ts (prompt_main (map fst al)))"
    if "Folders_index cfg D = Some fc \<and> SavedName fc = Some al \<and> al \<noteq> []" for fc al
  proof -
    from that have m: "main env w [] =
               (case fmt_Scanln_d env (os_Stdin env) of
                  None \<Rightarrow> fatal (prompt_main (map fst al)) [] [] ''Invalid choice''
                | Some choice \<Rightarrow>
                    if choice < 1 \<or> int (length al) < choice
                    then fatal (prompt_main (map fst al)) [] [] ''Invalid choice''
                    else (case getSavedConfig cfg D (map fst al ! nat (choice - 1)) of
                            Inl e \<Rightarrow> fatal (prompt_main (map fst al)) [] []
                                       (''Failed to load saved configuration: '' @ Error_msg e)
                          | Inr savedArgs \<Rightarrow>
                              main_parsed env w cfg savedArgs (prompt_main (map fst al))))"
      using main_no_arguments(2) [OF s] by blast
    have p: "prefix (prompt_main (map fst al)) (stdout (main env w []))"
      unfolding m
      by (auto simp: fatal_def stdout_main_parsed split: option.splits sum.splits)
    have a: "fmt_Scanln_d env (os_Stdin env) = None
        \<longrightarrow> main env w [] = fatal (prompt_main (map fst al)) [] [] ''Invalid choice''"
      unfolding m by simp
    have b: "\<forall>c. fmt_Scanln_d env (os_Stdin env) = Some c \<and> (c < 1 \<or> int (length al) < c)
        \<longrightarrow> main env w [] = fatal (prompt_main (map fst al)) [] [] ''Invalid choice''"
      unfolding m by auto
    have c: "\<forall>c ts. fmt_Scanln_d env (os_Stdin env) = Some c \<and> 1 \<le> c \<and> c \<le> int (length al)
                     \<and> getSavedConfig cfg D (map fst al ! nat (c - 1)) = Inr ts
        \<longrightarrow> main env w [] = main_parsed env w cfg ts (prompt_main (map fst al))"
      unfolding m by auto
    from p a b c show ?thesis by (intro conjI)
  qed
  from z many show "((Folders_index cfg D = None \<or> (\<exists>fc. Folders_index cfg D = Some fc \<and> SavedName_len fc = 0))
          \<longrightarrow> main env w [] = fatal [] [] []
                (''No saved configurations found for folder '' @ sq @ D @ sq))
      \<and> (\<forall>fc al. Folders_index cfg D = Some fc \<and> SavedName fc = Some al \<and> al \<noteq> []
          \<longrightarrow> prefix (prompt_main (map fst al)) (stdout (main env w []))
            \<and> (fmt_Scanln_d env (os_Stdin env) = None
                 \<longrightarrow> main env w [] = fatal (prompt_main (map fst al)) [] [] ''Invalid choice'')
            \<and> (\<forall>c. fmt_Scanln_d env (os_Stdin env) = Some c \<and> (c < 1 \<or> int (length al) < c)
                 \<longrightarrow> main env w [] = fatal (prompt_main (map fst al)) [] [] ''Invalid choice'')
            \<and> (\<forall>c ts. fmt_Scanln_d env (os_Stdin env) = Some c \<and> 1 \<le> c \<and> c \<le> int (length al)
                     \<and> getSavedConfig cfg D (map fst al ! nat (c - 1)) = Inr ts
                 \<longrightarrow> main env w [] = main_parsed env w cfg ts (prompt_main (map fst al))))"
    by (intro conjI impI allI) blast+
qed

lemma selection_texts:
  "prompt_part000 names
     = ''Multiple saved names found. Please select one:'' @ newline
       @ concat (map (\<lambda>(i, name). itoa (i + 1) @ '': '' @ name @ newline) (enumerate 0 names))
       @ ''Enter the number of the name to use: ''"
  "suffix (''No saved arguments found in folder '' @ sq @ D @ sq
            @ ''. Please save arguments first using the -name option.'')
          (usage_part000 prog D)"
  by (simp_all add: prompt_part000_def numbered_def usage_part000_def suffix_def)

lemma no_name_no_files_scanned_part000:
  "os_UserHomeDir env = Inr home \<and> loadConfig_part000 env = Inr cfg
      \<and> parseArguments (strings_Fields env) args = Inr opts
      \<and> saveName opts = [] \<and> byName opts = [] \<and> files opts = [] \<and> os_Getwd env = Inr D
    \<longrightarrow> ((Folders_index cfg D = None \<or> (\<exists>fc. Folders_index cfg D = Some fc \<and> SavedName_len fc = 0))
          \<longrightarrow> main_part000 env w prog args = fatal [] [] args (usage_part000 prog D))
      \<and> (\<forall>fc name ts. Folders_index cfg D = Some fc \<and> SavedName fc = Some [(name, ts)]
          \<longrightarrow> os_Args (main_part000 env w prog args) = ts
            \<and> (stdout (main_part000 env w prog args) = []
               \<or> stdout (main_part000 env w prog args)
                    = ''Output has been copied to the clipboard.'' @ newline))
      \<and> (\<forall>fc al. Folders_index cfg D = Some fc \<and> SavedName fc = Some al \<and> 1 < length al
          \<longrightarrow> prefix (prompt_part000 (map fst al)) (stdout (main_part000 env w prog args))
            \<and> (fmt_Sscanf_d env (strings_TrimSpace env (ReadString_newline (os_Stdin env))) = None
                 \<longrightarrow> main_part000 env w prog args
                       = fatal (prompt_part000 (map fst al)) [] args ''Invalid selection'')
            \<and> (\<forall>n. fmt_Sscanf_d env (strings_TrimSpace env (ReadString_newline (os_Stdin env)))
                       = Some n \<and> (n < 1 \<or> int (length al) < n)
                 \<longrightarrow> main_part000 env w prog args
                       = fatal (prompt_part000 (map fst al)) [] args ''Invalid selection'')
            \<and> ((\<forall>s. no_digit s \<longrightarrow> fmt_Sscanf_d env s = None)
                  \<and> no_digit (strings_TrimSpace env (ReadString_newline (os_Stdin env)))
                 \<longrightarrow> main_part000 env w prog args
                       = fatal (prompt_part000 (map fst al)) [] args ''Invalid selection'')
            \<and> (\<forall>n. decimal (strings_TrimSpace env (ReadString_newline (os_Stdin env)))
                     \<and> fmt_Sscanf_d env (strings_TrimSpace env (ReadString_newline (os_Stdin env)))
                       = Some n \<and> 1 \<le> n \<and> n \<le> int (length al)
                 \<longrightarrow> os_Args (main_part000 env w prog args)
                       = SavedName_index fc (map fst al ! nat (n - 1))))"
proof (intro impI)
  let ?line = "strings_TrimSpace env (ReadString_newline (os_Stdin env))"
  assume h: "os_UserHomeDir env = Inr home \<and> loadConfig_part000 env = Inr cfg
      \<and> parseArguments (strings_Fields env) args = Inr opts
      \<and> saveName opts = [] \<and> byName opts = [] \<and> files opts = [] \<and> os_Getwd env = Inr D"
  note old = no_name_no_files_part000 [of env home cfg args opts D w prog, THEN mp, OF h]
  note zero = old [THEN conjunct1]
  note one = old [THEN conjunct2, THEN conjunct1]
  note many = old [THEN conjunct2, THEN conjunct2, rule_format]
  have sel: "selection_part000 env = (case fmt_Sscanf_d env ?line of None \<Rightarrow> 0 | Some n \<Rightarrow> n)"
    by (simp add: selection_part000_def)
  have scanned: "prefix (prompt_part000 (map fst al)) (stdout (main_part000 env w prog args))
            \<and> (fmt_Sscanf_d env ?line = None
                 \<longrightarrow> main_part000 env w prog args
                       = fatal (prompt_part000 (map fst al)) [] args ''Invalid selection'')
            \<and> (\<forall>n. fmt_Sscanf_d env ?line = Some n \<and> (n < 1 \<or> int (length al) < n)
                 \<longrightarrow> main_part000 env w prog args
                       = fatal (prompt_part000 (map fst al)) [] args ''Invalid selection'')
            \<and> ((\<forall>s. no_digit s \<longrightarrow> fmt_Sscanf_d env s = None) \<and> no_digit ?line
                 \<longrightarrow> main_part000 env w prog args
                       = fatal (prompt_part000 (map fst al)) [] args ''Invalid selection'')
            \<and> (\<forall>n. decimal ?line \<and> fmt_Sscanf_d env ?line = Some n \<and> 1 \<le> n \<and> n \<le> int (length al)
                 \<longrightarrow> os_Args (main_part000 env w prog args)
                       = SavedName_index fc (map fst al ! nat (n - 1)))"
    if q: "Folders_index cfg D = Some fc \<and> SavedName fc = Some al \<and> 1 < length al" for fc al
  proof -
    note p = many [OF q, THEN conjunct1]
    note bad = many [OF q, THEN conjunct2, THEN conjunct1, rule_format]
    note good = many [OF q, THEN conjunct2, THEN conjunct2, rule_format]
    have a: "main_part000 env w prog args
               = fatal (prompt_part000 (map fst al)) [] args ''Invalid selection''"
      if "fmt_Sscanf_d env ?line = None"
      using that by (intro bad) (simp add: sel)
    have b: "main_part000 env w prog args
               = fatal (prompt_part000 (map fst al)) [] args ''Invalid selection''"
      if "fmt_Sscanf_d env ?line = Some n \<and> (n < 1 \<or> int (length al) < n)" for n
      using that by (intro bad) (auto simp: sel)
    have c: "main_part000 env w prog args
               = fatal (prompt_part000 (map fst al)) [] args ''Invalid selection''"
      if "(\<forall>s. no_digit s \<longrightarrow> fmt_Sscanf_d env s = None) \<and> no_digit ?line"
      using that by (intro a) blast
    have d: "os_Args (main_part000 env w prog args)
               = SavedName_index fc (map fst al ! nat (n - 1))"
      if "decimal ?line \<and> fmt_Sscanf_d env ?line = Some n \<and> 1 \<le> n \<and> n \<le> int (length al)" for n
    proof -
      from that have s: "selection_part000 env = n" by (simp add: sel)
      from that have "1 \<le> selection_part000 env \<and> selection_part000 env \<le> int (length al)"
        by (simp add: s)
      from good [OF this] show ?thesis by (simp add: s)
    qed
    from p a b c d show ?thesis by (intro conjI impI allI) blast+
  qed
  have third: "(\<forall>fc al. Folders_index cfg D = Some fc \<and> SavedName fc = Some al \<and> 1 < length al
          \<longrightarrow> prefix (prompt_part000 (map fst al)) (stdout (main_part000 env w prog args))
            \<and> (fmt_Sscanf_d env ?line = None
                 \<longrightarrow> main_part000 env w prog args
                       = fatal (prompt_part000 (map fst al)) [] args ''Invalid selection'')
            \<and> (\<forall>n. fmt_Sscanf_d env ?line = Some n \<and> (n < 1 \<or> int (length al) < n)
                 \<longrightarrow> main_part000 env w prog args
                       = fatal (prompt_part000 (map fst al)) [] args ''Invalid selection'')
            \<and> ((\<forall>s. no_digit s \<longrightarrow> fmt_Sscanf_d env s = None) \<and> no_digit ?line
                 \<longrightarrow> main_part000 env w prog args
                       = fatal (prompt_part000 (map fst al)) [] args ''Invalid selection'')
            \<and> (\<forall>n. decimal ?line \<and> fmt_Sscanf_d env ?line = Some n \<and> 1 \<le> n \<and> n \<le> int (length al)
                 \<longrightarrow> os_Args (main_part000 env w prog args)
                       = SavedName_index fc (map fst al ! nat (n - 1))))"
    by (intro allI impI) (rule scanned)
  show "((Folders_index cfg D = None \<or> (\<exists>fc. Folders_index cfg D = Some fc \<and> SavedName_len fc = 0))
          \<longrightarrow> main_part000 env w prog args = fatal [] [] args (usage_part000 prog D))
      \<and> (\<forall>fc name ts. Folders_index cfg D = Some fc \<and> SavedName fc = Some [(name, ts)]
          \<longrightarrow> os_Args (main_part000 env w prog args) = ts
            \<and> (stdout (main_part000 env w prog args) = []
               \<or> stdout (main_part000 env w prog args)
                    = ''Output has been copied to the clipboard.'' @ newline))
      \<and> (\<forall>fc al. Folders_index cfg D = Some fc \<and> SavedName fc = Some al \<and> 1 < length al
          \<longrightarrow> prefix (prompt_part000 (map fst al)) (stdout (main_part000 env w prog args))
            \<and> (fmt_Sscanf_d env ?line = None
                 \<longrightarrow> main_part000 env w prog args
                       = fatal (prompt_part000 (map fst al)) [] args ''Invalid selection'')
            \<and> (\<forall>n. fmt_Sscanf_d env ?line = Some n \<and> (n < 1 \<or> int (length al) < n)
                 \<longrightarrow> main_part000 env w prog args
                       = fatal (prompt_part000 (map fst al)) [] args ''Invalid selection'')
            \<and> ((\<forall>s. no_digit s \<longrightarrow> fmt_Sscanf_d env s = None) \<and> no_digit ?line
                 \<longrightarrow> main_part000 env w prog args
                       = fatal (prompt_part000 (map fst al)) [] args ''Invalid selection'')
            \<and> (\<forall>n. decimal ?line \<and> fmt_Sscanf_d env ?line = Some n \<and> 1 \<le> n \<and> n \<le> int (length al)
                 \<longrightarrow> os_Args (main_part000 env w prog args)
                       = SavedName_index fc (map fst al ! nat (n - 1))))"
    by (rule conjI [OF zero conjI [OF one third]])
qed

lemma no_arguments_no_digit_main:
  "os_UserHomeDir env = Inr home \<and> loadConfig env = Inr cfg \<and> os_Getwd env = Inr D
     \<and> Folders_index cfg D = Some fc \<and> SavedName fc = Some al \<and> al \<noteq> []
     \<and> (\<forall>s. no_digit (first_line s) \<longrightarrow> fmt_Scanln_d env s = None)
     \<and> no_digit (first_line (os_Stdin env))
   \<longrightarrow> main env w [] = fatal (prompt_main (map fst al)) [] [] ''Invalid choice''"
proof (intro impI)
  assume h: "os_UserHomeDir env = Inr home \<and> loadConfig env = Inr cfg \<and> os_Getwd env = Inr D
     \<and> Folders_index cfg D = Some fc \<and> SavedName fc = Some al \<and> al \<noteq> []
     \<and> (\<forall>s. no_digit (first_line s) \<longrightarrow> fmt_Scanln_d env s = None)
     \<and> no_digit (first_line (os_Stdin env))"
  then have s: "os_UserHomeDir env = Inr home \<and> loadConfig env = Inr cfg \<and> os_Getwd env = Inr D"
    and q: "Folders_index cfg D = Some fc \<and> SavedName fc = Some al \<and> al \<noteq> []"
    and n: "fmt_Scanln_d env (os_Stdin env) = None"
    by simp_all
  from no_arguments_main [of env home cfg D w, THEN mp, OF s, THEN conjunct2, rule_format, OF q,
      THEN conjunct2, THEN conjunct1, THEN mp, OF n]
  show "main env w [] = fatal (prompt_main (map fst al)) [] [] ''Invalid choice''" .
qed

lemma no_files_no_by_name_main:
  "os_UserHomeDir env = Inr home \<and> loadConfig env = Inr cfg \<and> args \<noteq> []
      \<and> parseArguments (strings_Fields env) args = Inr opts
      \<and> saveName opts = [] \<and> byName opts = [] \<and> files opts = []
    \<longrightarrow> main env w args
          = fatal [] [] args ''No files specified. Please provide at least one file.''"
  by (auto simp: main_with_arguments main_parsed_def)

text \<open>
  C5 (amended). In \<^verbatim>\<open>src/unnamed/part_000\<close>, for every invocation whose arguments parse
  with no name to save under, no \<open>-by-name\<close> and no file: with no preset for the
  current directory the program ends through \<^verbatim>\<open>log.Fatalf\<close> with the usage text, which
  ends by telling to save arguments first with \<open>-name\<close>; with exactly one preset its
  tokens become \<^verbatim>\<open>os.Args[1:]\<close> and nothing is printed before the files are processed;
  with more than one, the names are printed with numbers from 1 and a prompt, and one
  line is read, trimmed and scanned as a number. The program ends with "Invalid
  selection" when the scan fails, when the number is below 1 or above the count, and,
  with a scanner that like Go's fails on a text without a digit, when the line holds
  no digit. When the line is a decimal numeral scanned as a number from 1 to the
  count, the tokens of the name with that number become \<^verbatim>\<open>os.Args[1:]\<close>. Nothing is
  stated of a line in which digits are followed by something else.
  In \<^verbatim>\<open>src/main.go\<close> the selection takes place only when there is no argument at
  all: with no preset the program ends with "No saved configurations found for
  folder" and the directory; with one preset or more the numbered names and a prompt
  are always printed; a failed scan, a number out of range and, with a scanner that
  like Go's fails on a first line without a digit, such a first line end the program
  with "Invalid choice"; a valid choice parses the tokens of the chosen preset and
  goes on with them. With arguments that give no file, no name to save under and no
  \<open>-by-name\<close>, the program ends with "No files specified".
\<close>

theorem C5_no_name_no_files:
  "(os_UserHomeDir env = Inr home \<and> loadConfig_part000 env = Inr cfg
      \<and> parseArguments (strings_Fields env) args = Inr opts
      \<and> saveName opts = [] \<and> byName opts = [] \<and> files opts = [] \<and> os_Getwd env = Inr D
    \<longrightarrow> ((Folders_index cfg D = None \<or> (\<exists>fc. Folders_index cfg D = Some fc \<and> SavedName_len fc = 0))
          \<longrightarrow> main_part000 env w prog args = fatal [] [] args (usage_part000 prog D))
      \<and> (\<forall>fc name ts. Folders_index cfg D = Some fc \<and> SavedName fc = Some [(name, ts)]
          \<longrightarrow> os_Args (main_part000 env w prog args) = ts
            \<and> (stdout (main_part000 env w prog args) = []
               \<or> stdout (main_part000 env w prog args)
                    = ''Output has been copied to the clipboard.'' @ newline))
      \<and> (\<forall>fc al. Folders_index cfg D = Some fc \<and> SavedName fc = Some al \<and> 1 < length al
          \<longrightarrow> prefix (prompt_part000 (map fst al)) (stdout (main_part000 env w prog args))
            \<and> (fmt_Sscanf_d env (strings_TrimSpace env (ReadString_newline (os_Stdin env))) = None
                 \<longrightarrow> main_part000 env w prog args
                       = fatal (prompt_part000 (map fst al)) [] args ''Invalid selection'')
            \<and> (\<forall>n. fmt_Sscanf_d env (strings_TrimSpace env (ReadString_newline (os_Stdin env)))
                       = Some n \<and> (n < 1 \<or> int (length al) < n)
                 \<longrightarrow> main_part000 env w prog args
                       = fatal (prompt_part000 (map fst al)) [] args ''Invalid selection'')
            \<and> ((\<forall>s. no_digit s \<longrightarrow> fmt_Sscanf_d env s = None)
                  \<and> no_digit (strings_TrimSpace env (ReadString_newline (os_Stdin env)))
                 \<longrightarrow> main_part000 env w prog args
                       = fatal (prompt_part000 (map fst al)) [] args ''Invalid selection'')
            \<and> (\<forall>n. decimal (strings_TrimSpace env (ReadString_newline (os_Stdin env)))
                     \<and> fmt_Sscanf_d env (strings_TrimSpace env (ReadString_newline (os_Stdin env)))
                       = Some n \<and> 1 \<le> n \<and> n \<le> int (length al)
                 \<longrightarrow> os_Args (main_part000 env w prog args)
                       = SavedName_index fc (map fst al ! nat (n - 1)))))
   \<and> prompt_part000 names
       = ''Multiple saved names found. Please select one:'' @ newline
         @ concat (map (\<lambda>(i, name). itoa (i + 1) @ '': '' @ name @ newline) (enumerate 0 names))
         @ ''Enter the number of the name to use: ''
   \<and> suffix (''No saved arguments found in folder '' @ sq @ D @ sq
              @ ''. Please save arguments first using the -name option.'')
            (usage_part000 prog D)
   \<and> (os_UserHomeDir env = Inr home \<and> loadConfig env = Inr cfg \<and> os_Getwd env = Inr D
    \<longrightarrow> ((Folders_index cfg D = None \<or> (\<exists>fc. Folders_index cfg D = Some fc \<and> SavedName_len fc = 0))
          \<longrightarrow> main env w [] = fatal [] [] []
                (''No saved configurations found for folder '' @ sq @ D @ sq))
      \<and> (\<forall>fc al. Folders_index cfg D = Some fc \<and> SavedName fc = Some al \<and> al \<noteq> []
          \<longrightarrow> prefix (prompt_main (map fst al)) (stdout (main env w []))
            \<and> (fmt_Scanln_d env (os_Stdin env) = None
                 \<longrightarrow> main env w [] = fatal (prompt_main (map fst al)) [] [] ''Invalid choice'')
            \<and> (\<forall>c. fmt_Scanln_d env (os_Stdin env) = Some c \<and> (c < 1 \<or> int (length al) < c)
                 \<longrightarrow> main env w [] = fatal (prompt_main (map fst al)) [] [] ''Invalid choice'')
            \<and> (\<forall>c ts. fmt_Scanln_d env (os_Stdin env) = Some c \<and> 1 \<le> c \<and> c \<le> int (length al)
                     \<and> getSavedConfig cfg D (map fst al ! nat (c - 1)) = Inr ts
                 \<longrightarrow> main env w [] = main_parsed env w cfg ts (prompt_main (map fst al)))))
   \<and> (os_UserHomeDir env = Inr home \<and> loadConfig env = Inr cfg \<and> os_Getwd env = Inr D
     \<and> Folders_index cfg D = Some fc \<and> SavedName fc = Some al \<and> al \<noteq> []
     \<and> (\<forall>s. no_digit (first_line s) \<longrightarrow> fmt_Scanln_d env s = None)
     \<and> no_digit (first_line (os_Stdin env))
   \<longrightarrow> main env w [] = fatal (prompt_main (map fst al)) [] [] ''Invalid choice'')
   \<and> (os_UserHomeDir env = Inr home \<and> loadConfig env = Inr cfg \<and> args \<noteq> []
      \<and> parseArguments (strings_Fields env) args = Inr opts
      \<and> saveName opts = [] \<and> byName opts = [] \<and> files opts = []
    \<longrightarrow> main env w args
          = fatal [] [] args ''No files specified. Please provide at least one file.'')"
  by (intro conjI)
    (rule no_name_no_files_scanned_part000 selection_texts no_arguments_main
       no_arguments_no_digit_main no_files_no_by_name_main)+

text \<open>
  C5, as stated, in \<^verbatim>\<open>src/main.go\<close>: with exactly one preset and no argument the
  names and the prompt are printed and, standard input being empty, the program ends
  with "Invalid choice"; with the only argument \<open>-ignore-gitignore\<close> no preset is
  looked up; with no preset the message does not tell to save one.
\<close>

theorem C5_no_name_no_files_counterexample:
  "preset_stored one_preset_Config ''/proj'' ''my-config'' = Some [''-files'', ''a.py'']
   \<and> Folders_index one_preset_Config ''/proj''
       = Some \<lparr>SavedName = Some [(''my-config'', [''-files'', ''a.py''])]\<rparr>
   \<and> stdout (main (example_env example_files one_preset_Config []) 0 [])
       = ''Select a saved configuration:\<newline>1. my-config\<newline>Enter the number of the configuration to load: ''
   \<and> fatal_message (main (example_env example_files one_preset_Config []) 0 [])
       = Some ''Invalid choice''
   \<and> fatal_message (main (example_env example_files one_preset_Config []) 0 [''-ignore-gitignore''])
       = Some ''No files specified. Please provide at least one file.''
   \<and> fatal_message (main (example_env example_files empty_Config []) 0 [])
       = Some (''No saved configurations found for folder '' @ sq @ ''/proj'' @ sq)"
  by code_simp

theorem C5_no_name_no_files_witness:
  "os_Args (main_part000 (example_env example_files one_preset_Config []) 0 ''prog'' [])
     = [''-files'', ''a.py'']
   \<and> main_part000 (example_env example_files two_presets_Config ''x'') 0 ''prog'' []
     = fatal (prompt_part000 (map fst [(''one'', [''-files'', ''a.py'']),
                 (''two'', [''-files'', ''b.unknown'', ''-wrap-code'', ''false''])])) [] []
         ''Invalid selection''
   \<and> os_Args (main_part000 (example_env example_files two_presets_Config ''2\<newline>'') 0 ''prog'' [])
     = [''-files'', ''b.unknown'', ''-wrap-code'', ''false'']
   \<and> main (example_env example_files two_presets_Config ''x'') 0 []
     = fatal (prompt_main (map fst [(''one'', [''-files'', ''a.py'']),
                 (''two'', [''-files'', ''b.unknown'', ''-wrap-code'', ''false''])])) [] []
         ''Invalid choice''
   \<and> main (example_env example_files empty_Config []) 0 [''-ignore-gitignore'']
     = fatal [] [] [''-ignore-gitignore'']
         ''No files specified. Please provide at least one file.''"
proof -
  let ?e0 = "example_env example_files empty_Config [] :: nat env"
  let ?e1 = "example_env example_files one_preset_Config [] :: nat env"
  let ?e2 = "example_env example_files two_presets_Config ''x'' :: nat env"
  let ?e3 = "example_env example_files two_presets_Config ''2\<newline>'' :: nat env"
  let ?al = "[(''one'', [''-files'', ''a.py'']),
              (''two'', [''-files'', ''b.unknown'', ''-wrap-code'', ''false''])]"
  have h: "os_UserHomeDir (example_env example_files cfg input) = Inr ''/home/u''
      \<and> loadConfig_part000 (example_env example_files cfg input) = Inr cfg
      \<and> parseArguments (strings_Fields (example_env example_files cfg input)) [] = Inr initial_Options
      \<and> saveName initial_Options = [] \<and> byName initial_Options = [] \<and> files initial_Options = []
      \<and> os_Getwd (example_env example_files cfg input) = Inr ''/proj''" for cfg input
    by (simp add: example_env_def loadConfig_part000_def parseArguments_def initial_Options_def)
  have f1: "Folders_index one_preset_Config ''/proj''
        = Some \<lparr>SavedName = Some [(''my-config'', [''-files'', ''a.py''])]\<rparr>
      \<and> SavedName \<lparr>SavedName = Some [(''my-config'', [''-files'', ''a.py''])]\<rparr>
        = Some [(''my-config'', [''-files'', ''a.py''])]"
    by (simp add: Folders_index_def one_preset_Config_def)
  have f2: "Folders_index two_presets_Config ''/proj'' = Some \<lparr>SavedName = Some ?al\<rparr>
      \<and> SavedName \<lparr>SavedName = Some ?al\<rparr> = Some ?al \<and> 1 < length ?al"
    by (simp add: Folders_index_def two_presets_Config_def)
  have lib: "\<forall>s. no_digit s \<longrightarrow> fmt_Sscanf_d (example_env example_files cfg input) s = None"
    for cfg input
    by (auto simp: example_env_def no_digit_def is_digit_def split: if_splits)
  have x: "no_digit (strings_TrimSpace ?e2 (ReadString_newline (os_Stdin ?e2)))"
    by (simp add: example_env_def ReadString_newline_def no_digit_def is_digit_def)
  have i: "(\<forall>s. no_digit s \<longrightarrow> fmt_Sscanf_d ?e2 s = None)
      \<and> no_digit (strings_TrimSpace ?e2 (ReadString_newline (os_Stdin ?e2)))"
    using lib x by (rule conjI)
  have two: "decimal (strings_TrimSpace ?e3 (ReadString_newline (os_Stdin ?e3)))
      \<and> fmt_Sscanf_d ?e3 (strings_TrimSpace ?e3 (ReadString_newline (os_Stdin ?e3))) = Some 2
      \<and> (1::int) \<le> 2 \<and> 2 \<le> int (length ?al)"
    by (simp add: example_env_def ReadString_newline_def newline_def decimal_def is_digit_def)
  from C5_no_name_no_files [where env = ?e1 and w = 0 and prog = "''prog''" and args = "[]",
      THEN conjunct1, THEN mp, OF h, THEN conjunct2, THEN conjunct1, rule_format, OF f1]
  have a: "os_Args (main_part000 ?e1 0 ''prog'' []) = [''-files'', ''a.py'']"
    by (rule conjunct1)
  from C5_no_name_no_files [where env = ?e2 and w = 0 and prog = "''prog''" and args = "[]",
      THEN conjunct1, THEN mp, OF h, THEN conjunct2, THEN conjunct2, rule_format, OF f2,
      THEN conjunct2, THEN conjunct2, THEN conjunct2, THEN conjunct1, THEN mp, OF i]
  have b: "main_part000 ?e2 0 ''prog'' []
      = fatal (prompt_part000 (map fst ?al)) [] [] ''Invalid selection''" .
  from C5_no_name_no_files [where env = ?e3 and w = 0 and prog = "''prog''" and args = "[]",
      THEN conjunct1, THEN mp, OF h, THEN conjunct2, THEN conjunct2, rule_format, OF f2,
      THEN conjunct2, THEN conjunct2, THEN conjunct2, THEN conjunct2, rule_format, OF two]
  have c: "os_Args (main_part000 ?e3 0 ''prog'' [])
      = [''-files'', ''b.unknown'', ''-wrap-code'', ''false'']"
    by (simp add: SavedName_index_def)
  have g: "os_UserHomeDir ?e2 = Inr ''/home/u'' \<and> loadConfig ?e2 = Inr two_presets_Config
      \<and> os_Getwd ?e2 = Inr ''/proj''
      \<and> Folders_index two_presets_Config ''/proj'' = Some \<lparr>SavedName = Some ?al\<rparr>
      \<and> SavedName \<lparr>SavedName = Some ?al\<rparr> = Some ?al \<and> ?al \<noteq> []
      \<and> (\<forall>s. no_digit (first_line s) \<longrightarrow> fmt_Scanln_d ?e2 s = None)
      \<and> no_digit (first_line (os_Stdin ?e2))"
    using f2
    by (auto simp: example_env_def loadConfig_def no_digit_def is_digit_def first_line_def
        split: if_splits)
  from C5_no_name_no_files [where env = ?e2 and w = 0,
      THEN conjunct2, THEN conjunct2, THEN conjunct2, THEN conjunct2, THEN conjunct1,
      THEN mp, OF g]
  have d: "main ?e2 0 [] = fatal (prompt_main (map fst ?al)) [] [] ''Invalid choice''" .
  have k: "os_UserHomeDir ?e0 = Inr ''/home/u'' \<and> loadConfig ?e0 = Inr empty_Config
      \<and> [''-ignore-gitignore''] \<noteq> []
      \<and> parseArguments (strings_Fields ?e0) [''-ignore-gitignore'']
          = Inr (initial_Options\<lparr>ignoreGitIgnore := True\<rparr>)
      \<and> saveName (initial_Options\<lparr>ignoreGitIgnore := True\<rparr>) = []
      \<and> byName (initial_Options\<lparr>ignoreGitIgnore := True\<rparr>) = []
      \<and> files (initial_Options\<lparr>ignoreGitIgnore := True\<rparr>) = []"
    by (simp add: example_env_def loadConfig_def parseArguments_def initial_Options_def)
  from C5_no_name_no_files [where env = ?e0 and w = 0 and args = "[''-ignore-gitignore'']",
      THEN conjunct2, THEN conjunct2, THEN conjunct2, THEN conjunct2, THEN conjunct2,
      THEN mp, OF k]
  have e: "main ?e0 0 [''-ignore-gitignore'']
      = fatal [] [] [''-ignore-gitignore'']
          ''No files specified. Please provide at least one file.''" .
  from a b c d e show ?thesis by (intro conjI)
qed

text \<open>
  C2, at the invocation \<open>-by-name my-config\<close> in a directory whose preset
  \<open>my-config\<close> is \<open>-files a.py\<close>. Replaying the stored tokens would copy the block of
  \<open>a.py\<close>, as the invocation \<open>-files a.py\<close> does. \<^verbatim>\<open>src/main.go\<close> ends with "No files
  specified"; \<^verbatim>\<open>src/unnamed/part_000\<close> puts the stored tokens into \<^verbatim>\<open>os.Args\<close> and copies
  the empty output of the original, empty file list. In the same way the preset that
  \<^verbatim>\<open>src/unnamed/part_000\<close> selects alone or by the number read is not processed, while
  \<^verbatim>\<open>src/main.go\<close> does process the preset chosen by number.
\<close>

theorem C2_stored_tokens_not_replayed:
  "preset_stored one_preset_Config ''/proj'' ''my-config'' = Some [''-files'', ''a.py'']
   \<and> copied (main (example_env example_files one_preset_Config []) 0 [''-files'', ''a.py''])
       = Some ''a.py\<newline>```python\<newline>print(1)\<newline>```\<newline>======\<newline>''
   \<and> fatal_message (main (example_env example_files one_preset_Config []) 0
         [''-by-name'', ''my-config''])
       = Some ''No files specified. Please provide at least one file.''
   \<and> os_Args (main_part000 (example_env example_files one_preset_Config []) 0 ''prog''
         [''-by-name'', ''my-config'']) = [''-files'', ''a.py'']
   \<and> copied (main_part000 (example_env example_files one_preset_Config []) 0 ''prog''
         [''-by-name'', ''my-config'']) = Some []
   \<and> os_Args (main_part000 (example_env example_files one_preset_Config []) 0 ''prog'' [])
       = [''-files'', ''a.py'']
   \<and> copied (main_part000 (example_env example_files one_preset_Config []) 0 ''prog'' []) = Some []
   \<and> os_Args (main_part000 (example_env example_files two_presets_Config ''2\<newline>'') 0 ''prog'' [])
       = [''-files'', ''b.unknown'', ''-wrap-code'', ''false'']
   \<and> copied (main_part000 (example_env example_files two_presets_Config ''2\<newline>'') 0 ''prog'' [])
       = Some []
   \<and> copied (main (example_env example_files two_presets_Config ''2\<newline>'') 0 [])
       = Some ''b.unknown\<newline>xyz\<newline>======\<newline>''"
  by code_simp

text \<open>
  What \<^verbatim>\<open>src/unnamed/part_000\<close> copies is computed from the options parsed at the start,
  whatever tokens the selection has put into \<^verbatim>\<open>os.Args\<close>; and what it saves is the
  argument list as it came.
\<close>

lemma main_part000_processes_original_options:
  assumes "os_UserHomeDir env = Inr home" "loadConfig_part000 env = Inr cfg"
    and "parseArguments (strings_Fields env) args = Inr opts" "saveName opts = []"
    and "resolve_part000 env cfg opts prog args = (sout, Inr args')"
  shows "copied (main_part000 env w prog args) =
     (case process_part000 env w opts (FileTypeExecutables cfg) of
        Inl e \<Rightarrow> None
      | Inr (w', out, lg, eo) \<Rightarrow>
          (case clipboard_WriteAll env out of Some err \<Rightarrow> None | None \<Rightarrow> Some out))"
  using assms
  by (auto simp: main_part000_def copied_def fatal_def split: sum.splits prod.splits option.splits)

lemma store_part000_stored:
  "preset_stored (store_part000 cfg dir name args) dir name = Some args"
  by (simp add: store_part000_def preset_stored_def Folders_index_def Let_def update_conv')

end
